theory Spec2Isabelle
  imports Complex_Main "HOL-Library.Multiset"
begin

section \<open>Numbers\<close>

text \<open>
  The engine computes with JavaScript numbers. Input numbers (beam length, positions,
  load magnitudes) are modelled as \<open>real\<close>: finite, and without rounding, so every
  equation below is about exact arithmetic and says nothing on rounding error or overflow.
  Values that the code computes through a division it does not guard (the bending moment)
  are modelled as \<open>jsnum\<close>, the reals extended by the three special values of IEEE
  arithmetic. The sign of a zero is not tracked: a zero divisor counts as \<open>+0\<close>.
  Every other division of the engine is by a unit factor, by a positive constant, or by a
  length that a preceding test or the strict order of the events keeps from zero on every
  run of the analysis; those are written with the division of the reals.
  \<open>Math.sin\<close> and \<open>Math.cos\<close> are the real sine and cosine.
\<close>

datatype jsnum = Fin real | PInf | NInf | NaN

fun js_neg :: "jsnum \<Rightarrow> jsnum" where
  "js_neg (Fin a) = Fin (- a)"
| "js_neg PInf = NInf"
| "js_neg NInf = PInf"
| "js_neg NaN = NaN"

fun js_add :: "jsnum \<Rightarrow> jsnum \<Rightarrow> jsnum" where
  "js_add (Fin a) (Fin b) = Fin (a + b)"
| "js_add NaN y = NaN"
| "js_add x NaN = NaN"
| "js_add PInf NInf = NaN"
| "js_add NInf PInf = NaN"
| "js_add PInf y = PInf"
| "js_add NInf y = NInf"
| "js_add x PInf = PInf"
| "js_add x NInf = NInf"

fun js_inf_signed :: "bool \<Rightarrow> jsnum" where
  "js_inf_signed True = PInf"
| "js_inf_signed False = NInf"

fun js_mul :: "jsnum \<Rightarrow> jsnum \<Rightarrow> jsnum" where
  "js_mul (Fin a) (Fin b) = Fin (a * b)"
| "js_mul NaN y = NaN"
| "js_mul x NaN = NaN"
| "js_mul (Fin a) PInf = (if a = 0 then NaN else js_inf_signed (0 < a))"
| "js_mul (Fin a) NInf = (if a = 0 then NaN else js_inf_signed (a < 0))"
| "js_mul PInf (Fin b) = (if b = 0 then NaN else js_inf_signed (0 < b))"
| "js_mul NInf (Fin b) = (if b = 0 then NaN else js_inf_signed (b < 0))"
| "js_mul PInf PInf = PInf"
| "js_mul NInf NInf = PInf"
| "js_mul PInf NInf = NInf"
| "js_mul NInf PInf = NInf"

fun js_div :: "jsnum \<Rightarrow> jsnum \<Rightarrow> jsnum" where
  "js_div (Fin a) (Fin b) =
     (if b \<noteq> 0 then Fin (a / b) else if a = 0 then NaN else js_inf_signed (0 < a))"
| "js_div NaN y = NaN"
| "js_div x NaN = NaN"
| "js_div (Fin a) PInf = Fin 0"
| "js_div (Fin a) NInf = Fin 0"
| "js_div PInf (Fin b) = js_inf_signed (0 \<le> b)"
| "js_div NInf (Fin b) = js_inf_signed (b < 0)"
| "js_div PInf PInf = NaN"
| "js_div PInf NInf = NaN"
| "js_div NInf PInf = NaN"
| "js_div NInf NInf = NaN"

instantiation jsnum :: "{plus, minus, uminus, times, inverse}"
begin

definition plus_jsnum :: "jsnum \<Rightarrow> jsnum \<Rightarrow> jsnum" where
  "plus_jsnum x y = js_add x y"

definition uminus_jsnum :: "jsnum \<Rightarrow> jsnum" where
  "uminus_jsnum x = js_neg x"

definition minus_jsnum :: "jsnum \<Rightarrow> jsnum \<Rightarrow> jsnum" where
  "minus_jsnum x y = js_add x (js_neg y)"

definition times_jsnum :: "jsnum \<Rightarrow> jsnum \<Rightarrow> jsnum" where
  "times_jsnum x y = js_mul x y"

definition divide_jsnum :: "jsnum \<Rightarrow> jsnum \<Rightarrow> jsnum" where
  "divide_jsnum x y = js_div x y"

definition inverse_jsnum :: "jsnum \<Rightarrow> jsnum" where
  "inverse_jsnum x = js_div (Fin 1) x"

instance ..

end

text \<open>\<open>x > y\<close> and \<open>x < y\<close> on numbers: every comparison with \<open>NaN\<close> is false.\<close>

fun js_gt :: "jsnum \<Rightarrow> jsnum \<Rightarrow> bool" where
  "js_gt (Fin a) (Fin b) = (b < a)"
| "js_gt NaN y = False"
| "js_gt x NaN = False"
| "js_gt NInf y = False"
| "js_gt x PInf = False"
| "js_gt PInf y = True"
| "js_gt x NInf = True"

definition js_lt :: "jsnum \<Rightarrow> jsnum \<Rightarrow> bool" where
  "js_lt x y = js_gt y x"

text \<open>
  \<open>v || d\<close> on an optional number: the default \<open>d\<close> replaces \<open>undefined\<close>, \<open>0\<close> and
  \<open>NaN\<close>.
\<close>

definition js_or :: "real option \<Rightarrow> real \<Rightarrow> real" where
  "js_or v d = (case v of None \<Rightarrow> d | Some r \<Rightarrow> if r = 0 then d else r)"

definition num_or :: "jsnum option \<Rightarrow> jsnum \<Rightarrow> jsnum" where
  "num_or v d = (case v of None \<Rightarrow> d | Some r \<Rightarrow> if r = Fin 0 \<or> r = NaN then d else r)"

text \<open>\<open>v!\<close> read as a number: \<open>undefined\<close> converts to \<open>NaN\<close>.\<close>

definition num_of :: "real option \<Rightarrow> jsnum" where
  "num_of v = (case v of None \<Rightarrow> NaN | Some r \<Rightarrow> Fin r)"

definition num_of_opt :: "jsnum option \<Rightarrow> jsnum" where
  "num_of_opt v = (case v of None \<Rightarrow> NaN | Some r \<Rightarrow> r)"

text \<open>\<open>Math.round\<close>: the nearest integer, a tie going up.\<close>

definition Math_round :: "real \<Rightarrow> real" where
  "Math_round v = of_int \<lfloor>v + 1 / 2\<rfloor>"

section \<open>Data model (types/beam.ts)\<close>

record Units =
  u_length :: string
  u_force :: string

record BeamData =
  beam_length :: real
  units :: Units

datatype support_type = PinRoller | Fixed

datatype side = Left | Right

record Support =
  s_type :: support_type
  pin_x :: "real option"
  roller_x :: "real option"
  fixed_pos :: "side option"

record PointLoad =
  pl_label :: string
  pl_x :: real
  pl_P :: real

record AngledLoad =
  al_label :: string
  al_x :: real
  al_P :: real
  al_theta_deg :: real

record UDLLoad =
  udl_label :: string
  udl_a :: real
  udl_b :: real
  udl_w :: real

record UVLLoad =
  uvl_label :: string
  uvl_a :: real
  uvl_b :: real
  uvl_w1 :: real
  uvl_w2 :: real

record MomentLoad =
  ml_label :: string
  ml_x :: real
  ml_M :: real

record Loads =
  point :: "PointLoad list"
  angled :: "AngledLoad list"
  udl :: "UDLLoad list"
  uvl :: "UVLLoad list"
  moment :: "MomentLoad list"

datatype reaction_type = Vertical | Moment | Horizontal

record Reaction =
  r_type :: reaction_type
  r_at :: string
  r_x :: "real option"
  r_R :: "real option"
  r_M :: "real option"
  r_H :: "real option"

datatype segment_type = Const | Linear | Quadratic | Cubic

record DiagramSegment =
  seg_a :: real
  seg_b :: real
  seg_type :: segment_type
  V_a :: "real option"
  V_b :: "real option"
  M_a :: "jsnum option"
  M_b :: "jsnum option"
  coeffs :: "jsnum list option"

record Positions =
  Vmax_pos :: real
  Vmin_pos :: real
  Mmax_pos :: real
  Mmin_pos :: real

record Extrema =
  Vmax :: jsnum
  Vmin :: jsnum
  Mmax :: jsnum
  Mmin :: jsnum
  positions :: Positions

record AnalysisResult =
  reactions :: "Reaction list"
  events :: "real list"
  V_segments :: "DiagramSegment list"
  M_segments :: "DiagramSegment list"
  extrema :: Extrema
  isValid :: bool
  error :: "string option"

section \<open>Unit conversion\<close>

definition BASE_UNITS :: Units where
  "BASE_UNITS = \<lparr>u_length = ''m'', u_force = ''N''\<rparr>"

text \<open>
  The two tables are object literals read by key. A key that is not in the table reads as
  \<open>undefined\<close> (names inherited from \<open>Object.prototype\<close> are not modelled).
\<close>

definition LENGTH_CONVERSIONS :: "string \<Rightarrow> real option" where
  "LENGTH_CONVERSIONS = map_of [(''m'', 1), (''mm'', 1 / 1000), (''ft'', 3048 / 10000)]"

definition FORCE_CONVERSIONS :: "string \<Rightarrow> real option" where
  "FORCE_CONVERSIONS = map_of [(''N'', 1), (''kN'', 1000), (''kips'', 444822 / 100)]"

definition convertLength :: "real \<Rightarrow> string \<Rightarrow> string \<Rightarrow> real" where
  "convertLength v fromUnit toUnit =
     (let fromFactor = js_or (LENGTH_CONVERSIONS fromUnit) 1;
          toFactor = js_or (LENGTH_CONVERSIONS toUnit) 1
      in (v * fromFactor) / toFactor)"

definition convertForce :: "real \<Rightarrow> string \<Rightarrow> string \<Rightarrow> real" where
  "convertForce v fromUnit toUnit =
     (let fromFactor = js_or (FORCE_CONVERSIONS fromUnit) 1;
          toFactor = js_or (FORCE_CONVERSIONS toUnit) 1
      in (v * fromFactor) / toFactor)"

text \<open>The force conversion on a computed number that may not be finite.\<close>

definition convertForceN :: "jsnum \<Rightarrow> string \<Rightarrow> string \<Rightarrow> jsnum" where
  "convertForceN v fromUnit toUnit =
     (let fromFactor = js_or (FORCE_CONVERSIONS fromUnit) 1;
          toFactor = js_or (FORCE_CONVERSIONS toUnit) 1
      in (v * Fin fromFactor) / Fin toFactor)"

definition convertLoadsToBaseUnits :: "Loads \<Rightarrow> Units \<Rightarrow> Loads" where
  "convertLoadsToBaseUnits loads un =
     \<lparr>point = map (\<lambda>load. load
          \<lparr>pl_x := convertLength (pl_x load) (u_length un) (u_length BASE_UNITS),
           pl_P := convertForce (pl_P load) (u_force un) (u_force BASE_UNITS)\<rparr>) (point loads),
      angled = map (\<lambda>load. load
          \<lparr>al_x := convertLength (al_x load) (u_length un) (u_length BASE_UNITS),
           al_P := convertForce (al_P load) (u_force un) (u_force BASE_UNITS)\<rparr>) (angled loads),
      udl = map (\<lambda>load. load
          \<lparr>udl_a := convertLength (udl_a load) (u_length un) (u_length BASE_UNITS),
           udl_b := convertLength (udl_b load) (u_length un) (u_length BASE_UNITS),
           udl_w := convertForce (udl_w load) (u_force un) (u_force BASE_UNITS)
                    / convertLength 1 (u_length un) (u_length BASE_UNITS)\<rparr>) (udl loads),
      uvl = map (\<lambda>load. load
          \<lparr>uvl_a := convertLength (uvl_a load) (u_length un) (u_length BASE_UNITS),
           uvl_b := convertLength (uvl_b load) (u_length un) (u_length BASE_UNITS),
           uvl_w1 := convertForce (uvl_w1 load) (u_force un) (u_force BASE_UNITS)
                     / convertLength 1 (u_length un) (u_length BASE_UNITS),
           uvl_w2 := convertForce (uvl_w2 load) (u_force un) (u_force BASE_UNITS)
                     / convertLength 1 (u_length un) (u_length BASE_UNITS)\<rparr>) (uvl loads),
      moment = map (\<lambda>load. load
          \<lparr>ml_x := convertLength (ml_x load) (u_length un) (u_length BASE_UNITS),
           ml_M := convertForce (ml_M load) (u_force un) (u_force BASE_UNITS)
                   * convertLength 1 (u_length un) (u_length BASE_UNITS)\<rparr>) (moment loads)\<rparr>"

definition convertSupportsToBaseUnits :: "Support \<Rightarrow> string \<Rightarrow> Support" where
  "convertSupportsToBaseUnits supports lengthUnit =
     (if s_type supports = PinRoller then
        supports
          \<lparr>pin_x := Some (convertLength (js_or (pin_x supports) 0) lengthUnit (u_length BASE_UNITS)),
           roller_x := Some (convertLength (js_or (roller_x supports) 0) lengthUnit (u_length BASE_UNITS))\<rparr>
      else supports)"

section \<open>Support validation\<close>

definition validateSupports :: "Support \<Rightarrow> real \<Rightarrow> bool" where
  "validateSupports supports len =
     (if s_type supports = PinRoller then
        (let pin = js_or (pin_x supports) 0;
             roller = js_or (roller_x supports) len
         in pin \<ge> 0 \<and> roller \<le> len \<and> pin \<noteq> roller)
      else True)"

section \<open>Reactions\<close>

text \<open>
  The three running totals of \<open>calculateReactions\<close>; each \<open>forEach\<close> is a fold that
  updates them load by load, in the order of the source.
\<close>

record totals =
  totalVerticalForce :: real
  totalMoment :: real
  totalHorizontalForce :: real

definition add_point :: "real \<Rightarrow> PointLoad \<Rightarrow> totals \<Rightarrow> totals" where
  "add_point px load t =
     t\<lparr>totalVerticalForce := totalVerticalForce t + pl_P load,
       totalMoment := totalMoment t + pl_P load * (pl_x load - px)\<rparr>"

definition add_angled :: "real \<Rightarrow> AngledLoad \<Rightarrow> totals \<Rightarrow> totals" where
  "add_angled px load t =
     (let Px = al_P load * cos (al_theta_deg load * pi / 180);
          Py = al_P load * sin (al_theta_deg load * pi / 180)
      in t\<lparr>totalVerticalForce := totalVerticalForce t + Py,
            totalMoment := totalMoment t + Py * (al_x load - px),
            totalHorizontalForce := totalHorizontalForce t + Px\<rparr>)"

definition add_udl :: "real \<Rightarrow> UDLLoad \<Rightarrow> totals \<Rightarrow> totals" where
  "add_udl px load t =
     (let R = udl_w load * (udl_b load - udl_a load);
          xR = (udl_a load + udl_b load) / 2
      in t\<lparr>totalVerticalForce := totalVerticalForce t + R,
            totalMoment := totalMoment t + R * (xR - px)\<rparr>)"

definition add_uvl :: "real \<Rightarrow> UVLLoad \<Rightarrow> totals \<Rightarrow> totals" where
  "add_uvl px load t =
     (let L = uvl_b load - uvl_a load;
          R = (uvl_w1 load + uvl_w2 load) * L / 2
      in if \<bar>uvl_w1 load + uvl_w2 load\<bar> > 1 / 10 ^ 10 then
           (let xR = uvl_a load + L * (uvl_w1 load + 2 * uvl_w2 load)
                                   / (3 * (uvl_w1 load + uvl_w2 load))
            in t\<lparr>totalVerticalForce := totalVerticalForce t + R,
                  totalMoment := totalMoment t + R * (xR - px)\<rparr>)
         else t)"

definition add_moment :: "MomentLoad \<Rightarrow> totals \<Rightarrow> totals" where
  "add_moment load t = t\<lparr>totalMoment := totalMoment t + ml_M load\<rparr>"

definition totals0 :: totals where
  "totals0 = \<lparr>totalVerticalForce = 0, totalMoment = 0, totalHorizontalForce = 0\<rparr>"

definition calculateReactions :: "Loads \<Rightarrow> Support \<Rightarrow> real \<Rightarrow> Reaction list" where
  "calculateReactions loads supports len =
     (if s_type supports = PinRoller then
        (let pin = js_or (pin_x supports) 0;
             roller = js_or (roller_x supports) len;
             t = fold (add_point pin) (point loads) totals0;
             t = fold (add_angled pin) (angled loads) t;
             t = fold (add_udl pin) (udl loads) t;
             t = fold (add_uvl pin) (uvl loads) t;
             rollerReaction = totalMoment t / (roller - pin);
             pinReaction = totalVerticalForce t - rollerReaction
         in [\<lparr>r_type = Vertical, r_at = ''pin'', r_x = Some pin, r_R = Some pinReaction,
               r_M = None, r_H = None\<rparr>,
             \<lparr>r_type = Vertical, r_at = ''roller'', r_x = Some roller, r_R = Some rollerReaction,
               r_M = None, r_H = None\<rparr>]
            @ (if \<bar>totalHorizontalForce t\<bar> > 1 / 10 ^ 10 then
                 [\<lparr>r_type = Horizontal, r_at = ''pin'', r_x = None, r_R = None, r_M = None,
                   r_H = Some (- totalHorizontalForce t)\<rparr>]
               else []))
      else
        (let fixed_x = (if fixed_pos supports = Some Right then len else 0);
             t = fold (add_point fixed_x) (point loads) totals0;
             t = fold (add_angled fixed_x) (angled loads) t;
             t = fold (add_udl fixed_x) (udl loads) t;
             t = fold (add_uvl fixed_x) (uvl loads) t;
             t = fold add_moment (moment loads) t;
             fixedReaction = - totalVerticalForce t;
             fixedMoment = - totalMoment t
         in [\<lparr>r_type = Vertical, r_at = ''fixed'', r_x = Some fixed_x, r_R = Some fixedReaction,
               r_M = None, r_H = None\<rparr>,
             \<lparr>r_type = Moment, r_at = ''fixed'', r_x = Some fixed_x, r_R = None,
               r_M = Some fixedMoment, r_H = None\<rparr>]
            @ (if \<bar>totalHorizontalForce t\<bar> > 1 / 10 ^ 10 then
                 [\<lparr>r_type = Horizontal, r_at = ''fixed'', r_x = None, r_R = None, r_M = None,
                   r_H = Some (- totalHorizontalForce t)\<rparr>]
               else [])))"

section \<open>Events\<close>

text \<open>
  \<open>Set<number>\<close> keeps its members in insertion order and ignores the insertion of a
  member it already has; \<open>Array.from(events).sort((a, b) => a - b)\<close> sorts ascending.
\<close>

definition set_add :: "real list \<Rightarrow> real \<Rightarrow> real list" where
  "set_add s v = (if v \<in> set s then s else s @ [v])"

definition generateEvents :: "Loads \<Rightarrow> Support \<Rightarrow> real \<Rightarrow> real list" where
  "generateEvents loads supports len =
     (let ev = set_add [] 0;
          ev = set_add ev len;
          ev = (if s_type supports = PinRoller then
                  set_add (set_add ev (js_or (pin_x supports) 0)) (js_or (roller_x supports) len)
                else
                  set_add ev (if fixed_pos supports = Some Right then len else 0));
          ev = fold (\<lambda>load ev. set_add ev (pl_x load)) (point loads) ev;
          ev = fold (\<lambda>load ev. set_add ev (al_x load)) (angled loads) ev;
          ev = fold (\<lambda>load ev. set_add (set_add ev (udl_a load)) (udl_b load)) (udl loads) ev;
          ev = fold (\<lambda>load ev. set_add (set_add ev (uvl_a load)) (uvl_b load)) (uvl loads) ev;
          ev = fold (\<lambda>load ev. set_add ev (ml_x load)) (moment loads) ev
      in sort ev)"

section \<open>Shear segments\<close>

text \<open>The shear just right of an event \<open>a\<close>: one fold for each \<open>forEach\<close>.\<close>

definition shear_reaction_step :: "real \<Rightarrow> Reaction \<Rightarrow> real \<Rightarrow> real" where
  "shear_reaction_step a reaction V =
     (case r_x reaction of
        Some x \<Rightarrow> if r_type reaction = Vertical \<and> x \<le> a then V + js_or (r_R reaction) 0 else V
      | None \<Rightarrow> V)"

definition shear_point_step :: "real \<Rightarrow> PointLoad \<Rightarrow> real \<Rightarrow> real" where
  "shear_point_step a load V = (if pl_x load \<le> a then V - pl_P load else V)"

definition shear_angled_step :: "real \<Rightarrow> AngledLoad \<Rightarrow> real \<Rightarrow> real" where
  "shear_angled_step a load V =
     (if al_x load \<le> a then
        (let Py = al_P load * sin (al_theta_deg load * pi / 180) in V - Py)
      else V)"

definition shear_udl_step :: "real \<Rightarrow> UDLLoad \<Rightarrow> real \<Rightarrow> real" where
  "shear_udl_step a load V =
     (if udl_b load \<le> a then V - udl_w load * (udl_b load - udl_a load)
      else if udl_a load < a then V - udl_w load * (a - udl_a load)
      else V)"

definition shear_uvl_step :: "real \<Rightarrow> UVLLoad \<Rightarrow> real \<Rightarrow> real" where
  "shear_uvl_step a load V =
     (if uvl_b load \<le> a then
        V - (uvl_w1 load + uvl_w2 load) * (uvl_b load - uvl_a load) / 2
      else if uvl_a load < a then
        (let x_rel = a - uvl_a load;
             L_total = uvl_b load - uvl_a load;
             w_at_a = uvl_w1 load + (uvl_w2 load - uvl_w1 load) * x_rel / L_total
         in V - (uvl_w1 load + w_at_a) * x_rel / 2)
      else V)"

definition shear_start :: "Loads \<Rightarrow> Reaction list \<Rightarrow> real \<Rightarrow> real" where
  "shear_start loads rs a =
     (let V = fold (shear_reaction_step a) rs 0;
          V = fold (shear_point_step a) (point loads) V;
          V = fold (shear_angled_step a) (angled loads) V;
          V = fold (shear_udl_step a) (udl loads) V;
          V = fold (shear_uvl_step a) (uvl loads) V
      in V)"

text \<open>
  Which distributed load shapes the segment: each loop overwrites what the previous
  matching load wrote, so the last matching load of an array wins.
\<close>

definition udl_scan_step :: "real \<Rightarrow> real \<Rightarrow> UDLLoad \<Rightarrow> bool \<times> real \<Rightarrow> bool \<times> real" where
  "udl_scan_step a b load st =
     (if udl_a load < b \<and> udl_b load > a then (True, - udl_w load) else st)"

definition uvl_scan_step ::
  "real \<Rightarrow> real \<Rightarrow> UVLLoad \<Rightarrow> bool \<times> real \<times> real \<Rightarrow> bool \<times> real \<times> real" where
  "uvl_scan_step a b load st =
     (if uvl_a load < b \<and> uvl_b load > a then
        (let segStart = max (uvl_a load) a;
             segEnd = min (uvl_b load) b;
             uvlLength = uvl_b load - uvl_a load;
             x1_rel = (segStart - uvl_a load) / uvlLength;
             x2_rel = (segEnd - uvl_a load) / uvlLength;
             uvlW1 = uvl_w1 load + (uvl_w2 load - uvl_w1 load) * x1_rel;
             uvlW2 = uvl_w1 load + (uvl_w2 load - uvl_w1 load) * x2_rel
         in (True, uvlW1, uvlW2))
      else st)"

definition shear_segment :: "Loads \<Rightarrow> Reaction list \<Rightarrow> real \<Rightarrow> real \<Rightarrow> DiagramSegment" where
  "shear_segment loads rs a b =
     (let Va = shear_start loads rs a;
          (hasUDL, udlRate) = fold (udl_scan_step a b) (udl loads) (False, 0);
          (hasUVL, uvlW1, uvlW2) = fold (uvl_scan_step a b) (uvl loads) (False, 0, 0);
          segmentType = (if hasUVL then Quadratic else if hasUDL then Linear else Const);
          cs = (if hasUVL then
                  (let slope = (uvlW2 - uvlW1) / (b - a) in [Va, - uvlW1, - slope / 2])
                else if hasUDL then [Va, udlRate]
                else [Va]);
          Vb = (if hasUVL then
                  (let dx = b - a in cs ! 0 + cs ! 1 * dx + cs ! 2 * dx * dx)
                else if hasUDL then Va + udlRate * (b - a)
                else Va)
      in \<lparr>seg_a = a, seg_b = b, seg_type = segmentType, V_a = Some Va, V_b = Some Vb,
          M_a = None, M_b = None, coeffs = Some (map Fin cs)\<rparr>)"

definition calculateShearSegments ::
  "Loads \<Rightarrow> Reaction list \<Rightarrow> real list \<Rightarrow> real \<Rightarrow> DiagramSegment list" where
  "calculateShearSegments loads rs evs len =
     map (\<lambda>i. shear_segment loads rs (evs ! i) (evs ! (i + 1))) [0..<length evs - 1]"

section \<open>Moment segments\<close>

text \<open>
  The moment at an event \<open>a\<close>. The two quotients of the distributed-load centroid are
  divisions of the source that no test guards, so they are \<open>jsnum\<close> divisions.
\<close>

definition moment_reaction_step :: "real \<Rightarrow> Reaction \<Rightarrow> jsnum \<Rightarrow> jsnum" where
  "moment_reaction_step a reaction M =
     (let M = (case r_x reaction of
                 Some x \<Rightarrow> if r_type reaction = Vertical \<and> x < a
                            then M + Fin (js_or (r_R reaction) 0 * (a - x)) else M
               | None \<Rightarrow> M);
          M = (case r_x reaction of
                 Some x \<Rightarrow> if r_type reaction = Moment \<and> x \<le> a
                            then M + Fin (js_or (r_M reaction) 0) else M
               | None \<Rightarrow> M)
      in M)"

definition moment_point_step :: "real \<Rightarrow> PointLoad \<Rightarrow> jsnum \<Rightarrow> jsnum" where
  "moment_point_step a load M =
     (if pl_x load < a then M - Fin (pl_P load * (a - pl_x load)) else M)"

definition moment_angled_step :: "real \<Rightarrow> AngledLoad \<Rightarrow> jsnum \<Rightarrow> jsnum" where
  "moment_angled_step a load M =
     (if al_x load < a then
        (let Py = al_P load * sin (al_theta_deg load * pi / 180)
         in M - Fin (Py * (a - al_x load)))
      else M)"

definition moment_udl_step :: "real \<Rightarrow> UDLLoad \<Rightarrow> jsnum \<Rightarrow> jsnum" where
  "moment_udl_step a load M =
     (if udl_b load \<le> a then
        (let R = udl_w load * (udl_b load - udl_a load);
             xR = (udl_a load + udl_b load) / 2
         in M - Fin (R * (a - xR)))
      else if udl_a load < a \<and> udl_b load > a then
        (let L_active = a - udl_a load;
             R_active = udl_w load * L_active
         in M - Fin (R_active * L_active / 2))
      else M)"

definition moment_uvl_step :: "real \<Rightarrow> UVLLoad \<Rightarrow> jsnum \<Rightarrow> jsnum" where
  "moment_uvl_step a load M =
     (if uvl_b load \<le> a then
        (let R = (uvl_w1 load + uvl_w2 load) * (uvl_b load - uvl_a load) / 2;
             L = uvl_b load - uvl_a load;
             xR = Fin (uvl_a load)
                  + Fin (L * (uvl_w1 load + 2 * uvl_w2 load))
                    / Fin (3 * (uvl_w1 load + uvl_w2 load))
         in M - Fin R * (Fin a - xR))
      else if uvl_a load < a \<and> uvl_b load > a then
        (let L_active = a - uvl_a load;
             w_at_a = uvl_w1 load
                      + (uvl_w2 load - uvl_w1 load) * L_active / (uvl_b load - uvl_a load);
             R_active = (uvl_w1 load + w_at_a) * L_active / 2;
             xR = Fin (uvl_a load)
                  + Fin (L_active * (uvl_w1 load + 2 * w_at_a))
                    / Fin (3 * (uvl_w1 load + w_at_a))
         in M - Fin R_active * (Fin a - xR))
      else M)"

definition moment_moment_step :: "real \<Rightarrow> MomentLoad \<Rightarrow> jsnum \<Rightarrow> jsnum" where
  "moment_moment_step a load M = (if ml_x load \<le> a then M + Fin (ml_M load) else M)"

definition moment_start :: "Loads \<Rightarrow> Reaction list \<Rightarrow> real \<Rightarrow> jsnum" where
  "moment_start loads rs a =
     (let M = fold (moment_reaction_step a) rs (Fin 0);
          M = fold (moment_point_step a) (point loads) M;
          M = fold (moment_angled_step a) (angled loads) M;
          M = fold (moment_udl_step a) (udl loads) M;
          M = fold (moment_uvl_step a) (uvl loads) M;
          M = fold (moment_moment_step a) (moment loads) M
      in M)"

text \<open>
  Reading an array: \<open>cs[k]\<close> is \<open>undefined\<close> past the end, \<open>cs?.[k]\<close> also when the
  array itself is missing.
\<close>

definition at_index :: "'a list \<Rightarrow> nat \<Rightarrow> 'a option" where
  "at_index xs k = (if k < length xs then Some (xs ! k) else None)"

definition opt_index :: "'a list option \<Rightarrow> nat \<Rightarrow> 'a option" where
  "opt_index xs k = (case xs of None \<Rightarrow> None | Some ys \<Rightarrow> at_index ys k)"

definition moment_segment ::
  "DiagramSegment \<Rightarrow> Loads \<Rightarrow> Reaction list \<Rightarrow> real \<Rightarrow> real \<Rightarrow> DiagramSegment" where
  "moment_segment V_segment loads rs a b =
     (let Ma = moment_start loads rs a;
          (segmentType, cs) =
            (if seg_type V_segment = Const then
               (Linear, [Ma, Fin (js_or (V_a V_segment) 0)])
             else if seg_type V_segment = Linear then
               (let c1 = num_or (opt_index (coeffs V_segment) 1) (Fin 0)
                in (Quadratic, [Ma, Fin (js_or (V_a V_segment) 0), c1 / Fin 2]))
             else if seg_type V_segment = Quadratic then
               (let c0 = num_or (opt_index (coeffs V_segment) 0) (Fin 0);
                    c1 = num_or (opt_index (coeffs V_segment) 1) (Fin 0);
                    c2 = num_or (opt_index (coeffs V_segment) 2) (Fin 0)
                in (Cubic, [Ma, c0, c1 / Fin 2, c2 / Fin 3]))
             else (Linear, []));
          dx = Fin (b - a);
          c = (\<lambda>k. num_of_opt (at_index cs k));
          Mb = (if segmentType = Linear then c 0 + c 1 * dx
                else if segmentType = Quadratic then c 0 + c 1 * dx + c 2 * dx * dx
                else if segmentType = Cubic then
                  c 0 + c 1 * dx + c 2 * dx * dx + c 3 * dx * dx * dx
                else Ma)
      in \<lparr>seg_a = a, seg_b = b, seg_type = segmentType, V_a = None, V_b = None,
          M_a = Some Ma, M_b = Some Mb, coeffs = Some cs\<rparr>)"

text \<open>
  \<open>V_segments[i]\<close> past the end is \<open>undefined\<close>, and reading its \<open>type\<close> throws: the
  function then has no result (\<open>None\<close>), and the caller's \<open>catch\<close> takes over.
\<close>

definition calculateMomentSegments ::
  "DiagramSegment list \<Rightarrow> Loads \<Rightarrow> Reaction list \<Rightarrow> real list \<Rightarrow> real
   \<Rightarrow> DiagramSegment list option" where
  "calculateMomentSegments Vs loads rs evs len =
     those (map (\<lambda>i. case at_index Vs i of
                        None \<Rightarrow> None
                      | Some V_segment \<Rightarrow>
                          Some (moment_segment V_segment loads rs (evs ! i) (evs ! (i + 1))))
                [0..<length evs - 1])"

section \<open>Moment at a point\<close>

definition mp_reaction_step :: "real \<Rightarrow> Reaction \<Rightarrow> jsnum \<Rightarrow> jsnum" where
  "mp_reaction_step x reaction M =
     (case r_x reaction of
        Some rx \<Rightarrow> if r_type reaction = Vertical \<and> rx < x
                   then M + Fin (js_or (r_R reaction) 0 * (x - rx)) else M
      | None \<Rightarrow> M)"

definition mp_udl_step :: "real \<Rightarrow> UDLLoad \<Rightarrow> jsnum \<Rightarrow> jsnum" where
  "mp_udl_step x load M =
     (if udl_b load < x then
        (let R = udl_w load * (udl_b load - udl_a load);
             xR = (udl_a load + udl_b load) / 2
         in M - Fin (R * (x - xR)))
      else if udl_a load < x then
        (let L_active = x - udl_a load;
             R_active = udl_w load * L_active;
             xR_active = L_active / 2
         in M - Fin (R_active * (x - (udl_a load + xR_active))))
      else M)"

definition mp_uvl_step :: "real \<Rightarrow> UVLLoad \<Rightarrow> jsnum \<Rightarrow> jsnum" where
  "mp_uvl_step x load M =
     (if uvl_b load < x then
        (let R = (uvl_w1 load + uvl_w2 load) * (uvl_b load - uvl_a load) / 2;
             xR = Fin (uvl_a load)
                  + Fin (uvl_w1 load + 2 * uvl_w2 load) / Fin (3 * (uvl_w1 load + uvl_w2 load))
                    * Fin (uvl_b load - uvl_a load)
         in M - Fin R * (Fin x - xR))
      else if uvl_a load < x then
        (let L_active = x - uvl_a load;
             w1_at_x = uvl_w1 load
                       + (uvl_w2 load - uvl_w1 load) * L_active / (uvl_b load - uvl_a load);
             R_active = (uvl_w1 load + w1_at_x) * L_active / 2;
             xR_active = Fin (uvl_a load)
                         + Fin (uvl_w1 load + 2 * w1_at_x) / Fin (3 * (uvl_w1 load + w1_at_x))
                           * Fin L_active
         in M - Fin R_active * (Fin x - xR_active))
      else M)"

definition mp_moment_step :: "real \<Rightarrow> MomentLoad \<Rightarrow> jsnum \<Rightarrow> jsnum" where
  "mp_moment_step x load M = (if ml_x load < x then M + Fin (ml_M load) else M)"

definition calculateMomentAtPoint :: "real \<Rightarrow> Loads \<Rightarrow> Reaction list \<Rightarrow> jsnum" where
  "calculateMomentAtPoint x loads rs =
     (let M = fold (mp_reaction_step x) rs (Fin 0);
          M = fold (moment_point_step x) (point loads) M;
          M = fold (moment_angled_step x) (angled loads) M;
          M = fold (mp_udl_step x) (udl loads) M;
          M = fold (mp_uvl_step x) (uvl loads) M;
          M = fold (mp_moment_step x) (moment loads) M
      in M)"

section \<open>Extrema\<close>

text \<open>
  The running extrema start at \<open>-Infinity\<close> and \<open>Infinity\<close>; each \<open>if\<close> of the source is
  one update, applied in the source's order.
\<close>

definition extrema0 :: Extrema where
  "extrema0 = \<lparr>Vmax = NInf, Vmin = PInf, Mmax = NInf, Mmin = PInf,
     positions = \<lparr>Vmax_pos = 0, Vmin_pos = 0, Mmax_pos = 0, Mmin_pos = 0\<rparr>\<rparr>"

definition upd_Vmax :: "jsnum \<Rightarrow> real \<Rightarrow> Extrema \<Rightarrow> Extrema" where
  "upd_Vmax v p e =
     (if js_gt v (Vmax e) then e\<lparr>Vmax := v, positions := (positions e)\<lparr>Vmax_pos := p\<rparr>\<rparr> else e)"

definition upd_Vmin :: "jsnum \<Rightarrow> real \<Rightarrow> Extrema \<Rightarrow> Extrema" where
  "upd_Vmin v p e =
     (if js_lt v (Vmin e) then e\<lparr>Vmin := v, positions := (positions e)\<lparr>Vmin_pos := p\<rparr>\<rparr> else e)"

definition upd_Mmax :: "jsnum \<Rightarrow> real \<Rightarrow> Extrema \<Rightarrow> Extrema" where
  "upd_Mmax v p e =
     (if js_gt v (Mmax e) then e\<lparr>Mmax := v, positions := (positions e)\<lparr>Mmax_pos := p\<rparr>\<rparr> else e)"

definition upd_Mmin :: "jsnum \<Rightarrow> real \<Rightarrow> Extrema \<Rightarrow> Extrema" where
  "upd_Mmin v p e =
     (if js_lt v (Mmin e) then e\<lparr>Mmin := v, positions := (positions e)\<lparr>Mmin_pos := p\<rparr>\<rparr> else e)"

definition extrema_V_step :: "DiagramSegment \<Rightarrow> Extrema \<Rightarrow> Extrema" where
  "extrema_V_step segment e =
     (let e = upd_Vmax (num_of (V_a segment)) (seg_a segment) e;
          e = upd_Vmin (num_of (V_a segment)) (seg_a segment) e;
          e = upd_Vmax (num_of (V_b segment)) (seg_b segment) e;
          e = upd_Vmin (num_of (V_b segment)) (seg_b segment) e
      in e)"

definition extrema_M_step :: "DiagramSegment \<Rightarrow> Extrema \<Rightarrow> Extrema" where
  "extrema_M_step segment e =
     (let e = upd_Mmax (num_of_opt (M_a segment)) (seg_a segment) e;
          e = upd_Mmin (num_of_opt (M_a segment)) (seg_a segment) e;
          e = upd_Mmax (num_of_opt (M_b segment)) (seg_b segment) e;
          e = upd_Mmin (num_of_opt (M_b segment)) (seg_b segment) e
      in e)"

definition shear_changes_sign :: "DiagramSegment \<Rightarrow> bool" where
  "shear_changes_sign segment =
     (case (V_a segment, V_b segment) of
        (Some va, Some vb) \<Rightarrow> va * vb < 0
      | _ \<Rightarrow> False)"

definition extrema_inner_step ::
  "Loads \<Rightarrow> Reaction list \<Rightarrow> DiagramSegment \<Rightarrow> Extrema \<Rightarrow> Extrema" where
  "extrema_inner_step loads rs segment e =
     (let e = (if seg_type segment = Linear \<and> shear_changes_sign segment then
                 (let slope = (the (V_b segment) - the (V_a segment))
                              / (seg_b segment - seg_a segment);
                      zeroShearX = seg_a segment - the (V_a segment) / slope;
                      momentAtZeroShear = calculateMomentAtPoint zeroShearX loads rs;
                      e = upd_Mmax momentAtZeroShear zeroShearX e;
                      e = upd_Mmin momentAtZeroShear zeroShearX e
                  in e)
               else e);
          e = (if seg_type segment = Quadratic then
                 (let midPoint = (seg_a segment + seg_b segment) / 2;
                      momentAtMid = calculateMomentAtPoint midPoint loads rs;
                      e = upd_Mmax momentAtMid midPoint e;
                      e = upd_Mmin momentAtMid midPoint e
                  in e)
               else e)
      in e)"

definition findExtrema ::
  "DiagramSegment list \<Rightarrow> DiagramSegment list \<Rightarrow> Loads \<Rightarrow> Reaction list \<Rightarrow> real \<Rightarrow> Extrema"
  where
  "findExtrema Vs Ms loads rs len =
     (let e = fold extrema_V_step Vs extrema0;
          e = fold extrema_M_step Ms e;
          e = fold (extrema_inner_step loads rs) Vs e
      in e)"

section \<open>Display units\<close>

definition convertReactionsToDisplayUnits :: "Reaction list \<Rightarrow> Units \<Rightarrow> Reaction list" where
  "convertReactionsToDisplayUnits rs un =
     map (\<lambda>reaction. reaction
       \<lparr>r_x := map_option (\<lambda>v. convertLength v (u_length BASE_UNITS) (u_length un)) (r_x reaction),
        r_R := map_option (\<lambda>v. convertForce v (u_force BASE_UNITS) (u_force un)) (r_R reaction),
        r_M := map_option (\<lambda>v. convertForce v (u_force BASE_UNITS) (u_force un)
                               * convertLength 1 (u_length BASE_UNITS) (u_length un))
                 (r_M reaction),
        r_H := map_option (\<lambda>v. convertForce v (u_force BASE_UNITS) (u_force un)) (r_H reaction)\<rparr>)
       rs"

definition convertSegmentsToDisplayUnits ::
  "DiagramSegment list \<Rightarrow> Units \<Rightarrow> DiagramSegment list" where
  "convertSegmentsToDisplayUnits segs un =
     map (\<lambda>segment. segment
       \<lparr>seg_a := convertLength (seg_a segment) (u_length BASE_UNITS) (u_length un),
        seg_b := convertLength (seg_b segment) (u_length BASE_UNITS) (u_length un),
        V_a := map_option (\<lambda>v. convertForce v (u_force BASE_UNITS) (u_force un)) (V_a segment),
        V_b := map_option (\<lambda>v. convertForce v (u_force BASE_UNITS) (u_force un)) (V_b segment),
        M_a := map_option (\<lambda>v. convertForceN v (u_force BASE_UNITS) (u_force un)
                               * Fin (convertLength 1 (u_length BASE_UNITS) (u_length un)))
                 (M_a segment),
        M_b := map_option (\<lambda>v. convertForceN v (u_force BASE_UNITS) (u_force un)
                               * Fin (convertLength 1 (u_length BASE_UNITS) (u_length un)))
                 (M_b segment)\<rparr>)
       segs"

definition convertExtremaToDisplayUnits :: "Extrema \<Rightarrow> Units \<Rightarrow> Extrema" where
  "convertExtremaToDisplayUnits e un =
     \<lparr>Vmax = convertForceN (Vmax e) (u_force BASE_UNITS) (u_force un),
      Vmin = convertForceN (Vmin e) (u_force BASE_UNITS) (u_force un),
      Mmax = convertForceN (Mmax e) (u_force BASE_UNITS) (u_force un)
             * Fin (convertLength 1 (u_length BASE_UNITS) (u_length un)),
      Mmin = convertForceN (Mmin e) (u_force BASE_UNITS) (u_force un)
             * Fin (convertLength 1 (u_length BASE_UNITS) (u_length un)),
      positions =
        \<lparr>Vmax_pos = convertLength (Vmax_pos (positions e)) (u_length BASE_UNITS) (u_length un),
         Vmin_pos = convertLength (Vmin_pos (positions e)) (u_length BASE_UNITS) (u_length un),
         Mmax_pos = convertLength (Mmax_pos (positions e)) (u_length BASE_UNITS) (u_length un),
         Mmin_pos = convertLength (Mmin_pos (positions e)) (u_length BASE_UNITS) (u_length un)\<rparr>\<rparr>"

section \<open>The analysis\<close>

definition createErrorResult :: "string \<Rightarrow> AnalysisResult" where
  "createErrorResult msg =
     \<lparr>reactions = [], events = [], V_segments = [], M_segments = [],
      extrema = \<lparr>Vmax = Fin 0, Vmin = Fin 0, Mmax = Fin 0, Mmin = Fin 0,
                 positions = \<lparr>Vmax_pos = 0, Vmin_pos = 0, Mmax_pos = 0, Mmin_pos = 0\<rparr>\<rparr>,
      isValid = False, error = Some msg\<rparr>"

text \<open>
  The body of the \<open>try\<close>. The one statement that can throw is the read of a missing shear
  segment in \<open>calculateMomentSegments\<close>; the \<open>catch\<close> turns it into an error result, whose
  message starts with \<open>Calculation error: \<close> and goes on with the text of the exception.
\<close>

definition calculateBeamAnalysis :: "BeamData \<Rightarrow> Support \<Rightarrow> Loads \<Rightarrow> AnalysisResult" where
  "calculateBeamAnalysis beamData supports loads =
     (if beam_length beamData \<le> 0 then
        createErrorResult ''Beam length must be greater than 0''
      else
        (let baseLength = convertLength (beam_length beamData) (u_length (units beamData))
                            (u_length BASE_UNITS);
             baseLoads = convertLoadsToBaseUnits loads (units beamData);
             baseSupports = convertSupportsToBaseUnits supports (u_length (units beamData))
         in if \<not> validateSupports baseSupports baseLength then
              createErrorResult ''Invalid support configuration''
            else
              (let rs = calculateReactions baseLoads baseSupports baseLength;
                   evs = generateEvents baseLoads baseSupports baseLength;
                   Vs = calculateShearSegments baseLoads rs evs baseLength
               in case calculateMomentSegments Vs baseLoads rs evs baseLength of
                    None \<Rightarrow> createErrorResult ''Calculation error: TypeError''
                  | Some Ms \<Rightarrow>
                      (let ex = findExtrema Vs Ms baseLoads rs baseLength
                       in \<lparr>reactions = convertReactionsToDisplayUnits rs (units beamData),
                           events = map (\<lambda>x. convertLength x (u_length BASE_UNITS)
                                               (u_length (units beamData))) evs,
                           V_segments = convertSegmentsToDisplayUnits Vs (units beamData),
                           M_segments = convertSegmentsToDisplayUnits Ms (units beamData),
                           extrema = convertExtremaToDisplayUnits ex (units beamData),
                           isValid = True, error = None\<rparr>))))"

section \<open>Shear diagram samples\<close>

record ShearPoint =
  sp_x :: real
  shearForce :: jsnum

text \<open>\<open>Math.round(v * 1000) / 1000\<close> on a computed number.\<close>

definition round3 :: "real \<Rightarrow> real" where
  "round3 v = Math_round (v * 1000) / 1000"

definition round3N :: "jsnum \<Rightarrow> jsnum" where
  "round3N v = (case v of Fin r \<Rightarrow> Fin (round3 r) | _ \<Rightarrow> v)"

definition sample_numPoints :: "DiagramSegment \<Rightarrow> nat" where
  "sample_numPoints segment =
     (let numPoints = 2;
          numPoints = (if seg_type segment = Linear then 10 else numPoints);
          numPoints = (if seg_type segment = Quadratic then 20 else numPoints)
      in numPoints)"

definition sample_value :: "DiagramSegment \<Rightarrow> real \<Rightarrow> real \<Rightarrow> jsnum" where
  "sample_value segment t dx =
     (case coeffs segment of
        Some cs \<Rightarrow>
          (case seg_type segment of
             Const \<Rightarrow> num_of_opt (at_index cs 0)
           | Linear \<Rightarrow> num_of_opt (at_index cs 0) + num_or (at_index cs 1) (Fin 0) * Fin dx
           | Quadratic \<Rightarrow>
               num_of_opt (at_index cs 0) + num_or (at_index cs 1) (Fin 0) * Fin dx
               + num_or (at_index cs 2) (Fin 0) * Fin dx * Fin dx
           | Cubic \<Rightarrow> Fin 0)
      | None \<Rightarrow> num_of (V_a segment) + (num_of (V_b segment) - num_of (V_a segment)) * Fin t)"

definition sample_point :: "DiagramSegment \<Rightarrow> nat \<Rightarrow> ShearPoint" where
  "sample_point segment i =
     (let segmentLength = seg_b segment - seg_a segment;
          t = real i / real (sample_numPoints segment);
          x = seg_a segment + segmentLength * t;
          dx = x - seg_a segment
      in \<lparr>sp_x = round3 x, shearForce = round3N (sample_value segment t dx)\<rparr>)"

definition segment_points :: "DiagramSegment \<Rightarrow> ShearPoint list" where
  "segment_points segment = map (sample_point segment) [0..<sample_numPoints segment + 1]"

definition dataPoints :: "AnalysisResult \<Rightarrow> ShearPoint list" where
  "dataPoints analysisResult = concat (map segment_points (V_segments analysisResult))"

text \<open>The filter keeps the first point and every point more than 0.001 after its predecessor
  in the unfiltered array.\<close>

definition uniquePoints :: "ShearPoint list \<Rightarrow> ShearPoint list" where
  "uniquePoints arr =
     map (\<lambda>i. arr ! i)
       (filter (\<lambda>i. i = 0 \<or> \<bar>sp_x (arr ! i) - sp_x (arr ! (i - 1))\<bar> > 1 / 1000)
          [0..<length arr])"

definition generateShearForceData :: "AnalysisResult \<Rightarrow> ShearPoint list" where
  "generateShearForceData analysisResult = uniquePoints (dataPoints analysisResult)"

text \<open>The record that a valid analysis returns, from the base-unit values it computed.\<close>

definition analysis_display ::
  "Units \<Rightarrow> Reaction list \<Rightarrow> real list \<Rightarrow> DiagramSegment list \<Rightarrow> DiagramSegment list
   \<Rightarrow> Extrema \<Rightarrow> AnalysisResult" where
  "analysis_display un rs evs Vs Ms ex =
     \<lparr>reactions = convertReactionsToDisplayUnits rs un,
      events = map (\<lambda>x. convertLength x (u_length BASE_UNITS) (u_length un)) evs,
      V_segments = convertSegmentsToDisplayUnits Vs un,
      M_segments = convertSegmentsToDisplayUnits Ms un,
      extrema = convertExtremaToDisplayUnits ex un,
      isValid = True, error = None\<rparr>"

section \<open>Inputs of the worked scenarios\<close>

definition units_m_kN :: Units where
  "units_m_kN = \<lparr>u_length = ''m'', u_force = ''kN''\<rparr>"

definition no_loads :: Loads where
  "no_loads = \<lparr>point = [], angled = [], udl = [], uvl = [], moment = []\<rparr>"

text \<open>A 30 m beam on a pin at 0 and a roller at 30, with 60 kN at midspan.\<close>

definition scenario1_beam :: BeamData where
  "scenario1_beam = \<lparr>beam_length = 30, units = units_m_kN\<rparr>"

definition scenario1_supports :: Support where
  "scenario1_supports =
     \<lparr>s_type = PinRoller, pin_x = Some 0, roller_x = Some 30, fixed_pos = None\<rparr>"

definition scenario1_loads :: Loads where
  "scenario1_loads = no_loads\<lparr>point := [\<lparr>pl_label = ''P1'', pl_x = 15, pl_P = 60\<rparr>]\<rparr>"

text \<open>A 10 m cantilever fixed at its left end, with 20 kN at the tip.\<close>

definition scenario4_beam :: BeamData where
  "scenario4_beam = \<lparr>beam_length = 10, units = units_m_kN\<rparr>"

definition scenario4_supports :: Support where
  "scenario4_supports =
     \<lparr>s_type = Fixed, pin_x = None, roller_x = None, fixed_pos = Some Left\<rparr>"

definition scenario4_loads :: Loads where
  "scenario4_loads = no_loads\<lparr>point := [\<lparr>pl_label = ''P1'', pl_x = 10, pl_P = 20\<rparr>]\<rparr>"

text \<open>A 10 m beam whose pin and roller are both entered at 0.\<close>

definition coincident_beam :: BeamData where
  "coincident_beam = \<lparr>beam_length = 10, units = units_m_kN\<rparr>"

definition coincident_supports :: Support where
  "coincident_supports =
     \<lparr>s_type = PinRoller, pin_x = Some 0, roller_x = Some 0, fixed_pos = None\<rparr>"

text \<open>
  A 10 m beam with the pin at its right end, 10, and the roller at its left end, 0, under
  one downward point load of 8 at midspan.
\<close>

definition overhang_beam :: BeamData where
  "overhang_beam = \<lparr>beam_length = 10, units = units_m_kN\<rparr>"

definition overhang_supports :: Support where
  "overhang_supports =
     \<lparr>s_type = PinRoller, pin_x = Some 10, roller_x = Some 0, fixed_pos = None\<rparr>"

definition overhang_loads :: Loads where
  "overhang_loads = no_loads\<lparr>point := [\<lparr>pl_label = ''P1'', pl_x = 5, pl_P = 8\<rparr>]\<rparr>"

text \<open>The base-unit loads of the first scenario with a couple of 100 added at 10.\<close>

definition loads_with_couple :: Loads where
  "loads_with_couple =
     no_loads\<lparr>point := [\<lparr>pl_label = ''P1'', pl_x = 15, pl_P = 60000\<rparr>],
              moment := [\<lparr>ml_label = ''M1'', ml_x = 10, ml_M = 100\<rparr>]\<rparr>"

section \<open>Positions named by an input\<close>

text \<open>
  The positions that the specification of the events lists: the ends of the beam, the
  positions of the supports, and the positions and ends of the loads.
\<close>

definition load_positions :: "Loads \<Rightarrow> real set" where
  "load_positions loads =
     pl_x ` set (point loads) \<union> al_x ` set (angled loads)
     \<union> udl_a ` set (udl loads) \<union> udl_b ` set (udl loads)
     \<union> uvl_a ` set (uvl loads) \<union> uvl_b ` set (uvl loads)
     \<union> ml_x ` set (moment loads)"

definition support_positions :: "Support \<Rightarrow> real \<Rightarrow> real set" where
  "support_positions supports len =
     (if s_type supports = PinRoller then
        set_option (pin_x supports) \<union> set_option (roller_x supports)
      else {if fixed_pos supports = Some Right then len else 0})"

definition event_positions :: "Loads \<Rightarrow> Support \<Rightarrow> real \<Rightarrow> real set" where
  "event_positions loads supports len =
     {0, len} \<union> support_positions supports len \<union> load_positions loads"

text \<open>The default loads of the page, in both orders.\<close>

definition swapped_loads :: "Loads" where
  "swapped_loads = no_loads\<lparr>point := [\<lparr>pl_label = ''P2'', pl_x = 20, pl_P = 50\<rparr>,
                                       \<lparr>pl_label = ''P1'', pl_x = 6, pl_P = 10\<rparr>]\<rparr>"

definition default_loads :: "Loads" where
  "default_loads = no_loads\<lparr>point := [\<lparr>pl_label = ''P1'', pl_x = 6, pl_P = 10\<rparr>,
                                       \<lparr>pl_label = ''P2'', pl_x = 20, pl_P = 50\<rparr>]\<rparr>"

section \<open>Segments that partition an interval\<close>

text \<open>
  Segments are chained when each one ends where the next one starts; they partition the
  interval from 0 to \<open>L\<close> when, moreover, the first starts at 0, the last ends at \<open>L\<close>
  and each segment has its start left of its end.
\<close>

fun chained :: "DiagramSegment list \<Rightarrow> bool" where
  "chained (s # t # rest) = (seg_b s = seg_a t \<and> chained (t # rest))"
| "chained _ = True"

definition partitions_span :: "DiagramSegment list \<Rightarrow> real \<Rightarrow> bool" where
  "partitions_span segs L =
     (segs \<noteq> [] \<and> seg_a (hd segs) = 0 \<and> seg_b (last segs) = L \<and> chained segs
      \<and> list_all (\<lambda>s. seg_a s < seg_b s) segs)"

text \<open>The positions that an input names: those of the loads and of the pin and roller.\<close>

definition input_positions :: "Loads \<Rightarrow> Support \<Rightarrow> real set" where
  "input_positions loads supports =
     load_positions loads
     \<union> (if s_type supports = PinRoller
        then set_option (pin_x supports) \<union> set_option (roller_x supports) else {})"

text \<open>A point load entered left of the beam.\<close>

definition outside_loads :: Loads where
  "outside_loads = no_loads\<lparr>point := [\<lparr>pl_label = ''P1'', pl_x = - 5, pl_P = 60\<rparr>]\<rparr>"

text \<open>The events that the analysis computes, in base units.\<close>

definition base_events :: "BeamData \<Rightarrow> Support \<Rightarrow> Loads \<Rightarrow> real list" where
  "base_events bd supports loads =
     generateEvents (convertLoadsToBaseUnits loads (units bd))
       (convertSupportsToBaseUnits supports (u_length (units bd)))
       (convertLength (beam_length bd) (u_length (units bd)) (u_length BASE_UNITS))"

section \<open>Sampled polynomials\<close>

text \<open>The polynomial with coefficients \<open>cs\<close>, lowest degree first, at \<open>dx\<close>.\<close>

fun poly_value :: "real list \<Rightarrow> real \<Rightarrow> real" where
  "poly_value [] dx = 0"
| "poly_value (c # cs) dx = c + dx * poly_value cs dx"

text \<open>The number of points that the sampler emits for a segment of a given type.\<close>

definition points_per_segment :: "segment_type \<Rightarrow> nat" where
  "points_per_segment ty = (case ty of Const \<Rightarrow> 3 | Linear \<Rightarrow> 11 | Quadratic \<Rightarrow> 21 | Cubic \<Rightarrow> 3)"

text \<open>
  The shape of a segment that the shear builder makes: as many finite coefficients as its
  type needs.
\<close>

definition shear_shaped :: "DiagramSegment \<Rightarrow> real list \<Rightarrow> bool" where
  "shear_shaped segment cs =
     (coeffs segment = Some (map Fin cs)
      \<and> length cs = (case seg_type segment of Const \<Rightarrow> 1 | Linear \<Rightarrow> 2 | Quadratic \<Rightarrow> 3
                                             | Cubic \<Rightarrow> 0)
      \<and> seg_type segment \<noteq> Cubic)"

text \<open>
  The samples of the claim, at the positions and with the rounding of the code: for a
  segment from \<open>a\<close> to \<open>b\<close> whose type makes \<open>n + 1\<close> points, the point \<open>i\<close> lies at
  \<open>a + (b - a) \<cdot> i / n\<close>, and its value is the polynomial of the segment's coefficients at
  the distance from \<open>a\<close>; both are rounded to three decimals.
\<close>

definition sample_x :: "DiagramSegment \<Rightarrow> nat \<Rightarrow> real" where
  "sample_x s i =
     seg_a s + (seg_b s - seg_a s) * (real i / real (points_per_segment (seg_type s) - 1))"

definition shear_coefficients :: "DiagramSegment \<Rightarrow> real list" where
  "shear_coefficients s =
     (case coeffs s of
        Some cs \<Rightarrow> map (\<lambda>c. case c of Fin v \<Rightarrow> v | _ \<Rightarrow> 0) cs
      | None \<Rightarrow> [])"

definition polynomial_samples :: "DiagramSegment \<Rightarrow> ShearPoint list" where
  "polynomial_samples s =
     map (\<lambda>i. \<lparr>sp_x = round3 (sample_x s i),
                shearForce = Fin (round3 (poly_value (shear_coefficients s)
                                            (sample_x s i - seg_a s)))\<rparr>)
       [0..<points_per_segment (seg_type s)]"

text \<open>A 3 m beam (m, N) on a pin at 0 and a roller at 3, with 1 N at 1 m.\<close>

definition third_beam :: BeamData where
  "third_beam = \<lparr>beam_length = 3, units = \<lparr>u_length = ''m'', u_force = ''N''\<rparr>\<rparr>"

definition third_supports :: Support where
  "third_supports = \<lparr>s_type = PinRoller, pin_x = Some 0, roller_x = Some 3, fixed_pos = None\<rparr>"

definition third_loads :: Loads where
  "third_loads = no_loads\<lparr>point := [\<lparr>pl_label = ''P1'', pl_x = 1, pl_P = 1\<rparr>]\<rparr>"

text \<open>A 20 m beam (m, N) under a linearly varying load from 5 to -5 over its first half.\<close>

definition units_m_N :: Units where
  "units_m_N = \<lparr>u_length = ''m'', u_force = ''N''\<rparr>"

definition couple_beam :: BeamData where
  "couple_beam = \<lparr>beam_length = 20, units = units_m_N\<rparr>"

definition couple_supports :: Support where
  "couple_supports = \<lparr>s_type = PinRoller, pin_x = Some 0, roller_x = Some 20, fixed_pos = None\<rparr>"

definition couple_loads :: Loads where
  "couple_loads = no_loads\<lparr>uvl := [\<lparr>uvl_label = ''W1'', uvl_a = 0, uvl_b = 10, uvl_w1 = 5,
     uvl_w2 = - 5\<rparr>]\<rparr>"

definition zero_reactions :: "Reaction list" where
  "zero_reactions =
     [\<lparr>r_type = Vertical, r_at = ''pin'', r_x = Some 0, r_R = Some 0, r_M = None, r_H = None\<rparr>,
      \<lparr>r_type = Vertical, r_at = ''roller'', r_x = Some 20, r_R = Some 0, r_M = None,
        r_H = None\<rparr>]"

section \<open>Contributions to shear and moment\<close>

text \<open>
  The definitions of this section are not code of the engine: they say in real arithmetic
  what each loop of the shear and moment builders adds up, for the proofs about them.
\<close>

text \<open>The intensity of a linearly varying load at the position \<open>p\<close>.\<close>

definition uvl_intensity :: "UVLLoad \<Rightarrow> real \<Rightarrow> real" where
  "uvl_intensity load p =
     uvl_w1 load + (uvl_w2 load - uvl_w1 load) * (p - uvl_a load) / (uvl_b load - uvl_a load)"

text \<open>
  The divisor of the centroid quotient that the moment builder evaluates for a load at the
  position \<open>p\<close> is not zero: \<open>3 (w1 + w2)\<close> for a load wholly left of \<open>p\<close>,
  \<open>3 (w1 + w(p))\<close> for a load across \<open>p\<close>.
\<close>

definition uvl_centroid_defined :: "UVLLoad \<Rightarrow> real \<Rightarrow> bool" where
  "uvl_centroid_defined load p =
     (if uvl_b load \<le> p then uvl_w1 load + uvl_w2 load \<noteq> 0
      else if uvl_a load < p then uvl_w1 load + uvl_intensity load p \<noteq> 0
      else True)"

text \<open>What one reaction or load adds to the moment at \<open>a\<close>, as a real number.\<close>

definition dM_reaction :: "real \<Rightarrow> Reaction \<Rightarrow> real" where
  "dM_reaction a reaction =
     (case r_x reaction of
        Some x \<Rightarrow> (if r_type reaction = Vertical \<and> x < a
                    then js_or (r_R reaction) 0 * (a - x) else 0)
                 + (if r_type reaction = Moment \<and> x \<le> a then js_or (r_M reaction) 0 else 0)
      | None \<Rightarrow> 0)"

definition dM_point :: "real \<Rightarrow> PointLoad \<Rightarrow> real" where
  "dM_point a load = (if pl_x load < a then - (pl_P load * (a - pl_x load)) else 0)"

definition dM_angled :: "real \<Rightarrow> AngledLoad \<Rightarrow> real" where
  "dM_angled a load =
     (if al_x load < a
      then - (al_P load * sin (al_theta_deg load * pi / 180) * (a - al_x load)) else 0)"

definition dM_udl :: "real \<Rightarrow> UDLLoad \<Rightarrow> real" where
  "dM_udl a load =
     (if udl_b load \<le> a then
        - (udl_w load * (udl_b load - udl_a load) * (a - (udl_a load + udl_b load) / 2))
      else if udl_a load < a \<and> udl_b load > a then
        - (udl_w load * (a - udl_a load) * (a - udl_a load) / 2)
      else 0)"

definition dM_uvl :: "real \<Rightarrow> UVLLoad \<Rightarrow> real" where
  "dM_uvl a load =
     (if uvl_b load \<le> a then
        - ((uvl_w1 load + uvl_w2 load) * (uvl_b load - uvl_a load) / 2
           * (a - (uvl_a load + (uvl_b load - uvl_a load) * (uvl_w1 load + 2 * uvl_w2 load)
                                / (3 * (uvl_w1 load + uvl_w2 load)))))
      else if uvl_a load < a \<and> uvl_b load > a then
        - ((uvl_w1 load + uvl_intensity load a) * (a - uvl_a load) / 2
           * (a - (uvl_a load + (a - uvl_a load) * (uvl_w1 load + 2 * uvl_intensity load a)
                                / (3 * (uvl_w1 load + uvl_intensity load a)))))
      else 0)"

definition dM_moment :: "real \<Rightarrow> MomentLoad \<Rightarrow> real" where
  "dM_moment a load = (if ml_x load \<le> a then ml_M load else 0)"

text \<open>The moment at an event as one real sum.\<close>

definition moment_sum :: "Loads \<Rightarrow> Reaction list \<Rightarrow> real \<Rightarrow> real" where
  "moment_sum loads rs a =
     sum_list (map (dM_reaction a) rs) + sum_list (map (dM_point a) (point loads))
     + sum_list (map (dM_angled a) (angled loads)) + sum_list (map (dM_udl a) (udl loads))
     + sum_list (map (dM_uvl a) (uvl loads)) + sum_list (map (dM_moment a) (moment loads))"

text \<open>The shear right of an event as one real sum.\<close>

definition shear_sum :: "Loads \<Rightarrow> Reaction list \<Rightarrow> real \<Rightarrow> real" where
  "shear_sum loads rs a =
     sum_list (map (\<lambda>r. shear_reaction_step a r 0) rs)
     + sum_list (map (\<lambda>l. shear_point_step a l 0) (point loads))
     + sum_list (map (\<lambda>l. shear_angled_step a l 0) (angled loads))
     + sum_list (map (\<lambda>l. shear_udl_step a l 0) (udl loads))
     + sum_list (map (\<lambda>l. shear_uvl_step a l 0) (uvl loads))"

text \<open>
  Between two consecutive events: \<open>clear a b p\<close> says that the position \<open>p\<close> is not
  strictly between \<open>a\<close> and \<open>b\<close>.
\<close>

definition clear :: "real \<Rightarrow> real \<Rightarrow> real \<Rightarrow> bool" where
  "clear a b p = (p \<le> a \<or> b \<le> p)"

text \<open>The test of the shear builder for a distributed load on the interval from \<open>a\<close> to \<open>b\<close>.\<close>

definition udl_active :: "real \<Rightarrow> real \<Rightarrow> UDLLoad \<Rightarrow> bool" where
  "udl_active a b load = (udl_a load < b \<and> udl_b load > a)"

definition uvl_active :: "real \<Rightarrow> real \<Rightarrow> UVLLoad \<Rightarrow> bool" where
  "uvl_active a b load = (uvl_a load < b \<and> uvl_b load > a)"

text \<open>
  What one distributed load adds to the moment over the interval beyond the start value and
  the start shear times the length: the terms of degree two and three.
\<close>

definition extra_udl :: "real \<Rightarrow> real \<Rightarrow> UDLLoad \<Rightarrow> real" where
  "extra_udl a b load =
     (if udl_active a b load then - udl_w load / 2 * ((b - a) * (b - a)) else 0)"

definition extra_uvl :: "real \<Rightarrow> real \<Rightarrow> UVLLoad \<Rightarrow> real" where
  "extra_uvl a b load =
     (if uvl_active a b load then
        - uvl_intensity load a / 2 * ((b - a) * (b - a))
        + - ((uvl_intensity load b - uvl_intensity load a) / (b - a)) / 2 / 3
          * ((b - a) * (b - a) * (b - a))
      else 0)"

text \<open>No reaction and no load has a position strictly inside the interval.\<close>

definition segment_clear :: "Loads \<Rightarrow> Reaction list \<Rightarrow> real \<Rightarrow> real \<Rightarrow> bool" where
  "segment_clear loads rs a b =
     ((\<forall>r\<in>set rs. \<forall>x. r_x r = Some x \<longrightarrow> clear a b x)
      \<and> (\<forall>l\<in>set (point loads). clear a b (pl_x l))
      \<and> (\<forall>l\<in>set (angled loads). clear a b (al_x l))
      \<and> (\<forall>l\<in>set (udl loads). clear a b (udl_a l) \<and> clear a b (udl_b l))
      \<and> (\<forall>l\<in>set (uvl loads). clear a b (uvl_a l) \<and> clear a b (uvl_b l))
      \<and> (\<forall>l\<in>set (moment loads). clear a b (ml_x l)))"

text \<open>The number of distributed loads that pass the test of the shear builder on an interval.\<close>

definition active_count :: "Loads \<Rightarrow> real \<Rightarrow> real \<Rightarrow> nat" where
  "active_count loads a b =
     length (filter (udl_active a b) (udl loads)) + length (filter (uvl_active a b) (uvl loads))"

section \<open>Conditions for a continuous moment\<close>

text \<open>Every distributed load has its start at or left of its end.\<close>

definition spans_ordered :: "Loads \<Rightarrow> bool" where
  "spans_ordered loads =
     (list_all (\<lambda>l. udl_a l \<le> udl_b l) (udl loads)
      \<and> list_all (\<lambda>l. uvl_a l \<le> uvl_b l) (uvl loads))"

text \<open>At the position \<open>p\<close> no linearly varying load makes the moment builder divide by zero.\<close>

definition centroids_defined :: "Loads \<Rightarrow> real \<Rightarrow> bool" where
  "centroids_defined loads p = list_all (\<lambda>l. uvl_centroid_defined l p) (uvl loads)"

text \<open>The position of a fixed support, where its moment reaction acts.\<close>

definition fixed_end :: "Support \<Rightarrow> real \<Rightarrow> real" where
  "fixed_end supports len = (if fixed_pos supports = Some Right then len else 0)"

text \<open>A couple acts at \<open>p\<close>: an applied moment load, or the moment reaction of a fixed support.\<close>

definition moment_applied_at :: "Loads \<Rightarrow> Support \<Rightarrow> real \<Rightarrow> real \<Rightarrow> bool" where
  "moment_applied_at loads supports len p =
     (p \<in> ml_x ` set (moment loads) \<or> (s_type supports = Fixed \<and> p = fixed_end supports len))"

text \<open>Two uniform loads over the same span of the 20 m beam, and one of them alone.\<close>

definition overlap_loads :: Loads where
  "overlap_loads = no_loads\<lparr>udl := [\<lparr>udl_label = ''W1'', udl_a = 0, udl_b = 10, udl_w = 1\<rparr>,
                                    \<lparr>udl_label = ''W2'', udl_a = 0, udl_b = 10, udl_w = 1\<rparr>]\<rparr>"

definition single_udl_loads :: Loads where
  "single_udl_loads = no_loads\<lparr>udl := [\<lparr>udl_label = ''W1'', udl_a = 0, udl_b = 10, udl_w = 1\<rparr>]\<rparr>"

definition overlap_reactions :: "Reaction list" where
  "overlap_reactions =
     [\<lparr>r_type = Vertical, r_at = ''pin'', r_x = Some 0, r_R = Some 15, r_M = None, r_H = None\<rparr>,
      \<lparr>r_type = Vertical, r_at = ''roller'', r_x = Some 20, r_R = Some 5, r_M = None,
        r_H = None\<rparr>]"

definition single_udl_reactions :: "Reaction list" where
  "single_udl_reactions =
     [\<lparr>r_type = Vertical, r_at = ''pin'', r_x = Some 0, r_R = Some (15 / 2), r_M = None,
        r_H = None\<rparr>,
      \<lparr>r_type = Vertical, r_at = ''roller'', r_x = Some 20, r_R = Some (5 / 2), r_M = None,
        r_H = None\<rparr>]"

section \<open>Unit factors\<close>

lemma js_or_1_neq_0: "js_or v 1 \<noteq> 0"
  by (simp add: js_or_def split: option.splits)

lemma force_factor_pos: "0 < js_or (FORCE_CONVERSIONS u) 1"
  by (auto simp: js_or_def FORCE_CONVERSIONS_def split: option.splits if_splits)

lemma length_factor_pos: "0 < js_or (LENGTH_CONVERSIONS u) 1"
  by (auto simp: js_or_def LENGTH_CONVERSIONS_def split: option.splits if_splits)

lemma convertForce_base:
  "convertForce v (u_force BASE_UNITS) u = v / js_or (FORCE_CONVERSIONS u) 1"
  "convertForce v u (u_force BASE_UNITS) = v * js_or (FORCE_CONVERSIONS u) 1"
  by (simp_all add: convertForce_def BASE_UNITS_def FORCE_CONVERSIONS_def js_or_def)

lemma convertLength_base:
  "convertLength v (u_length BASE_UNITS) u = v / js_or (LENGTH_CONVERSIONS u) 1"
  "convertLength v u (u_length BASE_UNITS) = v * js_or (LENGTH_CONVERSIONS u) 1"
  by (simp_all add: convertLength_def BASE_UNITS_def LENGTH_CONVERSIONS_def js_or_def)

section \<open>The pipeline\<close>

lemma those_map_Some:
  "(\<And>x. x \<in> set xs \<Longrightarrow> f x = Some (g x)) \<Longrightarrow> those (map f xs) = Some (map g xs)"
  by (induction xs) simp_all

lemma length_calculateShearSegments [simp]:
  "length (calculateShearSegments loads rs evs len) = length evs - 1"
  by (simp add: calculateShearSegments_def)

text \<open>
  Inside the analysis the shear segments and the events have matching lengths, so the read
  of \<open>V_segments[i]\<close> never fails and the \<open>catch\<close> is never entered.
\<close>

lemma calculateMomentSegments_pipeline:
  "calculateMomentSegments (calculateShearSegments loads rs evs len) loads rs evs len =
   Some (map (\<lambda>i. moment_segment (shear_segment loads rs (evs ! i) (evs ! (i + 1))) loads rs
                      (evs ! i) (evs ! (i + 1)))
           [0..<length evs - 1])"
  unfolding calculateMomentSegments_def
  by (rule those_map_Some) (simp add: at_index_def calculateShearSegments_def)

lemma calculateBeamAnalysis_invalid_length:
  "beam_length bd \<le> 0 \<Longrightarrow>
   calculateBeamAnalysis bd supports loads =
   createErrorResult ''Beam length must be greater than 0''"
  by (simp add: calculateBeamAnalysis_def)

lemma calculateBeamAnalysis_invalid_supports:
  "0 < beam_length bd \<Longrightarrow>
   \<not> validateSupports (convertSupportsToBaseUnits supports (u_length (units bd)))
        (convertLength (beam_length bd) (u_length (units bd)) (u_length BASE_UNITS)) \<Longrightarrow>
   calculateBeamAnalysis bd supports loads =
   createErrorResult ''Invalid support configuration''"
  by (simp add: calculateBeamAnalysis_def Let_def)

lemma calculateBeamAnalysis_valid:
  assumes "0 < beam_length bd"
    and "validateSupports (convertSupportsToBaseUnits supports (u_length (units bd)))
           (convertLength (beam_length bd) (u_length (units bd)) (u_length BASE_UNITS))"
  shows "calculateBeamAnalysis bd supports loads =
         (let L = convertLength (beam_length bd) (u_length (units bd)) (u_length BASE_UNITS);
              bl = convertLoadsToBaseUnits loads (units bd);
              bs = convertSupportsToBaseUnits supports (u_length (units bd));
              rs = calculateReactions bl bs L;
              evs = generateEvents bl bs L;
              Vs = calculateShearSegments bl rs evs L;
              Ms = map (\<lambda>i. moment_segment (shear_segment bl rs (evs ! i) (evs ! (i + 1)))
                                bl rs (evs ! i) (evs ! (i + 1)))
                     [0..<length evs - 1]
          in analysis_display (units bd) rs evs Vs Ms (findExtrema Vs Ms bl rs L))"
  using assms
  by (simp add: calculateBeamAnalysis_def analysis_display_def Let_def
      calculateMomentSegments_pipeline)

lemma isValid_createErrorResult [simp]: "\<not> isValid (createErrorResult msg)"
  by (simp add: createErrorResult_def)

lemma isValid_analysis_display [simp]: "isValid (analysis_display un rs evs Vs Ms ex)"
  by (simp add: analysis_display_def)

lemma isValid_calculateBeamAnalysis:
  "isValid (calculateBeamAnalysis bd supports loads) \<longleftrightarrow>
   0 < beam_length bd \<and>
   validateSupports (convertSupportsToBaseUnits supports (u_length (units bd)))
     (convertLength (beam_length bd) (u_length (units bd)) (u_length BASE_UNITS))"
proof (cases "0 < beam_length bd")
  case False
  then show ?thesis
    by (simp add: calculateBeamAnalysis_invalid_length)
next
  case pos: True
  show ?thesis
  proof (cases "validateSupports (convertSupportsToBaseUnits supports (u_length (units bd)))
     (convertLength (beam_length bd) (u_length (units bd)) (u_length BASE_UNITS))")
    case True
    with pos show ?thesis
      by (simp add: calculateBeamAnalysis_valid Let_def)
  next
    case False
    with pos show ?thesis
      by (simp add: calculateBeamAnalysis_invalid_supports)
  qed
qed

section \<open>Evaluation lemmas\<close>

lemmas jsnum_arith =
  plus_jsnum_def minus_jsnum_def uminus_jsnum_def times_jsnum_def divide_jsnum_def

lemma conv_m_kN:
  "convertLength v ''m'' ''m'' = v"
  "convertForce v ''kN'' ''N'' = v * 1000"
  "convertForce v ''N'' ''kN'' = v / 1000"
  "convertForceN (Fin v) ''N'' ''kN'' = Fin (v / 1000)"
  by (simp_all add: convertLength_def convertForce_def convertForceN_def LENGTH_CONVERSIONS_def
      FORCE_CONVERSIONS_def js_or_def jsnum_arith)

lemma upt_small: "[0..<Suc 0] = [0]" "[0..<2] = [0, Suc 0]" "[0..<3] = [0, Suc 0, 2]"
  by (simp_all add: upt_rec)

lemmas extrema_defs =
  findExtrema_def extrema0_def extrema_V_step_def extrema_M_step_def extrema_inner_step_def
  upd_Vmax_def upd_Vmin_def upd_Mmax_def upd_Mmin_def num_of_def num_of_opt_def js_lt_def
  shear_changes_sign_def

lemmas shear_defs =
  calculateShearSegments_def shear_segment_def shear_start_def shear_reaction_step_def
  shear_point_step_def shear_udl_step_def shear_uvl_step_def udl_scan_step_def uvl_scan_step_def

lemmas moment_defs =
  calculateMomentSegments_def moment_segment_def moment_start_def moment_reaction_step_def
  moment_point_step_def moment_udl_step_def moment_uvl_step_def moment_moment_step_def
  at_index_def opt_index_def num_of_opt_def num_or_def

lemmas display_defs =
  convertReactionsToDisplayUnits_def convertSegmentsToDisplayUnits_def
  convertExtremaToDisplayUnits_def

text \<open>The valid branch of the analysis, one named step at a time.\<close>

lemma calculateBeamAnalysis_steps:
  assumes "0 < beam_length bd"
    and "convertLength (beam_length bd) (u_length (units bd)) (u_length BASE_UNITS) = L"
    and "convertLoadsToBaseUnits loads (units bd) = bl"
    and "convertSupportsToBaseUnits supports (u_length (units bd)) = bs"
    and "validateSupports bs L"
    and "calculateReactions bl bs L = rs"
    and "generateEvents bl bs L = evs"
    and "calculateShearSegments bl rs evs L = Vs"
    and "calculateMomentSegments Vs bl rs evs L = Some Ms"
    and "findExtrema Vs Ms bl rs L = ex"
  shows "calculateBeamAnalysis bd supports loads = analysis_display (units bd) rs evs Vs Ms ex"
  using assms by (simp add: calculateBeamAnalysis_def analysis_display_def Let_def)

subsection \<open>Scenario 1\<close>

lemma scenario1_base:
  "convertLength (beam_length scenario1_beam) (u_length (units scenario1_beam))
     (u_length BASE_UNITS) = 30"
  "convertLoadsToBaseUnits scenario1_loads (units scenario1_beam) =
     no_loads\<lparr>point := [\<lparr>pl_label = ''P1'', pl_x = 15, pl_P = 60000\<rparr>]\<rparr>"
  "convertSupportsToBaseUnits scenario1_supports (u_length (units scenario1_beam)) =
     scenario1_supports"
  by (simp_all add: convertLoadsToBaseUnits_def convertSupportsToBaseUnits_def
      scenario1_loads_def scenario1_beam_def scenario1_supports_def no_loads_def units_m_kN_def
      BASE_UNITS_def conv_m_kN js_or_def)

lemma scenario1_reactions:
  "calculateReactions (no_loads\<lparr>point := [\<lparr>pl_label = ''P1'', pl_x = 15, pl_P = 60000\<rparr>]\<rparr>)
     scenario1_supports 30 =
   [\<lparr>r_type = Vertical, r_at = ''pin'', r_x = Some 0, r_R = Some 30000, r_M = None,
      r_H = None\<rparr>,
    \<lparr>r_type = Vertical, r_at = ''roller'', r_x = Some 30, r_R = Some 30000, r_M = None,
      r_H = None\<rparr>]"
  by (simp add: calculateReactions_def scenario1_supports_def no_loads_def js_or_def
      add_point_def totals0_def)

lemma scenario1_events:
  "generateEvents (no_loads\<lparr>point := [\<lparr>pl_label = ''P1'', pl_x = 15, pl_P = 60000\<rparr>]\<rparr>)
     scenario1_supports 30 = [0, 15, 30]"
  by (simp add: generateEvents_def scenario1_supports_def no_loads_def js_or_def set_add_def)

lemma scenario1_shear:
  "calculateShearSegments (no_loads\<lparr>point := [\<lparr>pl_label = ''P1'', pl_x = 15, pl_P = 60000\<rparr>]\<rparr>)
     [\<lparr>r_type = Vertical, r_at = ''pin'', r_x = Some 0, r_R = Some 30000, r_M = None,
        r_H = None\<rparr>,
      \<lparr>r_type = Vertical, r_at = ''roller'', r_x = Some 30, r_R = Some 30000, r_M = None,
        r_H = None\<rparr>]
     [0, 15, 30] 30 =
   [\<lparr>seg_a = 0, seg_b = 15, seg_type = Const, V_a = Some 30000, V_b = Some 30000,
      M_a = None, M_b = None, coeffs = Some [Fin 30000]\<rparr>,
    \<lparr>seg_a = 15, seg_b = 30, seg_type = Const, V_a = Some (- 30000), V_b = Some (- 30000),
      M_a = None, M_b = None, coeffs = Some [Fin (- 30000)]\<rparr>]"
  by (simp add: shear_defs upt_small no_loads_def js_or_def Let_def)

lemma scenario1_moment:
  "calculateMomentSegments
     [\<lparr>seg_a = 0, seg_b = 15, seg_type = Const, V_a = Some 30000, V_b = Some 30000,
        M_a = None, M_b = None, coeffs = Some [Fin 30000]\<rparr>,
      \<lparr>seg_a = 15, seg_b = 30, seg_type = Const, V_a = Some (- 30000), V_b = Some (- 30000),
        M_a = None, M_b = None, coeffs = Some [Fin (- 30000)]\<rparr>]
     (no_loads\<lparr>point := [\<lparr>pl_label = ''P1'', pl_x = 15, pl_P = 60000\<rparr>]\<rparr>)
     [\<lparr>r_type = Vertical, r_at = ''pin'', r_x = Some 0, r_R = Some 30000, r_M = None,
        r_H = None\<rparr>,
      \<lparr>r_type = Vertical, r_at = ''roller'', r_x = Some 30, r_R = Some 30000, r_M = None,
        r_H = None\<rparr>]
     [0, 15, 30] 30 =
   Some
    [\<lparr>seg_a = 0, seg_b = 15, seg_type = Linear, V_a = None, V_b = None,
       M_a = Some (Fin 0), M_b = Some (Fin 450000), coeffs = Some [Fin 0, Fin 30000]\<rparr>,
     \<lparr>seg_a = 15, seg_b = 30, seg_type = Linear, V_a = None, V_b = None,
       M_a = Some (Fin 450000), M_b = Some (Fin 0),
       coeffs = Some [Fin 450000, Fin (- 30000)]\<rparr>]"
  by (simp add: moment_defs upt_small no_loads_def js_or_def jsnum_arith Let_def)

lemma scenario1_extrema:
  "findExtrema
     [\<lparr>seg_a = 0, seg_b = 15, seg_type = Const, V_a = Some 30000, V_b = Some 30000,
        M_a = None, M_b = None, coeffs = Some [Fin 30000]\<rparr>,
      \<lparr>seg_a = 15, seg_b = 30, seg_type = Const, V_a = Some (- 30000), V_b = Some (- 30000),
        M_a = None, M_b = None, coeffs = Some [Fin (- 30000)]\<rparr>]
     [\<lparr>seg_a = 0, seg_b = 15, seg_type = Linear, V_a = None, V_b = None,
        M_a = Some (Fin 0), M_b = Some (Fin 450000), coeffs = Some [Fin 0, Fin 30000]\<rparr>,
      \<lparr>seg_a = 15, seg_b = 30, seg_type = Linear, V_a = None, V_b = None,
        M_a = Some (Fin 450000), M_b = Some (Fin 0),
        coeffs = Some [Fin 450000, Fin (- 30000)]\<rparr>]
     loads rs len =
   \<lparr>Vmax = Fin 30000, Vmin = Fin (- 30000), Mmax = Fin 450000, Mmin = Fin 0,
     positions = \<lparr>Vmax_pos = 0, Vmin_pos = 15, Mmax_pos = 15, Mmin_pos = 0\<rparr>\<rparr>"
  by (simp add: extrema_defs Let_def)

lemma scenario1_result:
  "calculateBeamAnalysis scenario1_beam scenario1_supports scenario1_loads =
   \<lparr>reactions =
      [\<lparr>r_type = Vertical, r_at = ''pin'', r_x = Some 0, r_R = Some 30, r_M = None,
         r_H = None\<rparr>,
       \<lparr>r_type = Vertical, r_at = ''roller'', r_x = Some 30, r_R = Some 30, r_M = None,
         r_H = None\<rparr>],
    events = [0, 15, 30],
    V_segments =
      [\<lparr>seg_a = 0, seg_b = 15, seg_type = Const, V_a = Some 30, V_b = Some 30,
         M_a = None, M_b = None, coeffs = Some [Fin 30000]\<rparr>,
       \<lparr>seg_a = 15, seg_b = 30, seg_type = Const, V_a = Some (- 30), V_b = Some (- 30),
         M_a = None, M_b = None, coeffs = Some [Fin (- 30000)]\<rparr>],
    M_segments =
      [\<lparr>seg_a = 0, seg_b = 15, seg_type = Linear, V_a = None, V_b = None,
         M_a = Some (Fin 0), M_b = Some (Fin 450), coeffs = Some [Fin 0, Fin 30000]\<rparr>,
       \<lparr>seg_a = 15, seg_b = 30, seg_type = Linear, V_a = None, V_b = None,
         M_a = Some (Fin 450), M_b = Some (Fin 0),
         coeffs = Some [Fin 450000, Fin (- 30000)]\<rparr>],
    extrema =
      \<lparr>Vmax = Fin 30, Vmin = Fin (- 30), Mmax = Fin 450, Mmin = Fin 0,
        positions = \<lparr>Vmax_pos = 0, Vmin_pos = 15, Mmax_pos = 15, Mmin_pos = 0\<rparr>\<rparr>,
    isValid = True, error = None\<rparr>"
proof -
  have pos: "0 < beam_length scenario1_beam"
    by (simp add: scenario1_beam_def)
  have valid: "validateSupports scenario1_supports 30"
    by (simp add: validateSupports_def scenario1_supports_def js_or_def)
  note calculateBeamAnalysis_steps [OF pos scenario1_base(1) scenario1_base(2)
      scenario1_base(3) valid scenario1_reactions scenario1_events scenario1_shear
      scenario1_moment scenario1_extrema]
  then show ?thesis
    by (simp add: analysis_display_def display_defs scenario1_beam_def units_m_kN_def
        BASE_UNITS_def conv_m_kN jsnum_arith)
qed

subsection \<open>Scenario 4\<close>

lemma scenario4_base:
  "convertLength (beam_length scenario4_beam) (u_length (units scenario4_beam))
     (u_length BASE_UNITS) = 10"
  "convertLoadsToBaseUnits scenario4_loads (units scenario4_beam) =
     no_loads\<lparr>point := [\<lparr>pl_label = ''P1'', pl_x = 10, pl_P = 20000\<rparr>]\<rparr>"
  "convertSupportsToBaseUnits scenario4_supports (u_length (units scenario4_beam)) =
     scenario4_supports"
  by (simp_all add: convertLoadsToBaseUnits_def convertSupportsToBaseUnits_def
      scenario4_loads_def scenario4_beam_def scenario4_supports_def no_loads_def units_m_kN_def
      BASE_UNITS_def conv_m_kN js_or_def)

lemma scenario4_reactions:
  "calculateReactions (no_loads\<lparr>point := [\<lparr>pl_label = ''P1'', pl_x = 10, pl_P = 20000\<rparr>]\<rparr>)
     scenario4_supports 10 =
   [\<lparr>r_type = Vertical, r_at = ''fixed'', r_x = Some 0, r_R = Some (- 20000), r_M = None,
      r_H = None\<rparr>,
    \<lparr>r_type = Moment, r_at = ''fixed'', r_x = Some 0, r_R = None, r_M = Some (- 200000),
      r_H = None\<rparr>]"
  by (simp add: calculateReactions_def scenario4_supports_def no_loads_def js_or_def
      add_point_def totals0_def)

lemma scenario4_events:
  "generateEvents (no_loads\<lparr>point := [\<lparr>pl_label = ''P1'', pl_x = 10, pl_P = 20000\<rparr>]\<rparr>)
     scenario4_supports 10 = [0, 10]"
  by (simp add: generateEvents_def scenario4_supports_def no_loads_def js_or_def set_add_def)

lemma scenario4_shear:
  "calculateShearSegments (no_loads\<lparr>point := [\<lparr>pl_label = ''P1'', pl_x = 10, pl_P = 20000\<rparr>]\<rparr>)
     [\<lparr>r_type = Vertical, r_at = ''fixed'', r_x = Some 0, r_R = Some (- 20000), r_M = None,
        r_H = None\<rparr>,
      \<lparr>r_type = Moment, r_at = ''fixed'', r_x = Some 0, r_R = None, r_M = Some (- 200000),
        r_H = None\<rparr>]
     [0, 10] 10 =
   [\<lparr>seg_a = 0, seg_b = 10, seg_type = Const, V_a = Some (- 20000), V_b = Some (- 20000),
      M_a = None, M_b = None, coeffs = Some [Fin (- 20000)]\<rparr>]"
  by (simp add: shear_defs upt_small no_loads_def js_or_def Let_def)

lemma scenario4_moment:
  "calculateMomentSegments
     [\<lparr>seg_a = 0, seg_b = 10, seg_type = Const, V_a = Some (- 20000), V_b = Some (- 20000),
        M_a = None, M_b = None, coeffs = Some [Fin (- 20000)]\<rparr>]
     (no_loads\<lparr>point := [\<lparr>pl_label = ''P1'', pl_x = 10, pl_P = 20000\<rparr>]\<rparr>)
     [\<lparr>r_type = Vertical, r_at = ''fixed'', r_x = Some 0, r_R = Some (- 20000), r_M = None,
        r_H = None\<rparr>,
      \<lparr>r_type = Moment, r_at = ''fixed'', r_x = Some 0, r_R = None, r_M = Some (- 200000),
        r_H = None\<rparr>]
     [0, 10] 10 =
   Some
    [\<lparr>seg_a = 0, seg_b = 10, seg_type = Linear, V_a = None, V_b = None,
       M_a = Some (Fin (- 200000)), M_b = Some (Fin (- 400000)),
       coeffs = Some [Fin (- 200000), Fin (- 20000)]\<rparr>]"
  by (simp add: moment_defs upt_small no_loads_def js_or_def jsnum_arith Let_def)

lemma scenario4_extrema:
  "findExtrema
     [\<lparr>seg_a = 0, seg_b = 10, seg_type = Const, V_a = Some (- 20000), V_b = Some (- 20000),
        M_a = None, M_b = None, coeffs = Some [Fin (- 20000)]\<rparr>]
     [\<lparr>seg_a = 0, seg_b = 10, seg_type = Linear, V_a = None, V_b = None,
       M_a = Some (Fin (- 200000)), M_b = Some (Fin (- 400000)),
       coeffs = Some [Fin (- 200000), Fin (- 20000)]\<rparr>]
     loads rs len =
   \<lparr>Vmax = Fin (- 20000), Vmin = Fin (- 20000), Mmax = Fin (- 200000), Mmin = Fin (- 400000),
     positions = \<lparr>Vmax_pos = 0, Vmin_pos = 0, Mmax_pos = 0, Mmin_pos = 10\<rparr>\<rparr>"
  by (simp add: extrema_defs Let_def)

lemma scenario4_result:
  "calculateBeamAnalysis scenario4_beam scenario4_supports scenario4_loads =
   \<lparr>reactions =
      [\<lparr>r_type = Vertical, r_at = ''fixed'', r_x = Some 0, r_R = Some (- 20), r_M = None,
         r_H = None\<rparr>,
       \<lparr>r_type = Moment, r_at = ''fixed'', r_x = Some 0, r_R = None, r_M = Some (- 200),
         r_H = None\<rparr>],
    events = [0, 10],
    V_segments =
      [\<lparr>seg_a = 0, seg_b = 10, seg_type = Const, V_a = Some (- 20), V_b = Some (- 20),
         M_a = None, M_b = None, coeffs = Some [Fin (- 20000)]\<rparr>],
    M_segments =
      [\<lparr>seg_a = 0, seg_b = 10, seg_type = Linear, V_a = None, V_b = None,
         M_a = Some (Fin (- 200)), M_b = Some (Fin (- 400)),
         coeffs = Some [Fin (- 200000), Fin (- 20000)]\<rparr>],
    extrema =
      \<lparr>Vmax = Fin (- 20), Vmin = Fin (- 20), Mmax = Fin (- 200), Mmin = Fin (- 400),
        positions = \<lparr>Vmax_pos = 0, Vmin_pos = 0, Mmax_pos = 0, Mmin_pos = 10\<rparr>\<rparr>,
    isValid = True, error = None\<rparr>"
proof -
  have pos: "0 < beam_length scenario4_beam"
    by (simp add: scenario4_beam_def)
  have valid: "validateSupports scenario4_supports 10"
    by (simp add: validateSupports_def scenario4_supports_def)
  note calculateBeamAnalysis_steps [OF pos scenario4_base(1) scenario4_base(2)
      scenario4_base(3) valid scenario4_reactions scenario4_events scenario4_shear
      scenario4_moment scenario4_extrema]
  then show ?thesis
    by (simp add: analysis_display_def display_defs scenario4_beam_def units_m_kN_def
        BASE_UNITS_def conv_m_kN jsnum_arith)
qed

section \<open>Worked scenarios\<close>

text \<open>
  C1. A 30 m beam (m, kN) on a pin at 0 and a roller at 30 carries one point load of 60 at
  15. The analysis is valid; the pin and the roller reaction are 30 each; the largest
  moment is 450, recorded at 15; the largest shear is 30 and the smallest is -30. The
  shear is 30 on the segment from 0 to 15, so 30 is attained left of 15 (the recorded
  position is 0), and it is -30 on the segment from 15 to 30, so -30 is attained right of
  15, up to the end 30 (the recorded position is the start 15 of that segment).
\<close>

theorem scenario1_midspan_load:
  "(let r = calculateBeamAnalysis scenario1_beam scenario1_supports scenario1_loads
    in isValid r
     \<and> map (\<lambda>q. (r_at q, r_R q)) (reactions r) = [(''pin'', Some 30), (''roller'', Some 30)]
     \<and> Mmax (extrema r) = Fin 450 \<and> Mmax_pos (positions (extrema r)) = 15
     \<and> Vmax (extrema r) = Fin 30 \<and> Vmax_pos (positions (extrema r)) = 0
     \<and> Vmin (extrema r) = Fin (- 30) \<and> Vmin_pos (positions (extrema r)) = 15
     \<and> map (\<lambda>s. (seg_a s, seg_b s, seg_type s, V_a s, V_b s)) (V_segments r) =
        [(0, 15, Const, Some 30, Some 30), (15, 30, Const, Some (- 30), Some (- 30))])"
  by (simp add: scenario1_result)

text \<open>
  C2. A 10 m cantilever (m, kN) fixed at its left end carries one downward point load of 20
  at 10. What the code returns: a vertical reaction of -20 and a moment reaction of -200 at
  the fixed end, one constant shear segment of value -20 over the span, and one linear
  moment segment that goes from -200 at 0 to -400 at 10.
\<close>

theorem scenario4_cantilever_code:
  "(let r = calculateBeamAnalysis scenario4_beam scenario4_supports scenario4_loads
    in isValid r
     \<and> map (\<lambda>q. (r_type q, r_R q, r_M q)) (reactions r) =
        [(Vertical, Some (- 20), None), (Moment, None, Some (- 200))]
     \<and> map (\<lambda>s. (seg_a s, seg_b s, seg_type s, V_a s, V_b s)) (V_segments r) =
        [(0, 10, Const, Some (- 20), Some (- 20))]
     \<and> map (\<lambda>s. (seg_a s, seg_b s, seg_type s, M_a s, M_b s)) (M_segments r) =
        [(0, 10, Linear, Some (Fin (- 200)), Some (Fin (- 400)))])"
  by (simp add: scenario4_result)

section \<open>Reactions of a pin and a roller\<close>

lemma fold_add_point_vertical:
  "totalVerticalForce (fold (add_point px) ps t) = totalVerticalForce t + sum_list (map pl_P ps)"
  by (induction ps arbitrary: t) (simp_all add: add_point_def)

lemma fold_add_point_horizontal:
  "totalHorizontalForce (fold (add_point px) ps t) = totalHorizontalForce t"
  by (induction ps arbitrary: t) (simp_all add: add_point_def)

lemma sum_list_base_point:
  "sum_list (map pl_P (point (convertLoadsToBaseUnits loads un))) =
   sum_list (map pl_P (point loads)) * js_or (FORCE_CONVERSIONS (u_force un)) 1"
  by (simp add: convertLoadsToBaseUnits_def comp_def convertForce_base sum_list_mult_const)

text \<open>
  Where the validation accepts a pin and a roller and the loads are point loads only, the
  analysis returns exactly two reactions, the vertical one at the pin and the vertical one
  at the roller, and their sum equals the sum of the point-load magnitudes. The equation is
  exact in real arithmetic and does not need the loads to be downward.
\<close>

lemma accepted_pin_roller_reactions_sum:
  assumes "s_type supports = PinRoller"
    and "isValid (calculateBeamAnalysis bd supports loads)"
    and "angled loads = []" and "udl loads = []" and "uvl loads = []" and "moment loads = []"
  shows "\<exists>pinReaction rollerReaction.
           map (\<lambda>q. (r_type q, r_at q, r_R q))
             (reactions (calculateBeamAnalysis bd supports loads)) =
             [(Vertical, ''pin'', Some pinReaction), (Vertical, ''roller'', Some rollerReaction)]
           \<and> pinReaction + rollerReaction = sum_list (map pl_P (point loads))"
proof -
  let ?f = "js_or (FORCE_CONVERSIONS (u_force (units bd))) 1"
  have f: "?f \<noteq> 0" by (rule js_or_1_neq_0)
  from assms(2) have pos: "0 < beam_length bd"
    and valid: "validateSupports (convertSupportsToBaseUnits supports (u_length (units bd)))
     (convertLength (beam_length bd) (u_length (units bd)) (u_length BASE_UNITS))"
    by (simp_all add: isValid_calculateBeamAnalysis)
  have ty: "s_type (convertSupportsToBaseUnits supports (u_length (units bd))) = PinRoller"
    using assms(1) by (simp add: convertSupportsToBaseUnits_def)
  have bl: "angled (convertLoadsToBaseUnits loads (units bd)) = []"
    "udl (convertLoadsToBaseUnits loads (units bd)) = []"
    "uvl (convertLoadsToBaseUnits loads (units bd)) = []"
    using assms(3-5) by (simp_all add: convertLoadsToBaseUnits_def)
  define t where "t = fold (add_point (js_or (pin_x (convertSupportsToBaseUnits supports
      (u_length (units bd)))) 0)) (point (convertLoadsToBaseUnits loads (units bd))) totals0"
  define rollerR where "rollerR = totalMoment t /
      (js_or (roller_x (convertSupportsToBaseUnits supports (u_length (units bd))))
         (convertLength (beam_length bd) (u_length (units bd)) (u_length BASE_UNITS))
       - js_or (pin_x (convertSupportsToBaseUnits supports (u_length (units bd)))) 0)"
  have tv: "totalVerticalForce t = sum_list (map pl_P (point loads)) * ?f"
    by (simp add: t_def fold_add_point_vertical totals0_def sum_list_base_point)
  have th: "totalHorizontalForce t = 0"
    by (simp add: t_def fold_add_point_horizontal totals0_def)
  have rs: "map (\<lambda>q. (r_type q, r_at q, r_R q))
              (reactions (calculateBeamAnalysis bd supports loads)) =
            [(Vertical, ''pin'', Some ((totalVerticalForce t - rollerR) / ?f)),
             (Vertical, ''roller'', Some (rollerR / ?f))]"
    by (simp add: calculateBeamAnalysis_valid [OF pos valid] Let_def analysis_display_def
        convertReactionsToDisplayUnits_def calculateReactions_def ty bl th
        convertForce_base rollerR_def flip: t_def)
  have total: "(totalVerticalForce t - rollerR) / ?f + rollerR / ?f =
               sum_list (map pl_P (point loads))"
    using f by (simp add: tv field_simps)
  show ?thesis
    by (rule exI [of _ "(totalVerticalForce t - rollerR) / ?f"],
        rule exI [of _ "rollerR / ?f"]) (use rs total in blast)
qed

text \<open>
  C5, at an input where the code departs from the claim. On a 10 m beam the pin is at 10
  and the roller at 0: the two positions differ and both lie on the beam, and the only load
  is a downward point load of 8 at 5. The validation reads the roller position 0 as
  missing and puts the beam length 10 in its place, finds the pin and the roller at the
  same position, and rejects the supports: the analysis is invalid and returns no
  reactions, so no pin and roller reaction sum to 8.
\<close>

theorem pin_at_end_roller_at_zero_rejected:
  "beam_length overhang_beam = 10
   \<and> s_type overhang_supports = PinRoller
   \<and> pin_x overhang_supports = Some 10 \<and> roller_x overhang_supports = Some 0
   \<and> map pl_P (point overhang_loads) = [8]
   \<and> angled overhang_loads = [] \<and> udl overhang_loads = [] \<and> uvl overhang_loads = []
   \<and> moment overhang_loads = []
   \<and> (let r = calculateBeamAnalysis overhang_beam overhang_supports overhang_loads
      in \<not> isValid r \<and> reactions r = []
       \<and> error r = Some ''Invalid support configuration'')"
proof -
  have pos: "0 < beam_length overhang_beam"
    by (simp add: overhang_beam_def)
  have invalid: "\<not> validateSupports
     (convertSupportsToBaseUnits overhang_supports (u_length (units overhang_beam)))
     (convertLength (beam_length overhang_beam) (u_length (units overhang_beam))
        (u_length BASE_UNITS))"
    by (simp add: validateSupports_def convertSupportsToBaseUnits_def overhang_supports_def
        overhang_beam_def units_m_kN_def BASE_UNITS_def conv_m_kN js_or_def)
  have r: "calculateBeamAnalysis overhang_beam overhang_supports overhang_loads =
           createErrorResult ''Invalid support configuration''"
    by (rule calculateBeamAnalysis_invalid_supports [OF pos invalid])
  show ?thesis
    unfolding r
    by (simp add: createErrorResult_def overhang_beam_def overhang_supports_def
        overhang_loads_def no_loads_def)
qed

text \<open>
  C10. With a pin and a roller, the reactions do not depend on the applied couples:
  emptying the array of moment loads leaves the list of reactions as it is.
\<close>

theorem moment_loads_leave_pin_roller_reactions:
  "s_type supports = PinRoller \<Longrightarrow>
   calculateReactions (loads\<lparr>moment := []\<rparr>) supports len = calculateReactions loads supports len"
  by (simp add: calculateReactions_def)

theorem moment_loads_leave_pin_roller_reactions_witness:
  "s_type scenario1_supports = PinRoller
   \<and> moment loads_with_couple \<noteq> []
   \<and> calculateReactions (loads_with_couple\<lparr>moment := []\<rparr>) scenario1_supports 30 =
     calculateReactions loads_with_couple scenario1_supports 30
   \<and> map (\<lambda>q. (r_at q, r_R q)) (calculateReactions loads_with_couple scenario1_supports 30) =
     [(''pin'', Some 30000), (''roller'', Some 30000)]"
proof -
  have h1: "s_type scenario1_supports = PinRoller"
    by (simp add: scenario1_supports_def)
  have couple: "moment loads_with_couple \<noteq> []"
    by (simp add: loads_with_couple_def)
  have emptied: "loads_with_couple\<lparr>moment := []\<rparr> =
      no_loads\<lparr>point := [\<lparr>pl_label = ''P1'', pl_x = 15, pl_P = 60000\<rparr>]\<rparr>"
    by (simp add: loads_with_couple_def no_loads_def)
  from moment_loads_leave_pin_roller_reactions [OF h1, of loads_with_couple 30]
  have same: "calculateReactions (loads_with_couple\<lparr>moment := []\<rparr>) scenario1_supports 30 =
      calculateReactions loads_with_couple scenario1_supports 30" .
  from same [symmetric] have "map (\<lambda>q. (r_at q, r_R q))
      (calculateReactions loads_with_couple scenario1_supports 30) =
      [(''pin'', Some 30000), (''roller'', Some 30000)]"
    by (simp add: emptied scenario1_reactions)
  with h1 couple same show ?thesis
    by simp
qed

section \<open>Validation of the supports\<close>

text \<open>
  C7, at the input where the code departs from the claim. A pin and a roller both entered
  at 0 on a 10 m beam pass validation: the roller position 0 is replaced by the beam
  length, so the analysis is valid, reports no error, and places the roller at 10.
\<close>

theorem coincident_supports_at_zero_accepted:
  "validateSupports
     (convertSupportsToBaseUnits coincident_supports (u_length (units coincident_beam)))
     (convertLength (beam_length coincident_beam) (u_length (units coincident_beam))
        (u_length BASE_UNITS))
   \<and> (let r = calculateBeamAnalysis coincident_beam coincident_supports no_loads
      in isValid r \<and> error r = None
       \<and> map (\<lambda>q. (r_at q, r_x q)) (reactions r) = [(''pin'', Some 0), (''roller'', Some 10)])"
proof -
  have pos: "0 < beam_length coincident_beam"
    by (simp add: coincident_beam_def)
  have valid: "validateSupports
     (convertSupportsToBaseUnits coincident_supports (u_length (units coincident_beam)))
     (convertLength (beam_length coincident_beam) (u_length (units coincident_beam))
        (u_length BASE_UNITS))"
    by (simp add: validateSupports_def convertSupportsToBaseUnits_def coincident_supports_def
        coincident_beam_def units_m_kN_def BASE_UNITS_def conv_m_kN js_or_def)
  have r: "map (\<lambda>q. (r_at q, r_x q))
             (reactions (calculateBeamAnalysis coincident_beam coincident_supports no_loads)) =
           [(''pin'', Some 0), (''roller'', Some 10)]"
    unfolding calculateBeamAnalysis_valid [OF pos valid] Let_def
    by (simp add: analysis_display_def
        convertReactionsToDisplayUnits_def calculateReactions_def convertSupportsToBaseUnits_def
        convertLoadsToBaseUnits_def coincident_supports_def coincident_beam_def no_loads_def
        units_m_kN_def BASE_UNITS_def conv_m_kN js_or_def totals0_def)
  have e: "error (calculateBeamAnalysis coincident_beam coincident_supports no_loads) = None"
    unfolding calculateBeamAnalysis_valid [OF pos valid] Let_def
    by (simp add: analysis_display_def)
  have v: "isValid (calculateBeamAnalysis coincident_beam coincident_supports no_loads)"
    using pos valid by (simp add: isValid_calculateBeamAnalysis)
  from valid r e v show ?thesis
    by simp
qed

section \<open>Events\<close>

lemma set_set_add [simp]: "set (set_add s v) = insert v (set s)"
  by (auto simp: set_add_def)

lemma distinct_set_add [simp]: "distinct s \<Longrightarrow> distinct (set_add s v)"
  by (simp add: set_add_def)

lemma set_fold_set_add:
  "set (fold (\<lambda>load ev. set_add ev (f load)) xs ev) = set ev \<union> f ` set xs"
  by (induction xs arbitrary: ev) auto

lemma set_fold_set_add2:
  "set (fold (\<lambda>load ev. set_add (set_add ev (f load)) (g load)) xs ev) =
   set ev \<union> f ` set xs \<union> g ` set xs"
  by (induction xs arbitrary: ev) auto

lemma distinct_fold_set_add:
  "distinct ev \<Longrightarrow> distinct (fold (\<lambda>load ev. set_add ev (f load)) xs ev)"
  by (induction xs arbitrary: ev) auto

lemma distinct_fold_set_add2:
  "distinct ev \<Longrightarrow> distinct (fold (\<lambda>load ev. set_add (set_add ev (f load)) (g load)) xs ev)"
  by (induction xs arbitrary: ev) auto

lemma finite_event_positions [simp]: "finite (event_positions loads supports len)"
  by (simp add: event_positions_def support_positions_def load_positions_def)

lemma js_or_cases: "js_or v d = d \<or> v = Some (js_or v d)"
  by (simp add: js_or_def split: option.splits)

lemma support_events:
  "{0, len} \<union> (if s_type supports = PinRoller
                 then {js_or (pin_x supports) 0, js_or (roller_x supports) len}
                 else {if fixed_pos supports = Some Right then len else 0}) =
   {0, len} \<union> support_positions supports len"
proof (cases "s_type supports = PinRoller")
  case True
  then show ?thesis
    by (cases "pin_x supports"; cases "roller_x supports")
       (auto simp: support_positions_def js_or_def)
next
  case False
  then show ?thesis
    by (simp add: support_positions_def)
qed

lemma generateEvents_sorted_list_of_set:
  "generateEvents loads supports len = sorted_list_of_set (event_positions loads supports len)"
proof -
  define ev0 where "ev0 = (if s_type supports = PinRoller then
                  set_add (set_add (set_add (set_add [] 0) len) (js_or (pin_x supports) 0)) (js_or (roller_x supports) len)
                else
                  set_add (set_add (set_add [] 0) len) (if fixed_pos supports = Some Right then len else 0))"
  define ev where "ev = fold (\<lambda>load ev. set_add ev (ml_x load)) (moment loads)
      (fold (\<lambda>load ev. set_add (set_add ev (uvl_a load)) (uvl_b load)) (uvl loads)
      (fold (\<lambda>load ev. set_add (set_add ev (udl_a load)) (udl_b load)) (udl loads)
      (fold (\<lambda>load ev. set_add ev (al_x load)) (angled loads)
      (fold (\<lambda>load ev. set_add ev (pl_x load)) (point loads) ev0))))"
  have g: "generateEvents loads supports len = sort ev"
    by (simp add: generateEvents_def ev_def ev0_def Let_def)
  have d0: "distinct ev0"
    by (simp add: ev0_def)
  have d: "distinct ev"
    unfolding ev_def
    by (intro distinct_fold_set_add distinct_fold_set_add2 d0)
  have "set ev0 = {0, len} \<union> (if s_type supports = PinRoller
                 then {js_or (pin_x supports) 0, js_or (roller_x supports) len}
                 else {if fixed_pos supports = Some Right then len else 0})"
    by (auto simp: ev0_def)
  then have s0: "set ev0 = {0, len} \<union> support_positions supports len"
    by (simp only: support_events)
  have s: "set ev = event_positions loads supports len"
    unfolding ev_def set_fold_set_add set_fold_set_add2 s0 event_positions_def load_positions_def
    by (simp add: Un_assoc)
  have "sort ev = sorted_list_of_set (set ev)"
    using d by (simp add: sorted_list_of_set_sort_remdups distinct_remdups_id)
  with g s show ?thesis
    by simp
qed

text \<open>
  C6. For every input, the events are strictly increasing (so free of duplicates); their set
  is exactly the beam ends 0 and length, the support positions, and the positions of the
  loads (the x of point, angled and moment loads, both ends of distributed loads); and the
  array is the same for any other ordering of the load arrays. The events are a function
  of the input, so computing them again gives the same array.
\<close>

theorem generateEvents_contract:
  "sorted_wrt (<) (generateEvents loads supports len)
   \<and> set (generateEvents loads supports len) = event_positions loads supports len
   \<and> (\<forall>loads'. mset (point loads') = mset (point loads)
                \<and> mset (angled loads') = mset (angled loads)
                \<and> mset (udl loads') = mset (udl loads)
                \<and> mset (uvl loads') = mset (uvl loads)
                \<and> mset (moment loads') = mset (moment loads)
         \<longrightarrow> generateEvents loads' supports len = generateEvents loads supports len)"
proof (intro conjI allI impI)
  show "sorted_wrt (<) (generateEvents loads supports len)"
    by (simp add: generateEvents_sorted_list_of_set strict_sorted_iff)
  show "set (generateEvents loads supports len) = event_positions loads supports len"
    by (simp add: generateEvents_sorted_list_of_set)
next
  fix loads' :: Loads
  assume "mset (point loads') = mset (point loads)
                \<and> mset (angled loads') = mset (angled loads)
                \<and> mset (udl loads') = mset (udl loads)
                \<and> mset (uvl loads') = mset (uvl loads)
                \<and> mset (moment loads') = mset (moment loads)"
  then have "set (point loads') = set (point loads)" "set (angled loads') = set (angled loads)"
    "set (udl loads') = set (udl loads)" "set (uvl loads') = set (uvl loads)"
    "set (moment loads') = set (moment loads)"
    by (auto dest: mset_eq_setD)
  then have "event_positions loads' supports len = event_positions loads supports len"
    by (simp add: event_positions_def load_positions_def)
  then show "generateEvents loads' supports len = generateEvents loads supports len"
    by (simp add: generateEvents_sorted_list_of_set)
qed

theorem generateEvents_contract_witness:
  "mset (point swapped_loads) = mset (point default_loads)
   \<and> mset (angled swapped_loads) = mset (angled default_loads)
   \<and> mset (udl swapped_loads) = mset (udl default_loads)
   \<and> mset (uvl swapped_loads) = mset (uvl default_loads)
   \<and> mset (moment swapped_loads) = mset (moment default_loads)
   \<and> point swapped_loads \<noteq> point default_loads
   \<and> generateEvents swapped_loads scenario1_supports 30 = [0, 6, 20, 30]
   \<and> generateEvents default_loads scenario1_supports 30 = [0, 6, 20, 30]"
proof -
  have m: "mset (point swapped_loads) = mset (point default_loads)
                \<and> mset (angled swapped_loads) = mset (angled default_loads)
                \<and> mset (udl swapped_loads) = mset (udl default_loads)
                \<and> mset (uvl swapped_loads) = mset (uvl default_loads)
                \<and> mset (moment swapped_loads) = mset (moment default_loads)"
    by (simp add: swapped_loads_def default_loads_def no_loads_def)
  have ne: "point swapped_loads \<noteq> point default_loads"
    by (simp add: swapped_loads_def default_loads_def no_loads_def)
  have ev: "generateEvents default_loads scenario1_supports 30 = [0, 6, 20, 30]"
    by (simp add: generateEvents_def default_loads_def no_loads_def scenario1_supports_def
        js_or_def set_add_def)
  from generateEvents_contract [of default_loads scenario1_supports 30] m
  have "generateEvents swapped_loads scenario1_supports 30 =
        generateEvents default_loads scenario1_supports 30"
    by blast
  with m ne ev show ?thesis
    by simp
qed

section \<open>Segments partition the beam\<close>

lemma chained_iff_nth:
  "chained segs \<longleftrightarrow> (\<forall>i. Suc i < length segs \<longrightarrow> seg_b (segs ! i) = seg_a (segs ! Suc i))"
proof (induction segs rule: chained.induct)
  case (1 s t rest)
  show ?case
  proof
    assume c: "chained (s # t # rest)"
    show "\<forall>i. Suc i < length (s # t # rest) \<longrightarrow>
              seg_b ((s # t # rest) ! i) = seg_a ((s # t # rest) ! Suc i)"
    proof (intro allI impI)
      fix i assume "Suc i < length (s # t # rest)"
      with c 1 show "seg_b ((s # t # rest) ! i) = seg_a ((s # t # rest) ! Suc i)"
        by (cases i) auto
    qed
  next
    assume a: "\<forall>i. Suc i < length (s # t # rest) \<longrightarrow>
              seg_b ((s # t # rest) ! i) = seg_a ((s # t # rest) ! Suc i)"
    from a [rule_format, of 0] have "seg_b s = seg_a t" by simp
    moreover have "chained (t # rest)"
      unfolding 1
    proof (intro allI impI)
      fix i assume "Suc i < length (t # rest)"
      with a [rule_format, of "Suc i"] show "seg_b ((t # rest) ! i) = seg_a ((t # rest) ! Suc i)"
        by simp
    qed
    ultimately show "chained (s # t # rest)" by simp
  qed
qed simp_all

text \<open>The ends of the segments of a valid analysis, read off the base-unit events.\<close>

lemma seg_ends_shear_segment [simp]:
  "seg_a (shear_segment loads rs a b) = a" "seg_b (shear_segment loads rs a b) = b"
  by (simp_all add: shear_segment_def Let_def split: prod.splits)

lemma seg_ends_moment_segment [simp]:
  "seg_a (moment_segment V loads rs a b) = a" "seg_b (moment_segment V loads rs a b) = b"
  by (simp_all add: moment_segment_def Let_def split: prod.splits)

lemma seg_ends_display:
  "map (\<lambda>s. (seg_a s, seg_b s)) (convertSegmentsToDisplayUnits segs un) =
   map (\<lambda>s. (seg_a s / js_or (LENGTH_CONVERSIONS (u_length un)) 1,
             seg_b s / js_or (LENGTH_CONVERSIONS (u_length un)) 1)) segs"
  by (simp add: convertSegmentsToDisplayUnits_def convertLength_base comp_def)

lemma segment_ends_valid:
  assumes "isValid (calculateBeamAnalysis bd supports loads)"
  defines "evs \<equiv> base_events bd supports loads"
    and "f \<equiv> js_or (LENGTH_CONVERSIONS (u_length (units bd))) 1"
  shows "map (\<lambda>s. (seg_a s, seg_b s)) (V_segments (calculateBeamAnalysis bd supports loads)) =
         map (\<lambda>i. (evs ! i / f, evs ! (i + 1) / f)) [0..<length evs - 1]"
    and "map (\<lambda>s. (seg_a s, seg_b s)) (M_segments (calculateBeamAnalysis bd supports loads)) =
         map (\<lambda>i. (evs ! i / f, evs ! (i + 1) / f)) [0..<length evs - 1]"
proof -
  from assms(1) have pos: "0 < beam_length bd"
    and valid: "validateSupports (convertSupportsToBaseUnits supports (u_length (units bd)))
     (convertLength (beam_length bd) (u_length (units bd)) (u_length BASE_UNITS))"
    by (simp_all add: isValid_calculateBeamAnalysis)
  show "map (\<lambda>s. (seg_a s, seg_b s)) (V_segments (calculateBeamAnalysis bd supports loads)) =
         map (\<lambda>i. (evs ! i / f, evs ! (i + 1) / f)) [0..<length evs - 1]"
    unfolding calculateBeamAnalysis_valid [OF pos valid] Let_def
    by (simp add: analysis_display_def seg_ends_display calculateShearSegments_def comp_def
        evs_def f_def base_events_def)
  show "map (\<lambda>s. (seg_a s, seg_b s)) (M_segments (calculateBeamAnalysis bd supports loads)) =
         map (\<lambda>i. (evs ! i / f, evs ! (i + 1) / f)) [0..<length evs - 1]"
    unfolding calculateBeamAnalysis_valid [OF pos valid] Let_def
    by (simp add: analysis_display_def seg_ends_display comp_def
        evs_def f_def base_events_def)
qed


lemma hd_sorted_least:
  "sorted xs \<Longrightarrow> x \<in> set xs \<Longrightarrow> \<forall>y\<in>set xs. x \<le> y \<Longrightarrow> hd xs = (x::real)"
  by (cases xs) (auto simp: order_antisym)

lemma last_sorted_greatest:
  "sorted xs \<Longrightarrow> x \<in> set xs \<Longrightarrow> \<forall>y\<in>set xs. y \<le> x \<Longrightarrow> last xs = (x::real)"
proof (induction xs)
  case Nil
  then show ?case by simp
next
  case (Cons a xs)
  show ?case
  proof (cases "xs = []")
    case True
    with Cons.prems show ?thesis by simp
  next
    case False
    then obtain y where y: "y \<in> set xs"
      by (cases xs) auto
    have "x \<in> set xs"
    proof (cases "x = a")
      case True
      with Cons.prems y have "a \<le> y" "y \<le> a" by auto
      with y True show ?thesis by simp
    next
      case False
      with Cons.prems show ?thesis by simp
    qed
    with Cons.prems have "last xs = x"
      by (intro Cons.IH) auto
    with False show ?thesis by simp
  qed
qed

lemma load_positions_base:
  "load_positions (convertLoadsToBaseUnits loads un) =
   (\<lambda>x. x * js_or (LENGTH_CONVERSIONS (u_length un)) 1) ` load_positions loads"
  by (simp add: load_positions_def convertLoadsToBaseUnits_def convertLength_base image_Un
      image_image)

lemma base_events_set:
  "set (base_events bd supports loads) =
   event_positions (convertLoadsToBaseUnits loads (units bd))
       (convertSupportsToBaseUnits supports (u_length (units bd)))
       (convertLength (beam_length bd) (u_length (units bd)) (u_length BASE_UNITS))"
  by (simp add: base_events_def generateEvents_sorted_list_of_set)

lemma base_events_sorted: "sorted_wrt (<) (base_events bd supports loads)"
  by (simp add: base_events_def generateEvents_sorted_list_of_set strict_sorted_iff)

lemma base_events_ends:
  "0 \<in> set (base_events bd supports loads)"
  "beam_length bd * js_or (LENGTH_CONVERSIONS (u_length (units bd))) 1
     \<in> set (base_events bd supports loads)"
  by (simp_all add: base_events_set event_positions_def convertLength_base)

lemma base_events_at_least_two:
  assumes "0 < beam_length bd"
  shows "2 \<le> length (base_events bd supports loads)"
proof -
  let ?evs = "base_events bd supports loads"
  let ?L = "beam_length bd * js_or (LENGTH_CONVERSIONS (u_length (units bd))) 1"
  have "0 < ?L"
    using assms length_factor_pos by simp
  then have "{0, ?L} \<subseteq> set ?evs" "card {0, ?L} = 2"
    using base_events_ends [of bd supports loads] by (auto simp: card_insert_if)
  then have "2 \<le> card (set ?evs)"
    by (metis card_mono List.finite_set)
  also have "\<dots> \<le> length ?evs"
    by (rule card_length)
  finally show ?thesis .
qed

lemma base_events_inside:
  assumes inside: "\<forall>x\<in>input_positions loads supports. 0 \<le> x \<and> x \<le> beam_length bd"
    and pos: "0 < beam_length bd"
  shows "\<forall>x\<in>set (base_events bd supports loads).
           0 \<le> x \<and> x \<le> beam_length bd * js_or (LENGTH_CONVERSIONS (u_length (units bd))) 1"
proof
  let ?f = "js_or (LENGTH_CONVERSIONS (u_length (units bd))) 1"
  have f: "0 < ?f" by (rule length_factor_pos)
  have scaled: "0 \<le> x * ?f \<and> x * ?f \<le> beam_length bd * ?f"
    if "x \<in> input_positions loads supports" for x
    using inside that f by (simp add: mult_right_mono)
  have zero: "0 \<le> (0::real) \<and> 0 \<le> beam_length bd * ?f"
    using pos f by simp
  fix x assume "x \<in> set (base_events bd supports loads)"
  then consider "x = 0" | "x = beam_length bd * ?f"
    | "x \<in> (\<lambda>x. x * ?f) ` load_positions loads"
    | "x \<in> support_positions (convertSupportsToBaseUnits supports (u_length (units bd)))
            (beam_length bd * ?f)"
    by (auto simp: base_events_set event_positions_def load_positions_base convertLength_base)
  then show "0 \<le> x \<and> x \<le> beam_length bd * ?f"
  proof cases
    case 1
    with zero show ?thesis by simp
  next
    case 2
    with zero show ?thesis by simp
  next
    case 3
    then obtain y where "y \<in> load_positions loads" "x = y * ?f" by auto
    with scaled [of y] show ?thesis by (simp add: input_positions_def)
  next
    case 4
    show ?thesis
    proof (cases "s_type supports = PinRoller")
      case True
      with 4 have "x = js_or (pin_x supports) 0 * ?f \<or> x = js_or (roller_x supports) 0 * ?f"
        by (auto simp: support_positions_def convertSupportsToBaseUnits_def convertLength_base)
      moreover have "js_or (pin_x supports) 0 = 0 \<or>
                     js_or (pin_x supports) 0 \<in> input_positions loads supports"
        using True js_or_cases [of "pin_x supports" 0] by (auto simp: input_positions_def)
      moreover have "js_or (roller_x supports) 0 = 0 \<or>
                     js_or (roller_x supports) 0 \<in> input_positions loads supports"
        using True js_or_cases [of "roller_x supports" 0] by (auto simp: input_positions_def)
      ultimately show ?thesis
        using scaled zero by auto
    next
      case False
      with 4 have "x = 0 \<or> x = beam_length bd * ?f"
        by (auto simp: support_positions_def convertSupportsToBaseUnits_def split: if_splits)
      with zero show ?thesis by auto
    qed
  qed
qed


lemma ends_chain:
  assumes ends: "map (\<lambda>s. (seg_a s, seg_b s)) segs =
                 map (\<lambda>i. (evs ! i / f, evs ! (i + 1) / f)) [0..<length evs - 1]"
    and srt: "sorted_wrt (<) evs" and f: "0 < (f::real)" and two: "2 \<le> length evs"
  shows "segs \<noteq> []" and "chained segs" and "list_all (\<lambda>s. seg_a s < seg_b s) segs"
    and "seg_a (hd segs) = hd evs / f" and "seg_b (last segs) = last evs / f"
proof -
  from ends have "length (map (\<lambda>s. (seg_a s, seg_b s)) segs) =
      length (map (\<lambda>i. (evs ! i / f, evs ! (i + 1) / f)) [0..<length evs - 1])"
    by simp
  then have n: "length segs = length evs - 1"
    by simp
  have nth: "seg_a (segs ! i) = evs ! i / f \<and> seg_b (segs ! i) = evs ! (i + 1) / f"
    if "i < length segs" for i
  proof -
    from ends have "map (\<lambda>s. (seg_a s, seg_b s)) segs ! i =
        map (\<lambda>i. (evs ! i / f, evs ! (i + 1) / f)) [0..<length evs - 1] ! i"
      by simp
    with that n show ?thesis
      by simp
  qed
  from n two show ne: "segs \<noteq> []"
    by auto
  show "chained segs"
    unfolding chained_iff_nth using nth by simp
  show "list_all (\<lambda>s. seg_a s < seg_b s) segs"
    unfolding list_all_length
  proof (intro allI impI)
    fix i assume i: "i < length segs"
    with n have "evs ! i < evs ! (i + 1)"
      by (intro sorted_wrt_nth_less [OF srt]) auto
    with nth [OF i] f show "seg_a (segs ! i) < seg_b (segs ! i)"
      by (simp add: divide_strict_right_mono)
  qed
  from two have evs_ne: "evs \<noteq> []"
    by auto
  from ne have "0 < length segs"
    by simp
  from nth [OF this] show "seg_a (hd segs) = hd evs / f"
    by (simp add: hd_conv_nth [OF ne] hd_conv_nth [OF evs_ne])
  from ne have "length segs - 1 < length segs"
    by simp
  from nth [OF this] have "seg_b (segs ! (length segs - 1)) = evs ! (length segs - 1 + 1) / f"
    by simp
  moreover from n two have "length segs - 1 + 1 = length evs - 1"
    by simp
  ultimately show "seg_b (last segs) = last evs / f"
    by (simp add: last_conv_nth [OF ne] last_conv_nth [OF evs_ne])
qed

text \<open>
  C8, as the code has it. In every valid result the shear segments, and likewise the moment
  segments, are not empty, each segment ends where the next one starts, and each has its
  start left of its end. When every load position and every entered pin and roller
  position lies in the closed interval from 0 to the beam length, the first segment starts
  at 0 and the last one ends at the beam length, so the segments partition that interval.
\<close>

theorem segments_chain_and_span:
  assumes "isValid (calculateBeamAnalysis bd supports loads)"
  shows "(let r = calculateBeamAnalysis bd supports loads
          in V_segments r \<noteq> [] \<and> chained (V_segments r)
           \<and> list_all (\<lambda>s. seg_a s < seg_b s) (V_segments r)
           \<and> M_segments r \<noteq> [] \<and> chained (M_segments r)
           \<and> list_all (\<lambda>s. seg_a s < seg_b s) (M_segments r)
           \<and> ((\<forall>x\<in>input_positions loads supports. 0 \<le> x \<and> x \<le> beam_length bd) \<longrightarrow>
                partitions_span (V_segments r) (beam_length bd)
                \<and> partitions_span (M_segments r) (beam_length bd)))"
proof -
  let ?r = "calculateBeamAnalysis bd supports loads"
  let ?evs = "base_events bd supports loads"
  let ?f = "js_or (LENGTH_CONVERSIONS (u_length (units bd))) 1"
  from assms have pos: "0 < beam_length bd"
    by (simp add: isValid_calculateBeamAnalysis)
  have f: "0 < ?f" by (rule length_factor_pos)
  have srt: "sorted_wrt (<) ?evs" by (rule base_events_sorted)
  then have srt': "sorted ?evs" by (simp add: strict_sorted_iff)
  have two: "2 \<le> length ?evs" by (rule base_events_at_least_two [OF pos])
  note V = ends_chain [OF segment_ends_valid(1) [OF assms] srt f two]
  note M = ends_chain [OF segment_ends_valid(2) [OF assms] srt f two]
  have span: "partitions_span (V_segments ?r) (beam_length bd)
              \<and> partitions_span (M_segments ?r) (beam_length bd)"
    if inside: "\<forall>x\<in>input_positions loads supports. 0 \<le> x \<and> x \<le> beam_length bd"
  proof -
    note b = base_events_inside [OF inside pos]
    have h: "hd ?evs = 0"
      by (rule hd_sorted_least [OF srt' base_events_ends(1)]) (use b in auto)
    have l: "last ?evs = beam_length bd * ?f"
      by (rule last_sorted_greatest [OF srt' base_events_ends(2)]) (use b in auto)
    from V M h l f show ?thesis
      by (simp add: partitions_span_def)
  qed
  from V M span show ?thesis
    by (simp add: Let_def)
qed


lemma outside_events:
  "base_events scenario1_beam scenario1_supports outside_loads = [- 5, 0, 30]"
  by (simp add: base_events_def generateEvents_def convertLoadsToBaseUnits_def
      convertSupportsToBaseUnits_def outside_loads_def no_loads_def scenario1_beam_def
      scenario1_supports_def units_m_kN_def BASE_UNITS_def conv_m_kN js_or_def set_add_def)

lemma outside_valid:
  "isValid (calculateBeamAnalysis scenario1_beam scenario1_supports outside_loads)"
  by (simp add: isValid_calculateBeamAnalysis convertSupportsToBaseUnits_def
      validateSupports_def scenario1_beam_def scenario1_supports_def units_m_kN_def
      BASE_UNITS_def conv_m_kN js_or_def)

text \<open>
  C8 fails for a load outside the beam: with a point load at -5 on the beam of the first
  scenario the result is valid and the first shear segment and the first moment segment
  start at -5, not at 0.
\<close>

theorem load_left_of_beam_counterexample:
  "isValid (calculateBeamAnalysis scenario1_beam scenario1_supports outside_loads)
   \<and> map seg_a (V_segments (calculateBeamAnalysis scenario1_beam scenario1_supports
         outside_loads)) = [- 5, 0]
   \<and> map seg_a (M_segments (calculateBeamAnalysis scenario1_beam scenario1_supports
         outside_loads)) = [- 5, 0]
   \<and> seg_a (hd (V_segments (calculateBeamAnalysis scenario1_beam scenario1_supports
         outside_loads))) \<noteq> 0"
proof -
  let ?r = "calculateBeamAnalysis scenario1_beam scenario1_supports outside_loads"
  have f: "js_or (LENGTH_CONVERSIONS (u_length (units scenario1_beam))) 1 = 1"
    by (simp add: scenario1_beam_def units_m_kN_def LENGTH_CONVERSIONS_def js_or_def)
  have V: "map (\<lambda>s. (seg_a s, seg_b s)) (V_segments ?r) = [(- 5, 0), (0, 30)]"
    unfolding segment_ends_valid(1) [OF outside_valid] outside_events f
    by (simp add: upt_small)
  have M: "map (\<lambda>s. (seg_a s, seg_b s)) (M_segments ?r) = [(- 5, 0), (0, 30)]"
    unfolding segment_ends_valid(2) [OF outside_valid] outside_events f
    by (simp add: upt_small)
  from V have Va: "map seg_a (V_segments ?r) = [- 5, 0]"
    by (auto simp: map_eq_Cons_conv)
  from M have Ma: "map seg_a (M_segments ?r) = [- 5, 0]"
    by (auto simp: map_eq_Cons_conv)
  from Va have "seg_a (hd (V_segments ?r)) = - 5"
    by (cases "V_segments ?r") auto
  with Va Ma outside_valid show ?thesis
    by simp
qed

theorem segments_chain_and_span_witness:
  "(let r = calculateBeamAnalysis scenario1_beam scenario1_supports scenario1_loads
    in isValid r
     \<and> input_positions scenario1_loads scenario1_supports = {0, 15, 30}
     \<and> partitions_span (V_segments r) (beam_length scenario1_beam)
     \<and> partitions_span (M_segments r) (beam_length scenario1_beam))"
proof -
  let ?r = "calculateBeamAnalysis scenario1_beam scenario1_supports scenario1_loads"
  have v: "isValid ?r"
    by (simp add: scenario1_result)
  have p: "input_positions scenario1_loads scenario1_supports = {0, 15, 30}"
    by (auto simp: input_positions_def load_positions_def scenario1_loads_def no_loads_def
        scenario1_supports_def)
  have inside: "\<forall>x\<in>input_positions scenario1_loads scenario1_supports.
                  0 \<le> x \<and> x \<le> beam_length scenario1_beam"
    by (simp add: p scenario1_beam_def)
  from segments_chain_and_span [OF v] inside
  have "partitions_span (V_segments ?r) (beam_length scenario1_beam)
        \<and> partitions_span (M_segments ?r) (beam_length scenario1_beam)"
    by (simp add: Let_def)
  with v p show ?thesis
    by (simp add: Let_def)
qed

section \<open>The sampler on one segment\<close>

lemma num_or_Fin [simp]: "num_or (Some (Fin c)) (Fin 0) = Fin c"
  by (simp add: num_or_def)

lemma length_segment_points:
  "length (segment_points segment) = points_per_segment (seg_type segment)"
  by (cases "seg_type segment")
     (simp_all add: segment_points_def sample_numPoints_def points_per_segment_def)

lemma sample_value_shaped:
  assumes "shear_shaped segment cs"
  shows "sample_value segment t dx = Fin (poly_value cs dx)"
proof (cases "seg_type segment")
  case Const
  with assms obtain c0 where "cs = [c0]"
    by (cases cs) (auto simp: shear_shaped_def)
  with assms Const show ?thesis
    by (simp add: shear_shaped_def sample_value_def at_index_def num_of_opt_def)
next
  case Linear
  with assms obtain c0 c1 where "cs = [c0, c1]"
    by (cases cs; cases "tl cs") (auto simp: shear_shaped_def)
  with assms Linear show ?thesis
    by (simp add: shear_shaped_def sample_value_def at_index_def num_of_opt_def jsnum_arith
        mult.commute)
next
  case Quadratic
  with assms obtain c0 c1 c2 where "cs = [c0, c1, c2]"
    by (cases cs; cases "tl cs"; cases "tl (tl cs)") (auto simp: shear_shaped_def)
  with assms Quadratic show ?thesis
    by (simp add: shear_shaped_def sample_value_def at_index_def num_of_opt_def jsnum_arith
        algebra_simps)
next
  case Cubic
  with assms show ?thesis
    by (simp add: shear_shaped_def)
qed


section \<open>A linearly varying load whose end intensities cancel\<close>

lemma conv_m_N:
  "convertLength v ''m'' ''m'' = v"
  "convertForce v ''N'' ''N'' = v"
  "convertForceN n ''N'' ''N'' = n * Fin 1 / Fin 1"
  by (simp_all add: convertLength_def convertForce_def convertForceN_def LENGTH_CONVERSIONS_def
      FORCE_CONVERSIONS_def js_or_def)

lemma couple_base:
  "convertLength (beam_length couple_beam) (u_length (units couple_beam))
     (u_length BASE_UNITS) = 20"
  "convertLoadsToBaseUnits couple_loads (units couple_beam) = couple_loads"
  "convertSupportsToBaseUnits couple_supports (u_length (units couple_beam)) = couple_supports"
  by (simp_all add: convertLoadsToBaseUnits_def convertSupportsToBaseUnits_def
      couple_loads_def couple_beam_def couple_supports_def no_loads_def units_m_N_def
      BASE_UNITS_def conv_m_N js_or_def)

lemma couple_reactions: "calculateReactions couple_loads couple_supports 20 = zero_reactions"
  by (simp add: calculateReactions_def couple_supports_def couple_loads_def no_loads_def
      js_or_def add_uvl_def totals0_def zero_reactions_def)

lemma couple_events: "generateEvents couple_loads couple_supports 20 = [0, 10, 20]"
  by (simp add: generateEvents_def couple_supports_def couple_loads_def no_loads_def js_or_def
      set_add_def)

lemma couple_shear:
  "calculateShearSegments couple_loads zero_reactions [0, 10, 20] 20 =
   [\<lparr>seg_a = 0, seg_b = 10, seg_type = Quadratic, V_a = Some 0, V_b = Some 0,
      M_a = None, M_b = None, coeffs = Some [Fin 0, Fin (- 5), Fin (1 / 2)]\<rparr>,
    \<lparr>seg_a = 10, seg_b = 20, seg_type = Const, V_a = Some 0, V_b = Some 0,
      M_a = None, M_b = None, coeffs = Some [Fin 0]\<rparr>]"
  by (simp add: shear_defs upt_small couple_loads_def no_loads_def zero_reactions_def js_or_def
      Let_def)

lemma couple_moment_start: "moment_start couple_loads zero_reactions 10 = NaN"
  by (simp add: moment_start_def moment_reaction_step_def moment_uvl_step_def couple_loads_def
      no_loads_def zero_reactions_def js_or_def jsnum_arith Let_def)

lemma couple_moment:
  "calculateMomentSegments
     [\<lparr>seg_a = 0, seg_b = 10, seg_type = Quadratic, V_a = Some 0, V_b = Some 0,
        M_a = None, M_b = None, coeffs = Some [Fin 0, Fin (- 5), Fin (1 / 2)]\<rparr>,
      \<lparr>seg_a = 10, seg_b = 20, seg_type = Const, V_a = Some 0, V_b = Some 0,
        M_a = None, M_b = None, coeffs = Some [Fin 0]\<rparr>]
     couple_loads zero_reactions [0, 10, 20] 20 =
   Some
    [\<lparr>seg_a = 0, seg_b = 10, seg_type = Cubic, V_a = None, V_b = None,
       M_a = Some (Fin 0), M_b = Some (Fin (- 250 / 3)),
       coeffs = Some [Fin 0, Fin 0, Fin (- 5 / 2), Fin (1 / 6)]\<rparr>,
     \<lparr>seg_a = 10, seg_b = 20, seg_type = Linear, V_a = None, V_b = None,
       M_a = Some NaN, M_b = Some NaN, coeffs = Some [NaN, Fin 0]\<rparr>]"
  by (simp add: moment_defs upt_small couple_loads_def no_loads_def zero_reactions_def js_or_def
      jsnum_arith Let_def)

lemma couple_moment_at_15: "calculateMomentAtPoint 15 couple_loads zero_reactions = NaN"
  by (simp add: calculateMomentAtPoint_def mp_reaction_step_def mp_uvl_step_def couple_loads_def
      no_loads_def zero_reactions_def js_or_def jsnum_arith Let_def)

lemma couple_moment_at_5: "calculateMomentAtPoint 5 couple_loads zero_reactions = Fin (- 125 / 3)"
  by (simp add: calculateMomentAtPoint_def mp_reaction_step_def mp_uvl_step_def couple_loads_def
      no_loads_def zero_reactions_def js_or_def jsnum_arith Let_def)


text \<open>
  C4, at the input where the code departs from the claim. A 20 m beam on a pin at 0 and a
  roller at 20 carries one linearly varying load from 0 to 10 whose intensities 5 and -5
  add up to zero. The reaction solver skips the load (both reactions are 0), but the moment
  builder divides by \<open>3 (w1 + w2) = 0\<close> at the event 10: the moment segment from 10 to 20
  starts and ends at \<open>NaN\<close>. The moment at the point 15 is \<open>NaN\<close> for the same reason.
\<close>

theorem zero_sum_uvl_gives_NaN_moment:
  "(let r = calculateBeamAnalysis couple_beam couple_supports couple_loads
    in isValid r
     \<and> map r_R (reactions r) = [Some 0, Some 0]
     \<and> map M_a (M_segments r) = [Some (Fin 0), Some NaN]
     \<and> map M_b (M_segments r) = [Some (Fin (- 250 / 3)), Some NaN])
   \<and> moment_start couple_loads zero_reactions 10 = NaN
   \<and> calculateMomentAtPoint 15 couple_loads zero_reactions = NaN"
proof -
  have pos: "0 < beam_length couple_beam"
    by (simp add: couple_beam_def)
  have valid: "validateSupports couple_supports 20"
    by (simp add: validateSupports_def couple_supports_def js_or_def)
  note r = calculateBeamAnalysis_steps [OF pos couple_base(1) couple_base(2) couple_base(3)
      valid couple_reactions couple_events couple_shear couple_moment refl]
  have "map r_R (reactions (calculateBeamAnalysis couple_beam couple_supports couple_loads)) =
        [Some 0, Some 0]"
    unfolding r
    by (simp add: analysis_display_def convertReactionsToDisplayUnits_def zero_reactions_def
        couple_beam_def units_m_N_def BASE_UNITS_def conv_m_N)
  moreover have "map M_a (M_segments (calculateBeamAnalysis couple_beam couple_supports
      couple_loads)) = [Some (Fin 0), Some NaN]"
    unfolding r
    by (simp add: analysis_display_def convertSegmentsToDisplayUnits_def
        couple_beam_def units_m_N_def BASE_UNITS_def conv_m_N jsnum_arith)
  moreover have "map M_b (M_segments (calculateBeamAnalysis couple_beam couple_supports
      couple_loads)) = [Some (Fin (- 250 / 3)), Some NaN]"
    unfolding r
    by (simp add: analysis_display_def convertSegmentsToDisplayUnits_def
        couple_beam_def units_m_N_def BASE_UNITS_def conv_m_N jsnum_arith)
  moreover have "isValid (calculateBeamAnalysis couple_beam couple_supports couple_loads)"
    unfolding r by simp
  ultimately show ?thesis
    by (simp add: Let_def couple_moment_start couple_moment_at_15)
qed

section \<open>Continuity of the bending moment\<close>

subsection \<open>The builders as sums\<close>

text \<open>
  Each \<open>forEach\<close> of the two builders adds one term per load to a running total; while no
  centroid quotient has a zero divisor, the moment total stays finite and is the sum of
  the real contributions.
\<close>

lemma fold_step_Fin:
  assumes "\<And>x m. x \<in> set xs \<Longrightarrow> step x (Fin m) = Fin (m + d x)"
  shows "fold step xs (Fin m) = Fin (m + sum_list (map d xs))"
  using assms by (induction xs arbitrary: m) (simp_all add: add.assoc)

lemma fold_step_real:
  assumes "\<And>x (v::real). x \<in> set xs \<Longrightarrow> step x v = v + d x"
  shows "fold step xs v = v + sum_list (map d xs)"
  using assms by (induction xs arbitrary: v) (simp_all add: add.assoc)

lemma moment_reaction_step_Fin:
  "moment_reaction_step a reaction (Fin m) = Fin (m + dM_reaction a reaction)"
  by (simp add: moment_reaction_step_def dM_reaction_def jsnum_arith Let_def split: option.splits)

lemma moment_point_step_Fin: "moment_point_step a load (Fin m) = Fin (m + dM_point a load)"
  by (simp add: moment_point_step_def dM_point_def jsnum_arith)

lemma moment_angled_step_Fin: "moment_angled_step a load (Fin m) = Fin (m + dM_angled a load)"
  by (simp add: moment_angled_step_def dM_angled_def jsnum_arith Let_def)

lemma moment_udl_step_Fin: "moment_udl_step a load (Fin m) = Fin (m + dM_udl a load)"
  by (simp add: moment_udl_step_def dM_udl_def jsnum_arith Let_def)

lemma moment_moment_step_Fin: "moment_moment_step a load (Fin m) = Fin (m + dM_moment a load)"
  by (simp add: moment_moment_step_def dM_moment_def jsnum_arith)

lemma centroid_term:
  "d \<noteq> 0 \<Longrightarrow>
   Fin m - Fin R * (Fin a - (Fin la + Fin n / Fin d)) = Fin (m + - (R * (a - (la + n / d))))"
  by (simp add: jsnum_arith)

lemma moment_uvl_step_Fin:
  assumes "uvl_centroid_defined load a"
  shows "moment_uvl_step a load (Fin m) = Fin (m + dM_uvl a load)"
proof (cases "uvl_b load \<le> a")
  case True
  with assms have nz: "3 * (uvl_w1 load + uvl_w2 load) \<noteq> 0"
    by (simp add: uvl_centroid_defined_def)
  show ?thesis
    unfolding moment_uvl_step_def dM_uvl_def Let_def
    by (simp only: True if_True centroid_term [OF nz])
next
  case False
  show ?thesis
  proof (cases "uvl_a load < a \<and> uvl_b load > a")
    case True
    with assms False have nz: "3 * (uvl_w1 load + uvl_intensity load a) \<noteq> 0"
      by (simp add: uvl_centroid_defined_def)
    show ?thesis
      unfolding moment_uvl_step_def dM_uvl_def Let_def uvl_intensity_def [symmetric]
      by (simp only: False True simp_thms if_False if_True centroid_term [OF nz])
  next
    case neither: False
    show ?thesis
      unfolding moment_uvl_step_def dM_uvl_def Let_def
      by (simp only: False neither simp_thms if_False add_0_right)
  qed
qed

lemma moment_start_Fin:
  assumes "\<forall>load\<in>set (uvl loads). uvl_centroid_defined load a"
  shows "moment_start loads rs a = Fin (moment_sum loads rs a)"
proof -
  have uvl: "fold (moment_uvl_step a) (uvl loads) (Fin m) =
             Fin (m + sum_list (map (dM_uvl a) (uvl loads)))" for m
    by (rule fold_step_Fin) (use assms in \<open>simp add: moment_uvl_step_Fin\<close>)
  show ?thesis
    unfolding moment_start_def Let_def
    by (simp add: fold_step_Fin [where d = "dM_reaction a"] moment_reaction_step_Fin
        fold_step_Fin [where d = "dM_point a"] moment_point_step_Fin
        fold_step_Fin [where d = "dM_angled a"] moment_angled_step_Fin
        fold_step_Fin [where d = "dM_udl a"] moment_udl_step_Fin uvl
        fold_step_Fin [where d = "dM_moment a"] moment_moment_step_Fin moment_sum_def)
qed

lemma shear_steps_from_zero:
  "shear_reaction_step a r v = v + shear_reaction_step a r 0"
  "shear_point_step a pl v = v + shear_point_step a pl 0"
  "shear_angled_step a al v = v + shear_angled_step a al 0"
  "shear_udl_step a ul v = v + shear_udl_step a ul 0"
  "shear_uvl_step a vl v = v + shear_uvl_step a vl 0"
  by (simp_all add: shear_reaction_step_def shear_point_step_def shear_angled_step_def
      shear_udl_step_def shear_uvl_step_def Let_def split: option.splits)

lemma shear_start_sum: "shear_start loads rs a = shear_sum loads rs a"
  unfolding shear_start_def Let_def shear_sum_def
  by (simp add: fold_step_real [where d = "\<lambda>r. shear_reaction_step a r 0"]
      fold_step_real [where d = "\<lambda>l. shear_point_step a l 0"]
      fold_step_real [where d = "\<lambda>l. shear_angled_step a l 0"]
      fold_step_real [where d = "\<lambda>l. shear_udl_step a l 0"]
      fold_step_real [where d = "\<lambda>l. shear_uvl_step a l 0"]
      shear_steps_from_zero [symmetric])

subsection \<open>From one event to the next\<close>

text \<open>
  Between two events \<open>a < b\<close> with no position strictly inside, the contribution of a load
  to the moment grows by its contribution to the shear at \<open>a\<close> times \<open>b - a\<close>, plus the
  terms of higher degree of a distributed load that is active on the interval.
\<close>

lemma dM_reaction_diff:
  assumes "a < b" and "\<And>x. r_x r = Some x \<Longrightarrow> clear a b x"
    and "\<not> (r_type r = Moment \<and> r_x r = Some b)"
  shows "dM_reaction b r - dM_reaction a r = shear_reaction_step a r 0 * (b - a)"
proof (cases "r_x r")
  case None
  then show ?thesis
    by (simp add: dM_reaction_def shear_reaction_step_def)
next
  case (Some x)
  with assms(2) have "x \<le> a \<or> b \<le> x"
    by (simp add: clear_def)
  with assms(1,3) Some show ?thesis
    by (cases "r_type r") (auto simp: dM_reaction_def shear_reaction_step_def algebra_simps)
qed

lemma dM_point_diff:
  assumes "a < b" and "clear a b (pl_x l)"
  shows "dM_point b l - dM_point a l = shear_point_step a l 0 * (b - a)"
  using assms by (auto simp: dM_point_def shear_point_step_def clear_def algebra_simps)

lemma dM_angled_diff:
  assumes "a < b" and "clear a b (al_x l)"
  shows "dM_angled b l - dM_angled a l = shear_angled_step a l 0 * (b - a)"
  using assms
  by (auto simp: dM_angled_def shear_angled_step_def clear_def Let_def algebra_simps)

lemma dM_moment_diff:
  assumes "a < b" and "clear a b (ml_x l)" and "ml_x l \<noteq> b"
  shows "dM_moment b l - dM_moment a l = 0"
  using assms by (auto simp: dM_moment_def clear_def)

lemma dM_udl_diff:
  assumes "a < b" and "clear a b (udl_a l)" and "clear a b (udl_b l)" and "udl_a l \<le> udl_b l"
  shows "dM_udl b l - dM_udl a l = shear_udl_step a l 0 * (b - a) + extra_udl a b l"
proof -
  consider "udl_b l \<le> a" | "b \<le> udl_b l" "udl_a l \<le> a" | "b \<le> udl_a l" "b \<le> udl_b l"
    using assms by (auto simp: clear_def)
  then show ?thesis
  proof cases
    case 1
    with assms show ?thesis
      by (simp add: dM_udl_def shear_udl_step_def extra_udl_def udl_active_def algebra_simps)
  next
    case 2
    with assms(1) have act: "udl_active a b l"
      by (simp add: udl_active_def)
    from 2 assms(1) have nb: "\<not> udl_b l \<le> a"
      by simp
    have Mb: "dM_udl b l = - (udl_w l * (b - udl_a l) * (b - udl_a l) / 2)"
      using 2 assms(1) by (cases "udl_b l = b") (auto simp: dM_udl_def field_simps)
    have Ma: "dM_udl a l = - (udl_w l * (a - udl_a l) * (a - udl_a l) / 2)"
      using 2 nb by (cases "udl_a l = a") (auto simp: dM_udl_def)
    have Va: "shear_udl_step a l 0 = - (udl_w l * (a - udl_a l))"
      using 2 nb by (cases "udl_a l = a") (auto simp: shear_udl_step_def)
    show ?thesis
      unfolding Mb Ma Va extra_udl_def by (simp add: act field_simps)
  next
    case 3
    with assms have "udl_b l = b \<longrightarrow> udl_a l = b"
      by auto
    with 3 assms(1) show ?thesis
      by (auto simp: dM_udl_def shear_udl_step_def extra_udl_def udl_active_def)
  qed
qed

lemma trapezoid_moment:
  assumes "w1 + wp \<noteq> (0::real)"
  shows "(w1 + wp) * s / 2 * (p - (la + s * (w1 + 2 * wp) / (3 * (w1 + wp)))) =
         (w1 + wp) * s / 2 * (p - la) - s * s * (w1 + 2 * wp) / 6"
  using assms by (simp add: field_simps)

lemma uvl_intensity_at_end: "uvl_a l \<noteq> uvl_b l \<Longrightarrow> uvl_intensity l (uvl_b l) = uvl_w2 l"
  by (simp add: uvl_intensity_def)

lemma dM_uvl_inside:
  assumes "uvl_a l < uvl_b l" and "uvl_a l \<le> p" and "p \<le> uvl_b l"
    and "uvl_centroid_defined l p"
  shows "dM_uvl p l =
         - ((p - uvl_a l) * (p - uvl_a l) * (2 * uvl_w1 l + uvl_intensity l p) / 6)"
proof -
  consider "p = uvl_b l" | "uvl_a l < p" "p < uvl_b l" | "p = uvl_a l"
    using assms by linarith
  then show ?thesis
  proof cases
    case 1
    with assms have nz: "uvl_w1 l + uvl_w2 l \<noteq> 0"
      by (simp add: uvl_centroid_defined_def)
    from assms(1) have w: "uvl_intensity l (uvl_b l) = uvl_w2 l"
      by (simp add: uvl_intensity_at_end)
    from 1 have "dM_uvl p l =
        - ((uvl_w1 l + uvl_w2 l) * (uvl_b l - uvl_a l) / 2
           * (p - (uvl_a l + (uvl_b l - uvl_a l) * (uvl_w1 l + 2 * uvl_w2 l)
                                / (3 * (uvl_w1 l + uvl_w2 l)))))"
      by (simp add: dM_uvl_def)
    also have "\<dots> = - ((uvl_w1 l + uvl_w2 l) * (uvl_b l - uvl_a l) / 2 * (p - uvl_a l)
                    - (uvl_b l - uvl_a l) * (uvl_b l - uvl_a l) * (uvl_w1 l + 2 * uvl_w2 l) / 6)"
      by (simp only: trapezoid_moment [OF nz])
    also have "\<dots> = - ((p - uvl_a l) * (p - uvl_a l) * (2 * uvl_w1 l + uvl_intensity l p) / 6)"
      unfolding 1 w by (simp add: field_simps)
    finally show ?thesis .
  next
    case 2
    with assms have nz: "uvl_w1 l + uvl_intensity l p \<noteq> 0"
      by (simp add: uvl_centroid_defined_def)
    from 2 have "dM_uvl p l =
        - ((uvl_w1 l + uvl_intensity l p) * (p - uvl_a l) / 2
           * (p - (uvl_a l + (p - uvl_a l) * (uvl_w1 l + 2 * uvl_intensity l p)
                                / (3 * (uvl_w1 l + uvl_intensity l p)))))"
      by (simp add: dM_uvl_def)
    also have "\<dots> = - ((uvl_w1 l + uvl_intensity l p) * (p - uvl_a l) / 2 * (p - uvl_a l)
                    - (p - uvl_a l) * (p - uvl_a l) * (uvl_w1 l + 2 * uvl_intensity l p) / 6)"
      by (simp only: trapezoid_moment [OF nz])
    also have "\<dots> = - ((p - uvl_a l) * (p - uvl_a l) * (2 * uvl_w1 l + uvl_intensity l p) / 6)"
      by (simp add: field_simps)
    finally show ?thesis .
  next
    case 3
    with assms(1) show ?thesis
      by (simp add: dM_uvl_def)
  qed
qed

lemma shear_uvl_inside:
  assumes "uvl_a l \<le> a" and "a < uvl_b l"
  shows "shear_uvl_step a l 0 = - ((uvl_w1 l + uvl_intensity l a) * (a - uvl_a l) / 2)"
  using assms
  by (cases "uvl_a l = a") (auto simp: shear_uvl_step_def uvl_intensity_def Let_def)

lemma uvl_cubic_identity:
  fixes k :: real
  assumes "a \<noteq> b"
  shows "- ((b - la) * (b - la) * (2 * w1 + (w1 + k * (b - la))) / 6)
         - - ((a - la) * (a - la) * (2 * w1 + (w1 + k * (a - la))) / 6) =
         - ((w1 + (w1 + k * (a - la))) * (a - la) / 2) * (b - a)
         + (- (w1 + k * (a - la)) / 2 * ((b - a) * (b - a))
            + - (((w1 + k * (b - la)) - (w1 + k * (a - la))) / (b - a)) / 2 / 3
              * ((b - a) * (b - a) * (b - a)))"
proof -
  from assms have "((w1 + k * (b - la)) - (w1 + k * (a - la))) / (b - a) = k"
    by (simp add: field_simps)
  then show ?thesis
    by (simp add: field_simps)
qed

lemma uvl_intensity_linear:
  "uvl_intensity l p =
   uvl_w1 l + (uvl_w2 l - uvl_w1 l) / (uvl_b l - uvl_a l) * (p - uvl_a l)"
  by (simp add: uvl_intensity_def)

lemma dM_uvl_diff:
  assumes "a < b" and "clear a b (uvl_a l)" and "clear a b (uvl_b l)" and "uvl_a l \<le> uvl_b l"
    and "uvl_centroid_defined l a" and "uvl_centroid_defined l b"
  shows "dM_uvl b l - dM_uvl a l = shear_uvl_step a l 0 * (b - a) + extra_uvl a b l"
proof -
  consider "uvl_b l \<le> a" | "b \<le> uvl_b l" "uvl_a l \<le> a" | "b \<le> uvl_a l" "b \<le> uvl_b l"
    using assms by (auto simp: clear_def)
  then show ?thesis
  proof cases
    case 1
    with assms(1) have "uvl_b l \<le> b" "\<not> uvl_active a b l"
      by (simp_all add: uvl_active_def)
    define R where "R = (uvl_w1 l + uvl_w2 l) * (uvl_b l - uvl_a l) / 2"
    define xR where "xR = uvl_a l + (uvl_b l - uvl_a l) * (uvl_w1 l + 2 * uvl_w2 l)
                                    / (3 * (uvl_w1 l + uvl_w2 l))"
    from 1 \<open>uvl_b l \<le> b\<close> have "dM_uvl b l = - (R * (b - xR))" "dM_uvl a l = - (R * (a - xR))"
      "shear_uvl_step a l 0 = - R"
      by (simp_all add: dM_uvl_def shear_uvl_step_def R_def xR_def)
    with \<open>\<not> uvl_active a b l\<close> show ?thesis
      by (simp add: extra_uvl_def algebra_simps)
  next
    case 2
    with assms(1) have lt: "uvl_a l < uvl_b l" and act: "uvl_active a b l"
      and a_lt: "a < uvl_b l" and b_ge: "uvl_a l \<le> b"
      by (simp_all add: uvl_active_def)
    have Mb: "dM_uvl b l =
        - ((b - uvl_a l) * (b - uvl_a l) * (2 * uvl_w1 l + uvl_intensity l b) / 6)"
      by (rule dM_uvl_inside [OF lt b_ge 2(1) assms(6)])
    have Ma: "dM_uvl a l =
        - ((a - uvl_a l) * (a - uvl_a l) * (2 * uvl_w1 l + uvl_intensity l a) / 6)"
      by (rule dM_uvl_inside [OF lt 2(2) less_imp_le [OF a_lt] assms(5)])
    have Va: "shear_uvl_step a l 0 = - ((uvl_w1 l + uvl_intensity l a) * (a - uvl_a l) / 2)"
      by (rule shear_uvl_inside [OF 2(2) a_lt])
    from assms(1) have ne: "a \<noteq> b"
      by simp
    show ?thesis
      unfolding Mb Ma Va extra_uvl_def if_P [OF act] uvl_intensity_linear
      by (rule uvl_cubic_identity [OF ne])
  next
    case 3
    with assms have "uvl_b l = b \<longrightarrow> uvl_a l = b"
      by auto
    with 3 assms(1) show ?thesis
      by (auto simp: dM_uvl_def shear_uvl_step_def extra_uvl_def uvl_active_def)
  qed
qed

lemma sum_list_diff:
  fixes f g h :: "'a \<Rightarrow> real"
  assumes "\<And>x. x \<in> set xs \<Longrightarrow> f x - g x = h x"
  shows "sum_list (map f xs) - sum_list (map g xs) = sum_list (map h xs)"
  using assms
proof (induction xs)
  case Nil
  then show ?case by simp
next
  case (Cons x xs)
  then have "f x - g x = h x"
    and "sum_list (map f xs) - sum_list (map g xs) = sum_list (map h xs)"
    by simp_all
  then show ?case
    by simp
qed

lemma sum_list_scaled:
  fixes f :: "'a \<Rightarrow> real"
  shows "sum_list (map (\<lambda>x. f x * c) xs) = sum_list (map f xs) * c"
  by (induction xs) (simp_all add: algebra_simps)

lemma moment_sum_diff:
  assumes ab: "a < b" and cl: "segment_clear loads rs a b"
    and ord: "\<forall>l\<in>set (udl loads). udl_a l \<le> udl_b l"
             "\<forall>l\<in>set (uvl loads). uvl_a l \<le> uvl_b l"
    and def: "\<forall>l\<in>set (uvl loads). uvl_centroid_defined l a"
             "\<forall>l\<in>set (uvl loads). uvl_centroid_defined l b"
    and nomom: "\<forall>l\<in>set (moment loads). ml_x l \<noteq> b"
    and noreact: "\<forall>r\<in>set rs. \<not> (r_type r = Moment \<and> r_x r = Some b)"
  shows "moment_sum loads rs b - moment_sum loads rs a =
         shear_sum loads rs a * (b - a)
         + sum_list (map (extra_udl a b) (udl loads))
         + sum_list (map (extra_uvl a b) (uvl loads))"
proof -
  have r: "sum_list (map (dM_reaction b) rs) - sum_list (map (dM_reaction a) rs) =
           sum_list (map (\<lambda>r. shear_reaction_step a r 0) rs) * (b - a)"
    unfolding sum_list_scaled [symmetric]
    by (rule sum_list_diff, rule dM_reaction_diff [OF ab])
       (use cl noreact in \<open>auto simp: segment_clear_def\<close>)
  have p: "sum_list (map (dM_point b) (point loads)) - sum_list (map (dM_point a) (point loads)) =
           sum_list (map (\<lambda>l. shear_point_step a l 0) (point loads)) * (b - a)"
    unfolding sum_list_scaled [symmetric]
    by (rule sum_list_diff, rule dM_point_diff [OF ab])
       (use cl in \<open>auto simp: segment_clear_def\<close>)
  have g: "sum_list (map (dM_angled b) (angled loads))
           - sum_list (map (dM_angled a) (angled loads)) =
           sum_list (map (\<lambda>l. shear_angled_step a l 0) (angled loads)) * (b - a)"
    unfolding sum_list_scaled [symmetric]
    by (rule sum_list_diff, rule dM_angled_diff [OF ab])
       (use cl in \<open>auto simp: segment_clear_def\<close>)
  have u: "sum_list (map (dM_udl b) (udl loads)) - sum_list (map (dM_udl a) (udl loads)) =
           sum_list (map (\<lambda>l. shear_udl_step a l 0) (udl loads)) * (b - a)
           + sum_list (map (extra_udl a b) (udl loads))"
    unfolding sum_list_scaled [symmetric] sum_list_addf [symmetric]
    by (rule sum_list_diff, rule dM_udl_diff [OF ab])
       (use cl ord in \<open>auto simp: segment_clear_def\<close>)
  have v: "sum_list (map (dM_uvl b) (uvl loads)) - sum_list (map (dM_uvl a) (uvl loads)) =
           sum_list (map (\<lambda>l. shear_uvl_step a l 0) (uvl loads)) * (b - a)
           + sum_list (map (extra_uvl a b) (uvl loads))"
    unfolding sum_list_scaled [symmetric] sum_list_addf [symmetric]
    by (rule sum_list_diff, rule dM_uvl_diff [OF ab])
       (use cl ord def in \<open>auto simp: segment_clear_def\<close>)
  have m: "sum_list (map (dM_moment b) (moment loads))
           - sum_list (map (dM_moment a) (moment loads)) = 0"
    using sum_list_diff [of "moment loads" "dM_moment b" "dM_moment a" "\<lambda>l. 0"]
      dM_moment_diff [OF ab] cl nomom
    by (simp add: segment_clear_def)
  from r p g u v m show ?thesis
    unfolding moment_sum_def shear_sum_def
    by (simp add: algebra_simps)
qed

subsection \<open>What the shear builder keeps\<close>

text \<open>
  The two scans of the shear builder keep the last load that passes their test. With at
  most one such load on the interval, the coefficients of the moment segment are those of
  the sum.
\<close>

lemma js_or_Some_0 [simp]: "js_or (Some v) 0 = v"
  by (simp add: js_or_def)

lemma udl_scan_step_if:
  "udl_scan_step a b l st = (if udl_active a b l then (True, - udl_w l) else st)"
  by (simp add: udl_scan_step_def udl_active_def)

lemma udl_scan:
  "fold (udl_scan_step a b) xs st =
   (if filter (udl_active a b) xs = [] then st
    else (True, - udl_w (last (filter (udl_active a b) xs))))"
  by (induction xs rule: rev_induct) (simp_all add: udl_scan_step_if)

lemma uvl_scan_step_inactive: "\<not> uvl_active a b l \<Longrightarrow> uvl_scan_step a b l st = st"
  by (auto simp: uvl_scan_step_def uvl_active_def)

lemma uvl_scan_step_any: "uvl_active a b l \<Longrightarrow> uvl_scan_step a b l st = uvl_scan_step a b l st'"
  by (simp add: uvl_scan_step_def uvl_active_def)

lemma uvl_scan:
  "fold (uvl_scan_step a b) xs st =
   (if filter (uvl_active a b) xs = [] then st
    else uvl_scan_step a b (last (filter (uvl_active a b) xs)) st)"
proof (induction xs rule: rev_induct)
  case Nil
  then show ?case by simp
next
  case (snoc x xs)
  show ?case
  proof (cases "uvl_active a b x")
    case True
    have "fold (uvl_scan_step a b) (xs @ [x]) st =
          uvl_scan_step a b x (fold (uvl_scan_step a b) xs st)"
      by simp
    also have "\<dots> = uvl_scan_step a b x st"
      by (rule uvl_scan_step_any [OF True])
    finally show ?thesis
      using True by simp
  next
    case False
    with snoc show ?thesis
      by (simp add: uvl_scan_step_inactive)
  qed
qed

lemma uvl_scan_step_active:
  assumes "uvl_active a b l" and "clear a b (uvl_a l)" and "clear a b (uvl_b l)"
  shows "uvl_scan_step a b l st = (True, uvl_intensity l a, uvl_intensity l b)"
proof -
  from assms have "uvl_a l \<le> a" "b \<le> uvl_b l"
    by (auto simp: uvl_active_def clear_def)
  then have "max (uvl_a l) a = a" "min (uvl_b l) b = b"
    by simp_all
  with assms(1) show ?thesis
    by (simp add: uvl_scan_step_def uvl_active_def uvl_intensity_def Let_def)
qed

lemma sum_list_filter_zero:
  fixes f :: "'a \<Rightarrow> real"
  assumes "\<And>x. x \<in> set xs \<Longrightarrow> \<not> P x \<Longrightarrow> f x = 0"
  shows "sum_list (map f xs) = sum_list (map f (filter P xs))"
  using assms by (induction xs) auto

lemma extra_udl_sum:
  "sum_list (map (extra_udl a b) xs) = sum_list (map (extra_udl a b) (filter (udl_active a b) xs))"
  by (rule sum_list_filter_zero) (simp add: extra_udl_def)

lemma extra_uvl_sum:
  "sum_list (map (extra_uvl a b) xs) = sum_list (map (extra_uvl a b) (filter (uvl_active a b) xs))"
  by (rule sum_list_filter_zero) (simp add: extra_uvl_def)

lemma length_le_one_cases:
  assumes "length xs + length ys \<le> 1"
  obtains "xs = []" "ys = []" | x where "xs = [x]" "ys = []" | y where "xs = []" "ys = [y]"
proof (cases xs)
  case Nil
  show ?thesis
  proof (cases ys)
    case Nil
    with \<open>xs = []\<close> that(1) show ?thesis by simp
  next
    case (Cons y ys')
    with assms \<open>xs = []\<close> have "ys = [y]" by simp
    with \<open>xs = []\<close> that(3) show ?thesis by simp
  qed
next
  case (Cons x xs')
  with assms have "xs = [x]" "ys = []" by simp_all
  with that(2) show ?thesis by simp
qed

text \<open>The end value of a moment segment, by the type of the shear segment under it.\<close>

lemma moment_segment_end_const:
  assumes "seg_type V = Const" and "V_a V = Some va" and "moment_start loads rs a = Fin ma"
  shows "M_b (moment_segment V loads rs a b) = Some (Fin (ma + va * (b - a)))"
  using assms
  by (simp add: moment_segment_def at_index_def num_of_opt_def jsnum_arith Let_def)

lemma moment_segment_end_linear:
  assumes "seg_type V = Linear" and "V_a V = Some va" and "coeffs V = Some [c0, Fin c1]"
    and "moment_start loads rs a = Fin ma"
  shows "M_b (moment_segment V loads rs a b) =
         Some (Fin (ma + va * (b - a) + c1 / 2 * (b - a) * (b - a)))"
  using assms
  by (simp add: moment_segment_def at_index_def opt_index_def num_of_opt_def num_or_def
      jsnum_arith Let_def)

lemma moment_segment_end_quadratic:
  assumes "seg_type V = Quadratic" and "coeffs V = Some [Fin c0, Fin c1, Fin c2]"
    and "moment_start loads rs a = Fin ma"
  shows "M_b (moment_segment V loads rs a b) =
         Some (Fin (ma + c0 * (b - a) + c1 / 2 * (b - a) * (b - a)
                    + c2 / 3 * (b - a) * (b - a) * (b - a)))"
  using assms
  by (simp add: moment_segment_def at_index_def opt_index_def num_of_opt_def num_or_def
      jsnum_arith Let_def)

text \<open>The shear segment, by what is active on its interval.\<close>

lemma shear_segment_none:
  assumes "filter (udl_active a b) (udl loads) = []" and "filter (uvl_active a b) (uvl loads) = []"
  shows "seg_type (shear_segment loads rs a b) = Const"
    and "V_a (shear_segment loads rs a b) = Some (shear_sum loads rs a)"
  using assms by (simp_all add: shear_segment_def udl_scan uvl_scan shear_start_sum Let_def)

lemma shear_segment_udl:
  assumes "filter (udl_active a b) (udl loads) = [u]" and "filter (uvl_active a b) (uvl loads) = []"
  shows "seg_type (shear_segment loads rs a b) = Linear"
    and "V_a (shear_segment loads rs a b) = Some (shear_sum loads rs a)"
    and "coeffs (shear_segment loads rs a b) = Some [Fin (shear_sum loads rs a), Fin (- udl_w u)]"
  using assms by (simp_all add: shear_segment_def udl_scan uvl_scan shear_start_sum Let_def)

lemma shear_segment_uvl:
  assumes "filter (uvl_active a b) (uvl loads) = [v]"
    and "clear a b (uvl_a v)" and "clear a b (uvl_b v)"
  shows "seg_type (shear_segment loads rs a b) = Quadratic"
    and "coeffs (shear_segment loads rs a b) =
         Some [Fin (shear_sum loads rs a), Fin (- uvl_intensity v a),
               Fin (- ((uvl_intensity v b - uvl_intensity v a) / (b - a)) / 2)]"
proof -
  from assms(1) have "v \<in> set (filter (uvl_active a b) (uvl loads))"
    by simp
  then have act: "uvl_active a b v"
    by simp
  note scan = uvl_scan_step_active [OF act assms(2,3)]
  obtain hasUDL udlRate where u: "fold (udl_scan_step a b) (udl loads) (False, 0) = (hasUDL, udlRate)"
    by (cases "fold (udl_scan_step a b) (udl loads) (False, 0)")
  show "seg_type (shear_segment loads rs a b) = Quadratic"
    by (simp add: shear_segment_def u uvl_scan assms(1) scan Let_def)
  show "coeffs (shear_segment loads rs a b) =
         Some [Fin (shear_sum loads rs a), Fin (- uvl_intensity v a),
               Fin (- ((uvl_intensity v b - uvl_intensity v a) / (b - a)) / 2)]"
    by (simp add: shear_segment_def u uvl_scan assms(1) scan shear_start_sum Let_def)
qed

text \<open>The end value of a moment segment built on the shear segment of the same interval.\<close>

lemma moment_segment_end:
  assumes start: "moment_start loads rs a = Fin ma"
    and one: "active_count loads a b \<le> 1"
    and cl: "segment_clear loads rs a b"
  shows "M_b (moment_segment (shear_segment loads rs a b) loads rs a b) =
         Some (Fin (ma + shear_sum loads rs a * (b - a)
                    + sum_list (map (extra_udl a b) (udl loads))
                    + sum_list (map (extra_uvl a b) (uvl loads))))"
proof -
  from one have "length (filter (udl_active a b) (udl loads))
      + length (filter (uvl_active a b) (uvl loads)) \<le> 1"
    by (simp add: active_count_def)
  then show ?thesis
  proof (cases rule: length_le_one_cases)
    case 1
    have "sum_list (map (extra_udl a b) (udl loads)) = 0"
      "sum_list (map (extra_uvl a b) (uvl loads)) = 0"
      by (simp_all add: extra_udl_sum [of a b "udl loads"] extra_uvl_sum [of a b "uvl loads"] 1)
    with moment_segment_end_const [OF shear_segment_none [OF 1] start, where b = b]
    show ?thesis
      by simp
  next
    case (2 u)
    then have "u \<in> set (filter (udl_active a b) (udl loads))"
      by simp
    then have act: "udl_active a b u"
      by simp
    have "sum_list (map (extra_udl a b) (udl loads)) = - udl_w u / 2 * ((b - a) * (b - a))"
      "sum_list (map (extra_uvl a b) (uvl loads)) = 0"
      by (simp_all add: extra_udl_sum [of a b "udl loads"] extra_uvl_sum [of a b "uvl loads"] 2
          extra_udl_def act)
    with moment_segment_end_linear [OF shear_segment_udl [OF 2] start, where b = b]
    show ?thesis
      by (simp add: mult.assoc)
  next
    case (3 v)
    then have "v \<in> set (filter (uvl_active a b) (uvl loads))"
      by simp
    then have v: "v \<in> set (uvl loads)" and act: "uvl_active a b v"
      by simp_all
    from v cl have c: "clear a b (uvl_a v)" "clear a b (uvl_b v)"
      by (simp_all add: segment_clear_def)
    have "sum_list (map (extra_udl a b) (udl loads)) = 0"
      "sum_list (map (extra_uvl a b) (uvl loads)) =
        - uvl_intensity v a / 2 * ((b - a) * (b - a))
        + - ((uvl_intensity v b - uvl_intensity v a) / (b - a)) / 2 / 3
          * ((b - a) * (b - a) * (b - a))"
      by (simp_all add: extra_udl_sum [of a b "udl loads"] extra_uvl_sum [of a b "uvl loads"] 3
          extra_uvl_def act)
    with moment_segment_end_quadratic [OF shear_segment_uvl [OF 3(2) c] start, where b = b]
    show ?thesis
      by (simp add: mult.assoc)
  qed
qed

subsection \<open>Inside the analysis\<close>

text \<open>
  Every position of a load or a reaction is an event, so no position lies strictly between
  two consecutive events.
\<close>

lemma set_generateEvents:
  "set (generateEvents loads supports len) = event_positions loads supports len"
  by (simp add: generateEvents_sorted_list_of_set)

lemma consecutive_events_clear:
  assumes "sorted_wrt (<) evs" and "Suc i < length evs" and "p \<in> set evs"
  shows "clear (evs ! i) (evs ! Suc i) (p::real)"
proof -
  from assms(3) obtain j where j: "j < length evs" "p = evs ! j"
    by (auto simp: in_set_conv_nth)
  from assms(1) have srt: "sorted evs"
    by (simp add: strict_sorted_iff)
  show ?thesis
  proof (cases "j \<le> i")
    case True
    with srt assms(2) have "evs ! j \<le> evs ! i"
      by (intro sorted_nth_mono) auto
    with j show ?thesis by (simp add: clear_def)
  next
    case False
    then have "Suc i \<le> j" by simp
    with srt j have "evs ! Suc i \<le> evs ! j"
      by (intro sorted_nth_mono) auto
    with j show ?thesis by (simp add: clear_def)
  qed
qed

lemma reaction_positions_are_events:
  assumes "r \<in> set (calculateReactions loads supports len)" and "r_x r = Some x"
  shows "x \<in> set (generateEvents loads supports len)"
proof -
  have "x \<in> {0, len} \<union> (if s_type supports = PinRoller
                 then {js_or (pin_x supports) 0, js_or (roller_x supports) len}
                 else {if fixed_pos supports = Some Right then len else 0})"
    using assms
    by (auto simp: calculateReactions_def Let_def split: if_splits)
  then have "x \<in> {0, len} \<union> support_positions supports len"
    unfolding support_events .
  then show ?thesis
    unfolding set_generateEvents by (auto simp: event_positions_def)
qed

lemma moment_reaction_position:
  assumes "r \<in> set (calculateReactions loads supports len)" and "r_type r = Moment"
  shows "s_type supports = Fixed \<and> r_x r = Some (fixed_end supports len)"
  using assms
  by (cases "s_type supports")
     (auto simp: calculateReactions_def fixed_end_def Let_def split: if_splits)

lemma pipeline_segment_clear:
  assumes "Suc i < length (generateEvents loads supports len)"
  shows "segment_clear loads (calculateReactions loads supports len)
           (generateEvents loads supports len ! i) (generateEvents loads supports len ! Suc i)"
proof -
  let ?evs = "generateEvents loads supports len"
  have srt: "sorted_wrt (<) ?evs"
    by (simp add: generateEvents_sorted_list_of_set strict_sorted_iff)
  have c: "clear (?evs ! i) (?evs ! Suc i) p" if "p \<in> event_positions loads supports len" for p
    using consecutive_events_clear [OF srt assms] that
    by (simp add: set_generateEvents)
  have l: "p \<in> event_positions loads supports len" if "p \<in> load_positions loads" for p
    using that by (simp add: event_positions_def)
  show ?thesis
    unfolding segment_clear_def
  proof (intro conjI ballI allI impI)
    fix r x assume "r \<in> set (calculateReactions loads supports len)" "r_x r = Some x"
    then have "x \<in> set ?evs"
      by (rule reaction_positions_are_events)
    then show "clear (?evs ! i) (?evs ! Suc i) x"
      by (rule consecutive_events_clear [OF srt assms])
  qed (auto intro!: c l simp: load_positions_def)
qed

lemma M_a_moment_segment [simp]:
  "M_a (moment_segment V loads rs a b) = Some (moment_start loads rs a)"
  by (simp add: moment_segment_def Let_def split: prod.splits)

lemma moment_continuous_base:
  fixes loads supports len i
  defines "rs \<equiv> calculateReactions loads supports len"
    and "evs \<equiv> generateEvents loads supports len"
  assumes i: "Suc i < length evs"
    and ord: "spans_ordered loads"
    and one: "active_count loads (evs ! i) (evs ! Suc i) \<le> 1"
    and def: "centroids_defined loads (evs ! i)" "centroids_defined loads (evs ! Suc i)"
    and nomom: "\<not> moment_applied_at loads supports len (evs ! Suc i)"
  shows "\<exists>m. M_b (moment_segment (shear_segment loads rs (evs ! i) (evs ! Suc i)) loads rs
                     (evs ! i) (evs ! Suc i)) = Some (Fin m)
             \<and> M_a (moment_segment V loads rs (evs ! Suc i) c) = Some (Fin m)"
proof -
  let ?a = "evs ! i" and ?b = "evs ! Suc i"
  have srt: "sorted_wrt (<) evs"
    by (simp add: evs_def generateEvents_sorted_list_of_set strict_sorted_iff)
  from i have ab: "?a < ?b"
    by (intro sorted_wrt_nth_less [OF srt]) auto
  have cl: "segment_clear loads rs ?a ?b"
    unfolding rs_def evs_def by (rule pipeline_segment_clear) (use i in \<open>simp add: evs_def\<close>)
  from def have da: "\<forall>l\<in>set (uvl loads). uvl_centroid_defined l ?a"
    and db: "\<forall>l\<in>set (uvl loads). uvl_centroid_defined l ?b"
    by (simp_all add: centroids_defined_def list_all_iff)
  from ord have o: "\<forall>l\<in>set (udl loads). udl_a l \<le> udl_b l"
    "\<forall>l\<in>set (uvl loads). uvl_a l \<le> uvl_b l"
    by (simp_all add: spans_ordered_def list_all_iff)
  from nomom have "?b \<notin> ml_x ` set (moment loads)"
    by (simp add: moment_applied_at_def)
  then have nm: "\<forall>l\<in>set (moment loads). ml_x l \<noteq> ?b"
    by (metis imageI)
  have nr: "\<forall>r\<in>set rs. \<not> (r_type r = Moment \<and> r_x r = Some ?b)"
  proof (intro ballI notI)
    fix r assume r: "r \<in> set rs" and "r_type r = Moment \<and> r_x r = Some ?b"
    with moment_reaction_position [of r loads supports len]
    have "s_type supports = Fixed \<and> ?b = fixed_end supports len"
      by (auto simp: rs_def)
    with nomom show False
      by (simp add: moment_applied_at_def)
  qed
  note start_a = moment_start_Fin [OF da, of rs]
  note start_b = moment_start_Fin [OF db, of rs]
  have "M_b (moment_segment (shear_segment loads rs ?a ?b) loads rs ?a ?b) =
        Some (Fin (moment_sum loads rs ?a + shear_sum loads rs ?a * (?b - ?a)
                    + sum_list (map (extra_udl ?a ?b) (udl loads))
                    + sum_list (map (extra_uvl ?a ?b) (uvl loads))))"
    by (rule moment_segment_end [OF start_a one cl])
  also have "moment_sum loads rs ?a + shear_sum loads rs ?a * (?b - ?a)
                    + sum_list (map (extra_udl ?a ?b) (udl loads))
                    + sum_list (map (extra_uvl ?a ?b) (uvl loads)) = moment_sum loads rs ?b"
    using moment_sum_diff [OF ab cl o da db nm nr] by simp
  finally show ?thesis
    by (simp add: start_b)
qed

subsection \<open>Base units and display units\<close>

text \<open>Scaling the input to base units changes none of the conditions.\<close>

lemma length_filter_map_cong:
  assumes "\<And>x. x \<in> set xs \<Longrightarrow> P (f x) = Q x"
  shows "length (filter P (map f xs)) = length (filter Q xs)"
  using assms by (induction xs) simp_all

lemma spans_ordered_base:
  "spans_ordered (convertLoadsToBaseUnits loads un) \<longleftrightarrow> spans_ordered loads"
  using length_factor_pos [of "u_length un"]
  by (simp add: spans_ordered_def convertLoadsToBaseUnits_def convertLength_base
      list_all_iff)

lemma active_count_base:
  "active_count (convertLoadsToBaseUnits loads un)
     (a * js_or (LENGTH_CONVERSIONS (u_length un)) 1)
     (b * js_or (LENGTH_CONVERSIONS (u_length un)) 1) = active_count loads a b"
proof -
  let ?f = "js_or (LENGTH_CONVERSIONS (u_length un)) 1"
  have f: "0 < ?f" by (rule length_factor_pos)
  have "length (filter (udl_active (a * ?f) (b * ?f)) (udl (convertLoadsToBaseUnits loads un))) =
        length (filter (udl_active a b) (udl loads))"
    unfolding convertLoadsToBaseUnits_def Loads.simps
    by (rule length_filter_map_cong) (use f in \<open>simp add: udl_active_def convertLength_base\<close>)
  moreover
  have "length (filter (uvl_active (a * ?f) (b * ?f)) (uvl (convertLoadsToBaseUnits loads un))) =
        length (filter (uvl_active a b) (uvl loads))"
    unfolding convertLoadsToBaseUnits_def Loads.simps
    by (rule length_filter_map_cong) (use f in \<open>simp add: uvl_active_def convertLength_base\<close>)
  ultimately show ?thesis
    by (simp add: active_count_def)
qed

lemma scaled_ratio:
  fixes W :: real
  assumes "f \<noteq> 0"
  shows "(W * g) * (P * f) / (D * f) = W * P / D * g"
  using assms by (cases "D = 0") (simp_all add: field_simps)

lemma uvl_intensity_scaled:
  assumes "f \<noteq> 0"
  shows "uvl_intensity (l\<lparr>uvl_a := uvl_a l * f, uvl_b := uvl_b l * f, uvl_w1 := uvl_w1 l * g,
                         uvl_w2 := uvl_w2 l * g\<rparr>) (p * f) = uvl_intensity l p * g"
proof -
  have "(uvl_w2 l * g - uvl_w1 l * g) * (p * f - uvl_a l * f) / (uvl_b l * f - uvl_a l * f) =
        ((uvl_w2 l - uvl_w1 l) * g) * ((p - uvl_a l) * f) / ((uvl_b l - uvl_a l) * f)"
    by (simp only: left_diff_distrib)
  also have "\<dots> = (uvl_w2 l - uvl_w1 l) * (p - uvl_a l) / (uvl_b l - uvl_a l) * g"
    by (rule scaled_ratio [OF assms])
  finally show ?thesis
    by (simp add: uvl_intensity_def distrib_right)
qed

lemma uvl_centroid_defined_scaled:
  assumes "0 < f" and "0 < g"
  shows "uvl_centroid_defined (l\<lparr>uvl_a := uvl_a l * f, uvl_b := uvl_b l * f,
             uvl_w1 := uvl_w1 l * g, uvl_w2 := uvl_w2 l * g\<rparr>) (p * f)
         \<longleftrightarrow> uvl_centroid_defined l p"
proof -
  from assms have f: "f \<noteq> 0" and g: "g \<noteq> 0"
    by simp_all
  have sum: "uvl_w1 l * g + uvl_w2 l * g = (uvl_w1 l + uvl_w2 l) * g"
    "uvl_w1 l * g + uvl_intensity l p * g = (uvl_w1 l + uvl_intensity l p) * g"
    by (simp_all add: distrib_right)
  show ?thesis
    unfolding uvl_centroid_defined_def uvl_intensity_scaled [OF f]
    using assms by (simp add: sum g del: distrib_right)
qed

lemma centroids_defined_base:
  "centroids_defined (convertLoadsToBaseUnits loads un)
     (p * js_or (LENGTH_CONVERSIONS (u_length un)) 1) \<longleftrightarrow> centroids_defined loads p"
proof -
  let ?f = "js_or (LENGTH_CONVERSIONS (u_length un)) 1"
  let ?g = "js_or (FORCE_CONVERSIONS (u_force un)) 1 / ?f"
  have f: "0 < ?f" by (rule length_factor_pos)
  then have g: "0 < ?g" using force_factor_pos [of "u_force un"] by simp
  have eq: "uvl (convertLoadsToBaseUnits loads un) =
        map (\<lambda>l. l\<lparr>uvl_a := uvl_a l * ?f, uvl_b := uvl_b l * ?f, uvl_w1 := uvl_w1 l * ?g,
                     uvl_w2 := uvl_w2 l * ?g\<rparr>) (uvl loads)"
    by (simp add: convertLoadsToBaseUnits_def convertLength_base convertForce_base)
  show ?thesis
    unfolding centroids_defined_def eq list_all_iff set_map
    by (simp only: ball_simps uvl_centroid_defined_scaled [OF f g])
qed

lemma moment_applied_at_base:
  "moment_applied_at (convertLoadsToBaseUnits loads un)
     (convertSupportsToBaseUnits supports (u_length un))
     (len * js_or (LENGTH_CONVERSIONS (u_length un)) 1)
     (p * js_or (LENGTH_CONVERSIONS (u_length un)) 1)
   \<longleftrightarrow> moment_applied_at loads supports len p"
proof -
  let ?f = "js_or (LENGTH_CONVERSIONS (u_length un)) 1"
  have f: "?f \<noteq> 0" by (rule js_or_1_neq_0)
  have m: "ml_x ` set (moment (convertLoadsToBaseUnits loads un)) =
           (\<lambda>x. x * ?f) ` ml_x ` set (moment loads)"
    by (simp add: convertLoadsToBaseUnits_def convertLength_base image_image)
  have inj: "p * ?f \<in> (\<lambda>x. x * ?f) ` A \<longleftrightarrow> p \<in> A" for A
    using f by auto
  have ty: "s_type (convertSupportsToBaseUnits supports (u_length un)) = s_type supports"
    by (simp add: convertSupportsToBaseUnits_def)
  have fx: "p * ?f = fixed_end (convertSupportsToBaseUnits supports (u_length un)) (len * ?f)
            \<longleftrightarrow> p = fixed_end supports len" if "s_type supports = Fixed"
    using that f by (simp add: convertSupportsToBaseUnits_def fixed_end_def)
  show ?thesis
    unfolding moment_applied_at_def m inj ty using fx by auto
qed

text \<open>The moment segments of a valid analysis, read off the base-unit computation.\<close>

lemma M_segments_valid:
  assumes "isValid (calculateBeamAnalysis bd supports loads)"
  defines "bl \<equiv> convertLoadsToBaseUnits loads (units bd)"
    and "bs \<equiv> convertSupportsToBaseUnits supports (u_length (units bd))"
    and "L \<equiv> convertLength (beam_length bd) (u_length (units bd)) (u_length BASE_UNITS)"
  defines "rs \<equiv> calculateReactions bl bs L" and "evs \<equiv> generateEvents bl bs L"
  shows "M_segments (calculateBeamAnalysis bd supports loads) =
         convertSegmentsToDisplayUnits
           (map (\<lambda>i. moment_segment (shear_segment bl rs (evs ! i) (evs ! (i + 1))) bl rs
                        (evs ! i) (evs ! (i + 1)))
              [0..<length evs - 1]) (units bd)"
proof -
  from assms(1) have pos: "0 < beam_length bd"
    and valid: "validateSupports (convertSupportsToBaseUnits supports (u_length (units bd)))
     (convertLength (beam_length bd) (u_length (units bd)) (u_length BASE_UNITS))"
    by (simp_all add: isValid_calculateBeamAnalysis)
  show ?thesis
    unfolding calculateBeamAnalysis_valid [OF pos valid] Let_def
    by (simp add: analysis_display_def bl_def bs_def L_def rs_def evs_def)
qed

lemma display_moment_values:
  assumes "j < length segs"
  shows "M_a (convertSegmentsToDisplayUnits segs un ! j) =
         map_option (\<lambda>v. convertForceN v (u_force BASE_UNITS) (u_force un)
                          * Fin (convertLength 1 (u_length BASE_UNITS) (u_length un)))
           (M_a (segs ! j))"
    and "M_b (convertSegmentsToDisplayUnits segs un ! j) =
         map_option (\<lambda>v. convertForceN v (u_force BASE_UNITS) (u_force un)
                          * Fin (convertLength 1 (u_length BASE_UNITS) (u_length un)))
           (M_b (segs ! j))"
  using assms by (simp_all add: convertSegmentsToDisplayUnits_def)

lemma display_moment_finite:
  "\<exists>m'. convertForceN (Fin m) (u_force BASE_UNITS) (u_force un)
         * Fin (convertLength 1 (u_length BASE_UNITS) (u_length un)) = Fin m'"
  using js_or_1_neq_0 [of "FORCE_CONVERSIONS (u_force un)"]
  by (simp add: convertForceN_def jsnum_arith BASE_UNITS_def FORCE_CONVERSIONS_def js_or_def)

text \<open>
  C3, as the code has it. Take a valid analysis and two consecutive moment segments \<open>i\<close> and
  \<open>i + 1\<close>. If no couple acts at their shared boundary (no applied moment load, and not the
  moment reaction of a fixed support), every distributed load has \<open>a \<le> b\<close>, at most one
  distributed load is active on segment \<open>i\<close>, and no linearly varying load makes the
  moment builder divide by zero at either end of segment \<open>i\<close>, then the end value \<open>M_b\<close>
  of segment \<open>i\<close> and the start value \<open>M_a\<close> of segment \<open>i + 1\<close> are the same finite
  number.
\<close>

theorem moment_continuous_between_segments:
  assumes valid: "isValid (calculateBeamAnalysis bd supports loads)"
    and i: "Suc i < length (M_segments (calculateBeamAnalysis bd supports loads))"
    and nomom: "\<not> moment_applied_at loads supports (beam_length bd)
                   (seg_b (M_segments (calculateBeamAnalysis bd supports loads) ! i))"
    and ord: "spans_ordered loads"
    and one: "active_count loads
                (seg_a (M_segments (calculateBeamAnalysis bd supports loads) ! i))
                (seg_b (M_segments (calculateBeamAnalysis bd supports loads) ! i)) \<le> 1"
    and defa: "centroids_defined loads
                (seg_a (M_segments (calculateBeamAnalysis bd supports loads) ! i))"
    and defb: "centroids_defined loads
                (seg_b (M_segments (calculateBeamAnalysis bd supports loads) ! i))"
  shows "\<exists>m. M_b (M_segments (calculateBeamAnalysis bd supports loads) ! i) = Some (Fin m)
             \<and> M_a (M_segments (calculateBeamAnalysis bd supports loads) ! Suc i) = Some (Fin m)"
proof -
  let ?r = "calculateBeamAnalysis bd supports loads"
  let ?un = "units bd"
  let ?f = "js_or (LENGTH_CONVERSIONS (u_length ?un)) 1"
  define bl where "bl = convertLoadsToBaseUnits loads ?un"
  define bs where "bs = convertSupportsToBaseUnits supports (u_length ?un)"
  define L where "L = convertLength (beam_length bd) (u_length ?un) (u_length BASE_UNITS)"
  define rs where "rs = calculateReactions bl bs L"
  define evs where "evs = generateEvents bl bs L"
  define Ms where "Ms = map (\<lambda>i. moment_segment (shear_segment bl rs (evs ! i) (evs ! (i + 1)))
                               bl rs (evs ! i) (evs ! (i + 1))) [0..<length evs - 1]"
  have f: "?f \<noteq> 0" by (rule js_or_1_neq_0)
  have M: "M_segments ?r = convertSegmentsToDisplayUnits Ms ?un"
    unfolding Ms_def evs_def rs_def bl_def bs_def L_def by (rule M_segments_valid [OF valid])
  have len: "length (M_segments ?r) = length evs - 1"
    by (simp add: M Ms_def convertSegmentsToDisplayUnits_def)
  with i have i': "Suc i < length evs - 1" and i0: "i < length evs - 1"
    by simp_all
  then have i2: "Suc i < length evs"
    by simp
  have Mi: "Ms ! i = moment_segment (shear_segment bl rs (evs ! i) (evs ! Suc i)) bl rs
                        (evs ! i) (evs ! Suc i)"
    using i0 by (simp add: Ms_def)
  have MSi: "Ms ! Suc i = moment_segment (shear_segment bl rs (evs ! Suc i) (evs ! Suc (Suc i)))
                        bl rs (evs ! Suc i) (evs ! Suc (Suc i))"
    using i' by (simp add: Ms_def)
  have lenMs: "i < length Ms" "Suc i < length Ms"
    using i' by (simp_all add: Ms_def)
  have a: "seg_a (M_segments ?r ! i) * ?f = evs ! i"
    and b: "seg_b (M_segments ?r ! i) * ?f = evs ! Suc i"
    using lenMs(1) f
    by (simp_all add: M convertSegmentsToDisplayUnits_def Mi convertLength_base)
  have Lf: "L = beam_length bd * ?f"
    by (simp add: L_def convertLength_base)
  have ord': "spans_ordered bl"
    unfolding bl_def by (simp add: spans_ordered_base ord)
  have one': "active_count bl (evs ! i) (evs ! Suc i) \<le> 1"
    unfolding bl_def a [symmetric] b [symmetric] active_count_base by (rule one)
  have defa': "centroids_defined bl (evs ! i)"
    unfolding bl_def a [symmetric] centroids_defined_base by (rule defa)
  have defb': "centroids_defined bl (evs ! Suc i)"
    unfolding bl_def b [symmetric] centroids_defined_base by (rule defb)
  have nomom': "\<not> moment_applied_at bl bs L (evs ! Suc i)"
    unfolding bl_def bs_def Lf b [symmetric] moment_applied_at_base by (rule nomom)
  from moment_continuous_base [of i bl bs L, folded evs_def rs_def,
      OF i2 ord' one' defa' defb' nomom']
  obtain m where m: "M_b (Ms ! i) = Some (Fin m)" "M_a (Ms ! Suc i) = Some (Fin m)"
    unfolding Mi MSi by blast
  obtain m' where m': "convertForceN (Fin m) (u_force BASE_UNITS) (u_force ?un)
         * Fin (convertLength 1 (u_length BASE_UNITS) (u_length ?un)) = Fin m'"
    using display_moment_finite by blast
  have "M_b (M_segments ?r ! i) = Some (Fin m')"
    unfolding M display_moment_values(2) [OF lenMs(1)] m by (simp add: m')
  moreover have "M_a (M_segments ?r ! Suc i) = Some (Fin m')"
    unfolding M display_moment_values(1) [OF lenMs(2)] m by (simp add: m')
  ultimately show ?thesis
    by blast
qed

subsection \<open>Two inputs on the 20 m beam\<close>

lemma overlap_base:
  "convertLoadsToBaseUnits overlap_loads (units couple_beam) = overlap_loads"
  "convertLoadsToBaseUnits single_udl_loads (units couple_beam) = single_udl_loads"
  by (simp_all add: convertLoadsToBaseUnits_def overlap_loads_def single_udl_loads_def
      couple_beam_def no_loads_def units_m_N_def BASE_UNITS_def conv_m_N)

lemma overlap_reactions:
  "calculateReactions overlap_loads couple_supports 20 = overlap_reactions"
  by (simp add: calculateReactions_def couple_supports_def overlap_loads_def no_loads_def
      js_or_def add_udl_def totals0_def overlap_reactions_def)

lemma single_udl_reactions:
  "calculateReactions single_udl_loads couple_supports 20 = single_udl_reactions"
  by (simp add: calculateReactions_def couple_supports_def single_udl_loads_def no_loads_def
      js_or_def add_udl_def totals0_def single_udl_reactions_def)

lemma overlap_events:
  "generateEvents overlap_loads couple_supports 20 = [0, 10, 20]"
  "generateEvents single_udl_loads couple_supports 20 = [0, 10, 20]"
  by (simp_all add: generateEvents_def couple_supports_def overlap_loads_def single_udl_loads_def
      no_loads_def js_or_def set_add_def)

lemma overlap_shear:
  "calculateShearSegments overlap_loads overlap_reactions [0, 10, 20] 20 =
   [\<lparr>seg_a = 0, seg_b = 10, seg_type = Linear, V_a = Some 15, V_b = Some 5,
      M_a = None, M_b = None, coeffs = Some [Fin 15, Fin (- 1)]\<rparr>,
    \<lparr>seg_a = 10, seg_b = 20, seg_type = Const, V_a = Some (- 5), V_b = Some (- 5),
      M_a = None, M_b = None, coeffs = Some [Fin (- 5)]\<rparr>]"
  by (simp add: shear_defs upt_small overlap_loads_def no_loads_def overlap_reactions_def
      js_or_def Let_def)

lemma overlap_moment:
  "calculateMomentSegments
     [\<lparr>seg_a = 0, seg_b = 10, seg_type = Linear, V_a = Some 15, V_b = Some 5,
        M_a = None, M_b = None, coeffs = Some [Fin 15, Fin (- 1)]\<rparr>,
      \<lparr>seg_a = 10, seg_b = 20, seg_type = Const, V_a = Some (- 5), V_b = Some (- 5),
        M_a = None, M_b = None, coeffs = Some [Fin (- 5)]\<rparr>]
     overlap_loads overlap_reactions [0, 10, 20] 20 =
   Some
    [\<lparr>seg_a = 0, seg_b = 10, seg_type = Quadratic, V_a = None, V_b = None,
       M_a = Some (Fin 0), M_b = Some (Fin 100),
       coeffs = Some [Fin 0, Fin 15, Fin (- 1 / 2)]\<rparr>,
     \<lparr>seg_a = 10, seg_b = 20, seg_type = Linear, V_a = None, V_b = None,
       M_a = Some (Fin 50), M_b = Some (Fin 0), coeffs = Some [Fin 50, Fin (- 5)]\<rparr>]"
  by (simp add: moment_defs upt_small overlap_loads_def no_loads_def overlap_reactions_def
      js_or_def jsnum_arith Let_def)

text \<open>
  C3 fails where distributed loads overlap: under two uniform loads of intensity 1 over the
  first half of a 20 m beam, with no moment load at all, the first moment segment ends at
  100 and the second one starts at 50.
\<close>

theorem overlapping_loads_counterexample:
  "isValid (calculateBeamAnalysis couple_beam couple_supports overlap_loads)
   \<and> moment overlap_loads = []
   \<and> map M_b (M_segments (calculateBeamAnalysis couple_beam couple_supports overlap_loads)) =
      [Some (Fin 100), Some (Fin 0)]
   \<and> map M_a (M_segments (calculateBeamAnalysis couple_beam couple_supports overlap_loads)) =
      [Some (Fin 0), Some (Fin 50)]
   \<and> M_b (M_segments (calculateBeamAnalysis couple_beam couple_supports overlap_loads) ! 0)
      \<noteq> M_a (M_segments (calculateBeamAnalysis couple_beam couple_supports overlap_loads) ! 1)"
proof -
  have pos: "0 < beam_length couple_beam"
    by (simp add: couple_beam_def)
  have valid: "validateSupports couple_supports 20"
    by (simp add: validateSupports_def couple_supports_def js_or_def)
  note r = calculateBeamAnalysis_steps [OF pos couple_base(1) overlap_base(1) couple_base(3)
      valid overlap_reactions overlap_events(1) overlap_shear overlap_moment refl]
  have Ms: "M_segments (calculateBeamAnalysis couple_beam couple_supports overlap_loads) =
    [\<lparr>seg_a = 0, seg_b = 10, seg_type = Quadratic, V_a = None, V_b = None,
       M_a = Some (Fin 0), M_b = Some (Fin 100),
       coeffs = Some [Fin 0, Fin 15, Fin (- 1 / 2)]\<rparr>,
     \<lparr>seg_a = 10, seg_b = 20, seg_type = Linear, V_a = None, V_b = None,
       M_a = Some (Fin 50), M_b = Some (Fin 0), coeffs = Some [Fin 50, Fin (- 5)]\<rparr>]"
    unfolding r
    by (simp add: analysis_display_def convertSegmentsToDisplayUnits_def
        couple_beam_def units_m_N_def BASE_UNITS_def conv_m_N jsnum_arith)
  have v: "isValid (calculateBeamAnalysis couple_beam couple_supports overlap_loads)"
    unfolding r by simp
  have m: "moment overlap_loads = []"
    by (simp add: overlap_loads_def no_loads_def)
  show ?thesis
    unfolding Ms using v m by simp
qed

lemma single_udl_shear:
  "calculateShearSegments single_udl_loads single_udl_reactions [0, 10, 20] 20 =
   [\<lparr>seg_a = 0, seg_b = 10, seg_type = Linear, V_a = Some (15 / 2), V_b = Some (- 5 / 2),
      M_a = None, M_b = None, coeffs = Some [Fin (15 / 2), Fin (- 1)]\<rparr>,
    \<lparr>seg_a = 10, seg_b = 20, seg_type = Const, V_a = Some (- 5 / 2), V_b = Some (- 5 / 2),
      M_a = None, M_b = None, coeffs = Some [Fin (- 5 / 2)]\<rparr>]"
  by (simp add: shear_defs upt_small single_udl_loads_def no_loads_def single_udl_reactions_def
      js_or_def Let_def)

lemma single_udl_moment:
  "calculateMomentSegments
     [\<lparr>seg_a = 0, seg_b = 10, seg_type = Linear, V_a = Some (15 / 2), V_b = Some (- 5 / 2),
        M_a = None, M_b = None, coeffs = Some [Fin (15 / 2), Fin (- 1)]\<rparr>,
      \<lparr>seg_a = 10, seg_b = 20, seg_type = Const, V_a = Some (- 5 / 2), V_b = Some (- 5 / 2),
        M_a = None, M_b = None, coeffs = Some [Fin (- 5 / 2)]\<rparr>]
     single_udl_loads single_udl_reactions [0, 10, 20] 20 =
   Some
    [\<lparr>seg_a = 0, seg_b = 10, seg_type = Quadratic, V_a = None, V_b = None,
       M_a = Some (Fin 0), M_b = Some (Fin 25),
       coeffs = Some [Fin 0, Fin (15 / 2), Fin (- 1 / 2)]\<rparr>,
     \<lparr>seg_a = 10, seg_b = 20, seg_type = Linear, V_a = None, V_b = None,
       M_a = Some (Fin 25), M_b = Some (Fin 0), coeffs = Some [Fin 25, Fin (- 5 / 2)]\<rparr>]"
  by (simp add: moment_defs upt_small single_udl_loads_def no_loads_def single_udl_reactions_def
      js_or_def jsnum_arith Let_def)

theorem moment_continuous_between_segments_witness:
  "isValid (calculateBeamAnalysis couple_beam couple_supports single_udl_loads)
   \<and> map seg_b (M_segments (calculateBeamAnalysis couple_beam couple_supports single_udl_loads))
       = [10, 20]
   \<and> \<not> moment_applied_at single_udl_loads couple_supports (beam_length couple_beam) 10
   \<and> spans_ordered single_udl_loads
   \<and> active_count single_udl_loads 0 10 = 1
   \<and> centroids_defined single_udl_loads 0 \<and> centroids_defined single_udl_loads 10
   \<and> M_b (M_segments (calculateBeamAnalysis couple_beam couple_supports single_udl_loads) ! 0)
       = Some (Fin 25)
   \<and> M_a (M_segments (calculateBeamAnalysis couple_beam couple_supports single_udl_loads) ! Suc 0)
       = Some (Fin 25)"
proof -
  let ?r = "calculateBeamAnalysis couple_beam couple_supports single_udl_loads"
  have pos: "0 < beam_length couple_beam"
    by (simp add: couple_beam_def)
  have valid: "validateSupports couple_supports 20"
    by (simp add: validateSupports_def couple_supports_def js_or_def)
  note r = calculateBeamAnalysis_steps [OF pos couple_base(1) overlap_base(2) couple_base(3)
      valid single_udl_reactions overlap_events(2) single_udl_shear single_udl_moment refl]
  have ends: "map (\<lambda>s. (seg_a s, seg_b s, M_a s)) (M_segments ?r) =
              [(0, 10, Some (Fin 0)), (10, 20, Some (Fin 25))]"
    unfolding r
    by (simp add: analysis_display_def convertSegmentsToDisplayUnits_def
        couple_beam_def units_m_N_def BASE_UNITS_def conv_m_N jsnum_arith)
  then obtain s0 s1 where Ms: "M_segments ?r = [s0, s1]"
    and s0: "seg_a s0 = 0" "seg_b s0 = 10" and s1: "M_a s1 = Some (Fin 25)" "seg_b s1 = 20"
    by (auto simp: map_eq_Cons_conv)
  have v: "isValid ?r"
    unfolding r by simp
  have i: "Suc 0 < length (M_segments ?r)"
    by (simp add: Ms)
  have nomom: "\<not> moment_applied_at single_udl_loads couple_supports (beam_length couple_beam) 10"
    by (simp add: moment_applied_at_def single_udl_loads_def no_loads_def couple_supports_def)
  have ord: "spans_ordered single_udl_loads"
    by (simp add: spans_ordered_def single_udl_loads_def no_loads_def)
  have one: "active_count single_udl_loads 0 10 = 1"
    by (simp add: active_count_def udl_active_def single_udl_loads_def no_loads_def)
  have def: "centroids_defined single_udl_loads 0" "centroids_defined single_udl_loads 10"
    by (simp_all add: centroids_defined_def single_udl_loads_def no_loads_def)
  have a: "seg_a (M_segments ?r ! 0) = 0" and b: "seg_b (M_segments ?r ! 0) = 10"
    by (simp_all add: Ms s0)
  from moment_continuous_between_segments [OF v i, unfolded a b, OF nomom ord _ def] one
  obtain m where "M_b (M_segments ?r ! 0) = Some (Fin m)"
    and "M_a (M_segments ?r ! Suc 0) = Some (Fin m)"
    by auto
  moreover have "M_a (M_segments ?r ! Suc 0) = Some (Fin 25)"
    by (simp add: Ms s1)
  ultimately have "M_b (M_segments ?r ! 0) = Some (Fin 25)"
    "M_a (M_segments ?r ! Suc 0) = Some (Fin 25)"
    by simp_all
  moreover have "map seg_b (M_segments ?r) = [10, 20]"
    by (simp add: Ms s0 s1)
  ultimately show ?thesis
    using v nomom ord one def by simp
qed
section \<open>Shear samples of an analysis\<close>

text \<open>
  The loop of the sampler runs from 0 to \<open>numPoints\<close> inclusive, so a segment gives
  \<open>numPoints + 1\<close> points.
\<close>

lemma sample_numPoints_points:
  "sample_numPoints s = points_per_segment (seg_type s) - 1"
  "0 < points_per_segment (seg_type s)"
  by (cases "seg_type s"; simp add: sample_numPoints_def points_per_segment_def)+

lemma sp_x_sample_point: "sp_x (sample_point s i) = round3 (sample_x s i)"
  by (simp add: sample_point_def sample_x_def sample_numPoints_points Let_def)

lemma upt_points:
  "[0..<sample_numPoints s + 1] = [0..<points_per_segment (seg_type s)]"
  "[0..<Suc (sample_numPoints s)] = [0..<points_per_segment (seg_type s)]"
  using sample_numPoints_points [of s] by simp_all

lemma dataPoints_positions:
  "map sp_x (dataPoints r) =
   concat (map (\<lambda>s. map (\<lambda>i. round3 (sample_x s i)) [0..<points_per_segment (seg_type s)])
             (V_segments r))"
  by (simp add: dataPoints_def map_concat segment_points_def upt_points sp_x_sample_point comp_def
      del: upt_Suc)

lemma length_dataPoints:
  "length (dataPoints r) =
   sum_list (map (\<lambda>s. points_per_segment (seg_type s)) (V_segments r))"
  by (simp add: dataPoints_def length_concat length_segment_points comp_def)

text \<open>
  On a segment that has as many finite coefficients as its type needs, the sampler
  evaluates the polynomial of those coefficients.
\<close>

lemma shear_coefficients_shaped: "shear_shaped s cs \<Longrightarrow> shear_coefficients s = cs"
  by (simp add: shear_shaped_def shear_coefficients_def comp_def)

lemma segment_points_shaped:
  assumes "shear_shaped s cs"
  shows "segment_points s = polynomial_samples s"
  unfolding segment_points_def polynomial_samples_def upt_points
  by (rule map_cong [OF refl])
     (simp add: sample_point_def Let_def sample_value_shaped [OF assms] round3N_def
       shear_coefficients_shaped [OF assms] sample_x_def sample_numPoints_points)

text \<open>
  The shear builder stores the coefficients of the polynomial whose values at the two ends
  of the interval are the \<open>V_a\<close> and \<open>V_b\<close> that it stores beside them.
\<close>

lemma shear_segment_built:
  "\<exists>cs. shear_shaped (shear_segment loads rs a b) cs
        \<and> V_a (shear_segment loads rs a b) = Some (poly_value cs 0)
        \<and> V_b (shear_segment loads rs a b) = Some (poly_value cs (b - a))"
proof -
  obtain hasUDL udlRate where u: "fold (udl_scan_step a b) (udl loads) (False, 0) = (hasUDL, udlRate)"
    by (cases "fold (udl_scan_step a b) (udl loads) (False, 0)")
  obtain hasUVL uvlW1 uvlW2 where
    v: "fold (uvl_scan_step a b) (uvl loads) (False, 0, 0) = (hasUVL, uvlW1, uvlW2)"
    by (cases "fold (uvl_scan_step a b) (uvl loads) (False, 0, 0)")
  show ?thesis
  proof (cases hasUVL)
    case True
    show ?thesis
      by (rule exI [of _ "[shear_start loads rs a, - uvlW1, - ((uvlW2 - uvlW1) / (b - a)) / 2]"])
         (simp add: shear_segment_def u v shear_shaped_def Let_def True algebra_simps)
  next
    case noUVL: False
    show ?thesis
    proof (cases hasUDL)
      case True
      show ?thesis
        by (rule exI [of _ "[shear_start loads rs a, udlRate]"])
           (simp add: shear_segment_def u v shear_shaped_def Let_def True noUVL algebra_simps)
    next
      case False
      show ?thesis
        by (rule exI [of _ "[shear_start loads rs a]"])
           (simp add: shear_segment_def u v shear_shaped_def Let_def False noUVL)
    qed
  qed
qed

lemma shear_segment_fields:
  "seg_a (shear_segment loads rs a b) = a" "seg_b (shear_segment loads rs a b) = b"
  "M_a (shear_segment loads rs a b) = None" "M_b (shear_segment loads rs a b) = None"
  by (simp_all add: shear_segment_def Let_def split_def)

text \<open>In the base units the conversion to display units leaves a shear segment as it is.\<close>

lemma base_display_segment:
  assumes "M_a s = None" and "M_b s = None"
  shows "s\<lparr>seg_a := convertLength (seg_a s) (u_length BASE_UNITS) (u_length BASE_UNITS),
           seg_b := convertLength (seg_b s) (u_length BASE_UNITS) (u_length BASE_UNITS),
           V_a := map_option (\<lambda>v. convertForce v (u_force BASE_UNITS) (u_force BASE_UNITS)) (V_a s),
           V_b := map_option (\<lambda>v. convertForce v (u_force BASE_UNITS) (u_force BASE_UNITS)) (V_b s),
           M_a := map_option (\<lambda>v. convertForceN v (u_force BASE_UNITS) (u_force BASE_UNITS)
                               * Fin (convertLength 1 (u_length BASE_UNITS) (u_length BASE_UNITS)))
                 (M_a s),
           M_b := map_option (\<lambda>v. convertForceN v (u_force BASE_UNITS) (u_force BASE_UNITS)
                               * Fin (convertLength 1 (u_length BASE_UNITS) (u_length BASE_UNITS)))
                 (M_b s)\<rparr> = s"
  using assms by (simp add: BASE_UNITS_def conv_m_N option.map_ident)

lemma base_display_shear:
  "convertSegmentsToDisplayUnits (calculateShearSegments loads rs evs len) BASE_UNITS =
   calculateShearSegments loads rs evs len"
  unfolding convertSegmentsToDisplayUnits_def calculateShearSegments_def map_map comp_def
  by (rule map_cong [OF refl], rule base_display_segment) (simp_all add: shear_segment_fields)


lemma V_segments_calculateBeamAnalysis:
  "\<exists>bl rs evs L.
     V_segments (calculateBeamAnalysis bd supports loads) =
     (if isValid (calculateBeamAnalysis bd supports loads)
      then convertSegmentsToDisplayUnits (calculateShearSegments bl rs evs L) (units bd) else [])"
proof (cases "isValid (calculateBeamAnalysis bd supports loads)")
  case True
  then have pos: "0 < beam_length bd"
    and valid: "validateSupports (convertSupportsToBaseUnits supports (u_length (units bd)))
     (convertLength (beam_length bd) (u_length (units bd)) (u_length BASE_UNITS))"
    by (simp_all add: isValid_calculateBeamAnalysis)
  show ?thesis
    unfolding calculateBeamAnalysis_valid [OF pos valid] Let_def analysis_display_def
    by (simp, blast)
next
  case False
  have "V_segments (calculateBeamAnalysis bd supports loads) = []"
  proof (cases "0 < beam_length bd")
    case True
    with False show ?thesis
      by (simp add: isValid_calculateBeamAnalysis calculateBeamAnalysis_invalid_supports
          createErrorResult_def)
  next
    case False
    then show ?thesis
      by (simp add: calculateBeamAnalysis_invalid_length createErrorResult_def)
  qed
  with False show ?thesis by simp
qed

lemma base_segments_built:
  assumes "units bd = BASE_UNITS"
    and "s \<in> set (V_segments (calculateBeamAnalysis bd supports loads))"
  shows "shear_shaped s (shear_coefficients s)
         \<and> V_a s = Some (poly_value (shear_coefficients s) 0)
         \<and> V_b s = Some (poly_value (shear_coefficients s) (seg_b s - seg_a s))"
proof -
  from V_segments_calculateBeamAnalysis [of bd supports loads] obtain bl rs evs L where
    "V_segments (calculateBeamAnalysis bd supports loads) =
     (if isValid (calculateBeamAnalysis bd supports loads)
      then convertSegmentsToDisplayUnits (calculateShearSegments bl rs evs L) (units bd) else [])"
    by blast
  with assms have "s \<in> set (calculateShearSegments bl rs evs L)"
    by (simp add: base_display_shear split: if_splits)
  then obtain a b where s: "s = shear_segment bl rs a b"
    by (auto simp: calculateShearSegments_def)
  from shear_segment_built [of bl rs a b] obtain cs where
    cs: "shear_shaped s cs" and "V_a s = Some (poly_value cs 0)"
    and "V_b s = Some (poly_value cs (b - a))"
    unfolding s by blast
  moreover have "seg_a s = a" "seg_b s = b"
    by (simp_all add: s shear_segment_fields)
  moreover note shear_coefficients_shaped [OF cs]
  ultimately show ?thesis
    by simp
qed

text \<open>
  C9, as the code has it. The sampler returns the points it collects with the
  near-duplicates of \<open>x\<close> collapsed. Before that, every shear segment of an analysis
  result gives \<open>numPoints + 1\<close> points, \<open>i = 0, \<dots>, numPoints\<close>: 3 for a constant
  segment, 11 for a linear one and 21 for a quadratic one, and the point \<open>i\<close> lies at
  \<open>a + (b - a) \<cdot> i / numPoints\<close>, rounded to three decimals. For an analysis in the base
  units (m, N), the value of the point is the polynomial \<open>c0 + c1 \<cdot> dx + c2 \<cdot> dx\<^sup>2\<close> of the
  segment's coefficients at \<open>dx = x - a\<close>, rounded to three decimals, and that polynomial
  is the one of the shear builder: its values at the two ends of the segment are the
  segment's \<open>V_a\<close> and \<open>V_b\<close>.
\<close>

theorem shear_samples_of_analysis:
  "(let r = calculateBeamAnalysis bd supports loads
    in generateShearForceData r = uniquePoints (dataPoints r)
     \<and> length (dataPoints r) =
         sum_list (map (\<lambda>s. points_per_segment (seg_type s)) (V_segments r))
     \<and> map sp_x (dataPoints r) =
         concat (map (\<lambda>s. map (\<lambda>i. round3 (sample_x s i))
                            [0..<points_per_segment (seg_type s)]) (V_segments r))
     \<and> (units bd = BASE_UNITS \<longrightarrow>
          dataPoints r = concat (map polynomial_samples (V_segments r))
          \<and> (\<forall>s\<in>set (V_segments r).
               coeffs s = Some (map Fin (shear_coefficients s))
               \<and> V_a s = Some (poly_value (shear_coefficients s) 0)
               \<and> V_b s = Some (poly_value (shear_coefficients s) (seg_b s - seg_a s)))))"
proof -
  let ?r = "calculateBeamAnalysis bd supports loads"
  have 1: "generateShearForceData ?r = uniquePoints (dataPoints ?r)"
    by (simp add: generateShearForceData_def)
  note 2 = length_dataPoints [of ?r] and 3 = dataPoints_positions [of ?r]
  have 4: "dataPoints ?r = concat (map polynomial_samples (V_segments ?r))"
    and 5: "\<forall>s\<in>set (V_segments ?r).
               coeffs s = Some (map Fin (shear_coefficients s))
               \<and> V_a s = Some (poly_value (shear_coefficients s) 0)
               \<and> V_b s = Some (poly_value (shear_coefficients s) (seg_b s - seg_a s))"
    if base: "units bd = BASE_UNITS"
  proof -
    have "map segment_points (V_segments ?r) = map polynomial_samples (V_segments ?r)"
      by (rule map_cong [OF refl], rule segment_points_shaped)
         (use base_segments_built [OF base] in blast)
    then show "dataPoints ?r = concat (map polynomial_samples (V_segments ?r))"
      unfolding dataPoints_def by (rule arg_cong)
    show "\<forall>s\<in>set (V_segments ?r).
               coeffs s = Some (map Fin (shear_coefficients s))
               \<and> V_a s = Some (poly_value (shear_coefficients s) 0)
               \<and> V_b s = Some (poly_value (shear_coefficients s) (seg_b s - seg_a s))"
      using base_segments_built [OF base] by (simp add: shear_shaped_def)
  qed
  from 1 2 3 4 5 show ?thesis
    unfolding Let_def by blast
qed


subsection \<open>Two analyses in base units\<close>

lemma V_segments_steps:
  assumes "0 < beam_length bd"
    and "convertLength (beam_length bd) (u_length (units bd)) (u_length BASE_UNITS) = L"
    and "convertLoadsToBaseUnits loads (units bd) = bl"
    and "convertSupportsToBaseUnits supports (u_length (units bd)) = bs"
    and "validateSupports bs L"
    and "calculateReactions bl bs L = rs"
    and "generateEvents bl bs L = evs"
    and "calculateShearSegments bl rs evs L = Vs"
  shows "V_segments (calculateBeamAnalysis bd supports loads) =
         convertSegmentsToDisplayUnits Vs (units bd)"
proof -
  from assms(2,4,5) have valid:
    "validateSupports (convertSupportsToBaseUnits supports (u_length (units bd)))
       (convertLength (beam_length bd) (u_length (units bd)) (u_length BASE_UNITS))"
    by simp
  show ?thesis
    unfolding calculateBeamAnalysis_valid [OF assms(1) valid] Let_def analysis_display_def
    using assms(2-4,6-8) by simp
qed

lemma upt_points_evals:
  "[0..<3] = [0, 1, 2]" "[0..<6] = [0, 1, 2, 3, 4, 5]"
  "[0..<11] = [0, 1, 2, 3, 4, 5, 6, 7, 8, 9, 10]"
  by (simp_all add: upt_rec)

lemma third_base:
  "units third_beam = BASE_UNITS"
  "convertLength (beam_length third_beam) (u_length (units third_beam)) (u_length BASE_UNITS) = 3"
  "convertLoadsToBaseUnits third_loads (units third_beam) = third_loads"
  "convertSupportsToBaseUnits third_supports (u_length (units third_beam)) = third_supports"
  by (simp_all add: convertLoadsToBaseUnits_def convertSupportsToBaseUnits_def
      third_loads_def third_beam_def third_supports_def no_loads_def BASE_UNITS_def conv_m_N
      js_or_def)

lemma third_reactions:
  "calculateReactions third_loads third_supports 3 =
   [\<lparr>r_type = Vertical, r_at = ''pin'', r_x = Some 0, r_R = Some (2 / 3), r_M = None,
      r_H = None\<rparr>,
    \<lparr>r_type = Vertical, r_at = ''roller'', r_x = Some 3, r_R = Some (1 / 3), r_M = None,
      r_H = None\<rparr>]"
  by (simp add: calculateReactions_def third_supports_def third_loads_def no_loads_def js_or_def
      add_point_def totals0_def)

lemma third_events: "generateEvents third_loads third_supports 3 = [0, 1, 3]"
  by (simp add: generateEvents_def third_supports_def third_loads_def no_loads_def js_or_def
      set_add_def)

lemma third_shear:
  "calculateShearSegments third_loads
     [\<lparr>r_type = Vertical, r_at = ''pin'', r_x = Some 0, r_R = Some (2 / 3), r_M = None,
        r_H = None\<rparr>,
      \<lparr>r_type = Vertical, r_at = ''roller'', r_x = Some 3, r_R = Some (1 / 3), r_M = None,
        r_H = None\<rparr>]
     [0, 1, 3] 3 =
   [\<lparr>seg_a = 0, seg_b = 1, seg_type = Const, V_a = Some (2 / 3), V_b = Some (2 / 3),
      M_a = None, M_b = None, coeffs = Some [Fin (2 / 3)]\<rparr>,
    \<lparr>seg_a = 1, seg_b = 3, seg_type = Const, V_a = Some (- 1 / 3), V_b = Some (- 1 / 3),
      M_a = None, M_b = None, coeffs = Some [Fin (- 1 / 3)]\<rparr>]"
  by (simp add: shear_defs upt_small third_loads_def no_loads_def js_or_def Let_def)

lemma third_V_segments:
  "V_segments (calculateBeamAnalysis third_beam third_supports third_loads) =
   [\<lparr>seg_a = 0, seg_b = 1, seg_type = Const, V_a = Some (2 / 3), V_b = Some (2 / 3),
      M_a = None, M_b = None, coeffs = Some [Fin (2 / 3)]\<rparr>,
    \<lparr>seg_a = 1, seg_b = 3, seg_type = Const, V_a = Some (- 1 / 3), V_b = Some (- 1 / 3),
      M_a = None, M_b = None, coeffs = Some [Fin (- 1 / 3)]\<rparr>]"
proof -
  have pos: "0 < beam_length third_beam"
    by (simp add: third_beam_def)
  have valid: "validateSupports third_supports 3"
    by (simp add: validateSupports_def third_supports_def js_or_def)
  show ?thesis
    unfolding V_segments_steps [OF pos third_base(2-4) valid third_reactions third_events
        third_shear]
    by (simp add: convertSegmentsToDisplayUnits_def third_beam_def BASE_UNITS_def conv_m_N)
qed

lemma third_roundings:
  "round3 0 = 0" "round3 (1 / 2) = 1 / 2" "round3 1 = 1" "round3 2 = 2" "round3 3 = 3"
  "round3 (2 / 3) = 667 / 1000" "round3 (- (1 / 3)) = - (333 / 1000)"
  by (simp_all add: round3_def Math_round_def)

lemma third_dataPoints:
  "dataPoints (calculateBeamAnalysis third_beam third_supports third_loads) =
   [\<lparr>sp_x = 0, shearForce = Fin (667 / 1000)\<rparr>,
    \<lparr>sp_x = 1 / 2, shearForce = Fin (667 / 1000)\<rparr>,
    \<lparr>sp_x = 1, shearForce = Fin (667 / 1000)\<rparr>,
    \<lparr>sp_x = 1, shearForce = Fin (- 333 / 1000)\<rparr>,
    \<lparr>sp_x = 2, shearForce = Fin (- 333 / 1000)\<rparr>,
    \<lparr>sp_x = 3, shearForce = Fin (- 333 / 1000)\<rparr>]"
  by (simp add: dataPoints_def third_V_segments segment_points_def sample_numPoints_def
      upt_points_evals sample_point_def sample_value_def at_index_def num_of_opt_def
      round3N_def third_roundings Let_def)

text \<open>
  C9 fails on the 3 m beam with 1 N at 1 m, whose shear is 2/3 up to the load and -1/3
  after it: the sampler collects three points on each of the two constant segments, six
  and not four, and the values it emits are 0.667 and -0.333, not 2/3 and -1/3. It returns
  five of the six points, the second point at \<open>x = 1\<close> being collapsed.
\<close>

theorem three_rounded_points_counterexample:
  "units third_beam = BASE_UNITS
   \<and> map seg_type (V_segments (calculateBeamAnalysis third_beam third_supports third_loads)) =
      [Const, Const]
   \<and> map coeffs (V_segments (calculateBeamAnalysis third_beam third_supports third_loads)) =
      [Some [Fin (2 / 3)], Some [Fin (- 1 / 3)]]
   \<and> dataPoints (calculateBeamAnalysis third_beam third_supports third_loads) =
      [\<lparr>sp_x = 0, shearForce = Fin (667 / 1000)\<rparr>,
       \<lparr>sp_x = 1 / 2, shearForce = Fin (667 / 1000)\<rparr>,
       \<lparr>sp_x = 1, shearForce = Fin (667 / 1000)\<rparr>,
       \<lparr>sp_x = 1, shearForce = Fin (- 333 / 1000)\<rparr>,
       \<lparr>sp_x = 2, shearForce = Fin (- 333 / 1000)\<rparr>,
       \<lparr>sp_x = 3, shearForce = Fin (- 333 / 1000)\<rparr>]
   \<and> length (dataPoints (calculateBeamAnalysis third_beam third_supports third_loads)) \<noteq> 2 + 2
   \<and> shearForce (dataPoints (calculateBeamAnalysis third_beam third_supports third_loads) ! 0)
      \<noteq> Fin (2 / 3)
   \<and> generateShearForceData (calculateBeamAnalysis third_beam third_supports third_loads) =
      [\<lparr>sp_x = 0, shearForce = Fin (667 / 1000)\<rparr>,
       \<lparr>sp_x = 1 / 2, shearForce = Fin (667 / 1000)\<rparr>,
       \<lparr>sp_x = 1, shearForce = Fin (667 / 1000)\<rparr>,
       \<lparr>sp_x = 2, shearForce = Fin (- 333 / 1000)\<rparr>,
       \<lparr>sp_x = 3, shearForce = Fin (- 333 / 1000)\<rparr>]"
  by (simp add: third_base(1) third_V_segments third_dataPoints generateShearForceData_def
      uniquePoints_def upt_points_evals)


lemma single_udl_V_segments:
  "V_segments (calculateBeamAnalysis couple_beam couple_supports single_udl_loads) =
   [\<lparr>seg_a = 0, seg_b = 10, seg_type = Linear, V_a = Some (15 / 2), V_b = Some (- 5 / 2),
      M_a = None, M_b = None, coeffs = Some [Fin (15 / 2), Fin (- 1)]\<rparr>,
    \<lparr>seg_a = 10, seg_b = 20, seg_type = Const, V_a = Some (- 5 / 2), V_b = Some (- 5 / 2),
      M_a = None, M_b = None, coeffs = Some [Fin (- 5 / 2)]\<rparr>]"
proof -
  have pos: "0 < beam_length couple_beam"
    by (simp add: couple_beam_def)
  have valid: "validateSupports couple_supports 20"
    by (simp add: validateSupports_def couple_supports_def js_or_def)
  show ?thesis
    unfolding V_segments_steps [OF pos couple_base(1) overlap_base(2) couple_base(3) valid
        single_udl_reactions overlap_events(2) single_udl_shear]
    by (simp add: convertSegmentsToDisplayUnits_def couple_beam_def units_m_N_def BASE_UNITS_def
        conv_m_N)
qed

text \<open>
  The 20 m beam (m, N) under a uniform load of 1 over its first half: eleven points on the
  linear segment, from 7.5 at 0 down to -2.5 at 10, and three on the constant one.
\<close>

theorem shear_samples_of_analysis_witness:
  "units couple_beam = BASE_UNITS
   \<and> map seg_type
        (V_segments (calculateBeamAnalysis couple_beam couple_supports single_udl_loads)) =
      [Linear, Const]
   \<and> map V_a (V_segments (calculateBeamAnalysis couple_beam couple_supports single_udl_loads)) =
      [Some (15 / 2), Some (- 5 / 2)]
   \<and> map V_b (V_segments (calculateBeamAnalysis couple_beam couple_supports single_udl_loads)) =
      [Some (- 5 / 2), Some (- 5 / 2)]
   \<and> length (dataPoints (calculateBeamAnalysis couple_beam couple_supports single_udl_loads)) =
      11 + 3
   \<and> dataPoints (calculateBeamAnalysis couple_beam couple_supports single_udl_loads) =
      [\<lparr>sp_x = 0, shearForce = Fin (15 / 2)\<rparr>, \<lparr>sp_x = 1, shearForce = Fin (13 / 2)\<rparr>,
       \<lparr>sp_x = 2, shearForce = Fin (11 / 2)\<rparr>, \<lparr>sp_x = 3, shearForce = Fin (9 / 2)\<rparr>,
       \<lparr>sp_x = 4, shearForce = Fin (7 / 2)\<rparr>, \<lparr>sp_x = 5, shearForce = Fin (5 / 2)\<rparr>,
       \<lparr>sp_x = 6, shearForce = Fin (3 / 2)\<rparr>, \<lparr>sp_x = 7, shearForce = Fin (1 / 2)\<rparr>,
       \<lparr>sp_x = 8, shearForce = Fin (- 1 / 2)\<rparr>, \<lparr>sp_x = 9, shearForce = Fin (- 3 / 2)\<rparr>,
       \<lparr>sp_x = 10, shearForce = Fin (- 5 / 2)\<rparr>,
       \<lparr>sp_x = 10, shearForce = Fin (- 5 / 2)\<rparr>, \<lparr>sp_x = 15, shearForce = Fin (- 5 / 2)\<rparr>,
       \<lparr>sp_x = 20, shearForce = Fin (- 5 / 2)\<rparr>]"
proof -
  let ?r = "calculateBeamAnalysis couple_beam couple_supports single_udl_loads"
  have base: "units couple_beam = BASE_UNITS"
    by (simp add: couple_beam_def units_m_N_def BASE_UNITS_def)
  note all = shear_samples_of_analysis [of couple_beam couple_supports single_udl_loads,
      unfolded Let_def]
  from all have len: "length (dataPoints ?r) =
      sum_list (map (\<lambda>s. points_per_segment (seg_type s)) (V_segments ?r))"
    by (rule conjunct2 [THEN conjunct1])
  from all have "units couple_beam = BASE_UNITS \<longrightarrow>
      dataPoints ?r = concat (map polynomial_samples (V_segments ?r))
      \<and> (\<forall>s\<in>set (V_segments ?r).
           coeffs s = Some (map Fin (shear_coefficients s))
           \<and> V_a s = Some (poly_value (shear_coefficients s) 0)
           \<and> V_b s = Some (poly_value (shear_coefficients s) (seg_b s - seg_a s)))"
    by (rule conjunct2 [THEN conjunct2, THEN conjunct2])
  with base have dp: "dataPoints ?r = concat (map polynomial_samples (V_segments ?r))"
    by blast
  have n: "length (dataPoints ?r) = 11 + 3"
    unfolding len single_udl_V_segments by (simp add: points_per_segment_def)
  have pts: "dataPoints ?r =
      [\<lparr>sp_x = 0, shearForce = Fin (15 / 2)\<rparr>, \<lparr>sp_x = 1, shearForce = Fin (13 / 2)\<rparr>,
       \<lparr>sp_x = 2, shearForce = Fin (11 / 2)\<rparr>, \<lparr>sp_x = 3, shearForce = Fin (9 / 2)\<rparr>,
       \<lparr>sp_x = 4, shearForce = Fin (7 / 2)\<rparr>, \<lparr>sp_x = 5, shearForce = Fin (5 / 2)\<rparr>,
       \<lparr>sp_x = 6, shearForce = Fin (3 / 2)\<rparr>, \<lparr>sp_x = 7, shearForce = Fin (1 / 2)\<rparr>,
       \<lparr>sp_x = 8, shearForce = Fin (- 1 / 2)\<rparr>, \<lparr>sp_x = 9, shearForce = Fin (- 3 / 2)\<rparr>,
       \<lparr>sp_x = 10, shearForce = Fin (- 5 / 2)\<rparr>,
       \<lparr>sp_x = 10, shearForce = Fin (- 5 / 2)\<rparr>, \<lparr>sp_x = 15, shearForce = Fin (- 5 / 2)\<rparr>,
       \<lparr>sp_x = 20, shearForce = Fin (- 5 / 2)\<rparr>]"
    unfolding dp single_udl_V_segments
    by (simp add: polynomial_samples_def points_per_segment_def sample_x_def
        shear_coefficients_def upt_points_evals round3_def Math_round_def)
  have segs: "map seg_type (V_segments ?r) = [Linear, Const]"
    "map V_a (V_segments ?r) = [Some (15 / 2), Some (- 5 / 2)]"
    "map V_b (V_segments ?r) = [Some (- 5 / 2), Some (- 5 / 2)]"
    by (simp_all add: single_udl_V_segments)
  from base segs n pts show ?thesis
    by (simp only: simp_thms)
qed

end
